theory Spec2Isabelle
  imports Main
begin

unbundle bit_operations_syntax

chapter \<open>AgriChain: the data-integrity and provenance pipeline\<close>

text \<open>
  A shallow embedding of the services of \<^verbatim>\<open>Server/src/services\<close>:
  \<^item> \<^verbatim>\<open>hash.service.js\<close> (\<^verbatim>\<open>generateHash\<close>, \<^verbatim>\<open>verifyHash\<close>, \<^verbatim>\<open>createAgriDataHash\<close>),
  \<^item> \<^verbatim>\<open>file.service.js\<close> (\<^verbatim>\<open>generateCombinedHash\<close>),
  \<^item> \<^verbatim>\<open>blockchain.service.js\<close> (\<^verbatim>\<open>storeHashOnBlockchain\<close>, \<^verbatim>\<open>retrieveHashFromBlockchain\<close>),
  \<^item> \<^verbatim>\<open>database.service.js\<close> (\<^verbatim>\<open>DatabaseService\<close>),
  \<^item> \<^verbatim>\<open>agrichain.service.js\<close> (\<^verbatim>\<open>storeAgriData\<close>, \<^verbatim>\<open>verifyAgriDataIntegrity\<close>).

  Conventions. A JavaScript exception is a value \<open>Inl e\<close> of a sum type, a normal return is
  \<open>Inr v\<close>; a \<^verbatim>\<open>try { .. } catch\<close> is a case distinction on that sum. What the code reads
  from its surroundings is an explicit argument: the clock (\<^verbatim>\<open>new Date().toISOString()\<close>) is
  a string \<open>now\<close>, the file system is a map from paths to bytes, the ledger and the database
  are records that are passed in and returned. Calls to the logger are left out where the
  evaluation of their arguments cannot throw; where it can (the optional calls of
  \<^verbatim>\<open>substring\<close> in the blockchain service), the exception is part of the model.
\<close>

section \<open>JavaScript values\<close>

text \<open>
  The values that reach the services are those of a parsed JSON request body. A string is
  the list of the bytes of its UTF-8 encoding. Numbers are restricted to integers
  (see \<open>safe_numbers\<close> below for the integers that stand for a number of JavaScript).
  An object is the list of its own properties in insertion order, with distinct keys and
  no integer-like key (JavaScript would enumerate those first).
\<close>

datatype jsval =
    JUndefined
  | JNull
  | JBool bool
  | JNum int
  | JStr string
  | JArr "jsval list"
  | JObj "(string \<times> jsval) list"

datatype js_error =
    Error string
  | TypeError string
  | ValidationError string "string list" nat
  | BlockchainError string string nat
  | RequestError string

text \<open>\<^verbatim>\<open>!v\<close> is true for \<^verbatim>\<open>undefined\<close>, \<^verbatim>\<open>null\<close>, \<^verbatim>\<open>false\<close>, \<^verbatim>\<open>0\<close> and \<^verbatim>\<open>""\<close>.\<close>

fun truthy :: "jsval \<Rightarrow> bool" where
  "truthy JUndefined = False"
| "truthy JNull = False"
| "truthy (JBool b) = b"
| "truthy (JNum n) = (n \<noteq> 0)"
| "truthy (JStr s) = (s \<noteq> [])"
| "truthy (JArr xs) = True"
| "truthy (JObj kvs) = True"

text \<open>\<^verbatim>\<open>a || b\<close>.\<close>

definition js_or :: "jsval \<Rightarrow> jsval \<Rightarrow> jsval" where
  "js_or a b = (if truthy a then a else b)"

text \<open>\<^verbatim>\<open>typeof v === "object"\<close> holds for \<^verbatim>\<open>null\<close>, arrays and objects.\<close>

fun typeof_object :: "jsval \<Rightarrow> bool" where
  "typeof_object JNull = True"
| "typeof_object (JArr xs) = True"
| "typeof_object (JObj kvs) = True"
| "typeof_object v = False"

text \<open>Reading a property of an object: \<^verbatim>\<open>o[k]\<close> is \<^verbatim>\<open>undefined\<close> for a key that is absent.\<close>

definition obj_get :: "(string \<times> jsval) list \<Rightarrow> string \<Rightarrow> jsval" where
  "obj_get kvs k = (case map_of kvs k of None \<Rightarrow> JUndefined | Some v \<Rightarrow> v)"

definition has_key :: "(string \<times> jsval) list \<Rightarrow> string \<Rightarrow> bool" where
  "has_key kvs k = (k \<in> set (map fst kvs))"

text \<open>
  Writing a property, as an object literal or a spread does: an existing key keeps its
  position and takes the new value, a new key goes to the end.
\<close>

fun obj_set :: "string \<Rightarrow> jsval \<Rightarrow> (string \<times> jsval) list \<Rightarrow> (string \<times> jsval) list" where
  "obj_set k v [] = [(k, v)]"
| "obj_set k v ((k', v') # kvs) = (if k' = k then (k, v) # kvs else (k', v') # obj_set k v kvs)"

text \<open>\<^verbatim>\<open>{ ...a, ...b }\<close>: the properties of \<open>b\<close> are written into \<open>a\<close> in order.\<close>

definition spread :: "(string \<times> jsval) list \<Rightarrow> (string \<times> jsval) list \<Rightarrow> (string \<times> jsval) list" where
  "spread a b = foldl (\<lambda>acc kv. obj_set (fst kv) (snd kv) acc) a b"

definition startsWith :: "string \<Rightarrow> string \<Rightarrow> bool" where
  "startsWith p s = (take (length p) s = p)"

fun join :: "string \<Rightarrow> string list \<Rightarrow> string" where
  "join sep [] = []"
| "join sep [x] = x"
| "join sep (x # y # ys) = x @ sep @ join sep (y # ys)"

subsection \<open>Printing numbers and strings\<close>

definition digit_char :: "nat \<Rightarrow> char" where
  "digit_char d = ''0123456789abcdef'' ! (d mod 16)"

text \<open>The decimal digits of an integer that is not negative.\<close>

function show_nat :: "int \<Rightarrow> string" where
  "show_nat n = (if n < 10 then [digit_char (nat n)] else show_nat (n div 10) @ [digit_char (nat (n mod 10))])"
  by pat_completeness auto
termination
  by (relation "measure nat") auto

declare show_nat.simps [simp del]

definition show_int :: "int \<Rightarrow> string" where
  "show_int i = (if i < 0 then CHR ''-'' # show_nat (- i) else show_nat i)"

text \<open>
  \<^verbatim>\<open>s.length\<close> counts UTF-16 code units: one for each code point, two for a code point
  beyond the basic plane, whose UTF-8 form starts with a byte from \<open>0xF0\<close>.
\<close>

definition utf16_units :: "char \<Rightarrow> nat" where
  "utf16_units c = (let b = (of_char c :: nat) in
     if b < 128 then 1 else if b < 192 then 0 else if b < 240 then 1 else 2)"

definition js_length :: "string \<Rightarrow> nat" where
  "js_length s = sum_list (map utf16_units s)"

text \<open>
  \<^verbatim>\<open>JSON.stringify\<close> of a string: quotes around it, a backslash before \<^verbatim>\<open>"\<close> and
  \<^verbatim>\<open>\\<close>, and the control characters below \<open>0x20\<close> as \<^verbatim>\<open>\b \t \n \f \r\<close> or
  \<^verbatim>\<open>\u00XX\<close>.
\<close>

definition escape_char :: "char \<Rightarrow> string" where
  "escape_char c = (let b = (of_char c :: nat) in
     if b = 34 then [CHR 0x5C, CHR 0x22]
     else if b = 92 then [CHR 0x5C, CHR 0x5C]
     else if b = 8 then [CHR 0x5C, CHR ''b'']
     else if b = 9 then [CHR 0x5C, CHR ''t'']
     else if b = 10 then [CHR 0x5C, CHR ''n'']
     else if b = 12 then [CHR 0x5C, CHR ''f'']
     else if b = 13 then [CHR 0x5C, CHR ''r'']
     else if b < 32 then [CHR 0x5C, CHR ''u'', CHR ''0'', CHR ''0'', digit_char (b div 16), digit_char (b mod 16)]
     else [c])"

definition quote :: "string \<Rightarrow> string" where
  "quote s = [CHR 0x22] @ concat (map escape_char s) @ [CHR 0x22]"

subsection \<open>\<^verbatim>\<open>JSON.stringify\<close> and \<^verbatim>\<open>String\<close>\<close>

text \<open>
  \<^verbatim>\<open>JSON.stringify(v)\<close> without indentation. It returns \<^verbatim>\<open>undefined\<close> (here \<open>None\<close>) for
  \<^verbatim>\<open>undefined\<close>; inside an array \<^verbatim>\<open>undefined\<close> prints as \<^verbatim>\<open>null\<close>, inside an object the
  property is skipped.
\<close>

fun stringify :: "jsval \<Rightarrow> string"
  and stringify_elems :: "jsval list \<Rightarrow> string list"
  and stringify_props :: "(string \<times> jsval) list \<Rightarrow> string list" where
  "stringify JUndefined = ''null''"
| "stringify JNull = ''null''"
| "stringify (JBool b) = (if b then ''true'' else ''false'')"
| "stringify (JNum n) = show_int n"
| "stringify (JStr s) = quote s"
| "stringify (JArr xs) = ''['' @ join '','' (stringify_elems xs) @ '']''"
| "stringify (JObj kvs) = ''{'' @ join '','' (stringify_props kvs) @ ''}''"
| "stringify_elems [] = []"
| "stringify_elems (x # xs) = stringify x # stringify_elems xs"
| "stringify_props [] = []"
| "stringify_props ((k, v) # kvs) =
     (if v = JUndefined then stringify_props kvs
      else (quote k @ '':'' @ stringify v) # stringify_props kvs)"

definition JSON_stringify :: "jsval \<Rightarrow> string option" where
  "JSON_stringify v = (if v = JUndefined then None else Some (stringify v))"

text \<open>
  \<^verbatim>\<open>String(v)\<close>, which a template literal applies too. An array prints its elements
  separated by commas, with nothing for \<^verbatim>\<open>null\<close> and \<^verbatim>\<open>undefined\<close>; an object prints as
  \<^verbatim>\<open>[object Object]\<close>.
\<close>

fun String_of :: "jsval \<Rightarrow> string"
  and String_elems :: "jsval list \<Rightarrow> string list" where
  "String_of JUndefined = ''undefined''"
| "String_of JNull = ''null''"
| "String_of (JBool b) = (if b then ''true'' else ''false'')"
| "String_of (JNum n) = show_int n"
| "String_of (JStr s) = s"
| "String_of (JArr xs) = join '','' (String_elems xs)"
| "String_of (JObj kvs) = ''[object Object]''"
| "String_elems [] = []"
| "String_elems (x # xs) =
     (if x = JUndefined \<or> x = JNull then [] else String_of x) # String_elems xs"

text \<open>
  The numbers of JavaScript are floating-point numbers. A number of a value of the model
  stands for the number of JavaScript with the same value only when it is a safe integer,
  of magnitude at most \<open>2\<^sup>5\<^sup>3 - 1\<close>: those are printed in decimal by \<^verbatim>\<open>String\<close> and by
  \<^verbatim>\<open>JSON.stringify\<close>. A value all of whose numbers are safe integers is called safe;
  what is stated about the printed form of a value is stated for safe values.
\<close>

fun safe_numbers :: "jsval \<Rightarrow> bool"
  and safe_elems :: "jsval list \<Rightarrow> bool"
  and safe_props :: "(string \<times> jsval) list \<Rightarrow> bool" where
  "safe_numbers (JNum n) = (- 9007199254740991 \<le> n \<and> n \<le> 9007199254740991)"
| "safe_numbers (JArr xs) = safe_elems xs"
| "safe_numbers (JObj kvs) = safe_props kvs"
| "safe_numbers JUndefined = True"
| "safe_numbers JNull = True"
| "safe_numbers (JBool b) = True"
| "safe_numbers (JStr s) = True"
| "safe_elems [] = True"
| "safe_elems (x # xs) = (safe_numbers x \<and> safe_elems xs)"
| "safe_props [] = True"
| "safe_props ((k, v) # kvs) = (safe_numbers v \<and> safe_props kvs)"

section \<open>SHA-256\<close>

text \<open>
  \<^verbatim>\<open>crypto.createHash("sha256").update(bytes).digest("hex")\<close>: SHA-256 as in FIPS 180-4,
  printed as 64 lower-case hexadecimal digits. A 32-bit word is an integer below \<open>2\<^sup>3\<^sup>2\<close>;
  addition wraps around by \<open>mod 2\<^sup>3\<^sup>2\<close>.
\<close>

definition add32 :: "int \<Rightarrow> int \<Rightarrow> int" where
  "add32 x y = (x + y) mod 4294967296"

definition rotr :: "nat \<Rightarrow> int \<Rightarrow> int" where
  "rotr n x = (x div 2 ^ n) OR ((x * 2 ^ (32 - n)) mod 4294967296)"

definition shr :: "nat \<Rightarrow> int \<Rightarrow> int" where
  "shr n x = x div 2 ^ n"

definition not32 :: "int \<Rightarrow> int" where
  "not32 x = 4294967295 - x"

definition K256 :: "int list" where
  "K256 =
    [1116352408, 1899447441, 3049323471, 3921009573, 961987163, 1508970993,
     2453635748, 2870763221, 3624381080, 310598401, 607225278, 1426881987,
     1925078388, 2162078206, 2614888103, 3248222580, 3835390401, 4022224774,
     264347078, 604807628, 770255983, 1249150122, 1555081692, 1996064986,
     2554220882, 2821834349, 2952996808, 3210313671, 3336571891, 3584528711,
     113926993, 338241895, 666307205, 773529912, 1294757372, 1396182291,
     1695183700, 1986661051, 2177026350, 2456956037, 2730485921, 2820302411,
     3259730800, 3345764771, 3516065817, 3600352804, 4094571909, 275423344,
     430227734, 506948616, 659060556, 883997877, 958139571, 1322822218,
     1537002063, 1747873779, 1955562222, 2024104815, 2227730452, 2361852424,
     2428436474, 2756734187, 3204031479, 3329325298]"

type_synonym sha_state = "int \<times> int \<times> int \<times> int \<times> int \<times> int \<times> int \<times> int"

definition H0 :: sha_state where
  "H0 = (1779033703, 3144134277, 1013904242, 2773480762, 1359893119, 2600822924, 528734635, 1541459225)"

definition ssig0 :: "int \<Rightarrow> int" where
  "ssig0 x = rotr 7 x XOR rotr 18 x XOR shr 3 x"

definition ssig1 :: "int \<Rightarrow> int" where
  "ssig1 x = rotr 17 x XOR rotr 19 x XOR shr 10 x"

definition bsig0 :: "int \<Rightarrow> int" where
  "bsig0 x = rotr 2 x XOR rotr 13 x XOR rotr 22 x"

definition bsig1 :: "int \<Rightarrow> int" where
  "bsig1 x = rotr 6 x XOR rotr 11 x XOR rotr 25 x"

definition ch :: "int \<Rightarrow> int \<Rightarrow> int \<Rightarrow> int" where
  "ch x y z = (x AND y) XOR (not32 x AND z)"

definition maj :: "int \<Rightarrow> int \<Rightarrow> int \<Rightarrow> int" where
  "maj x y z = (x AND y) XOR (x AND z) XOR (y AND z)"

text \<open>
  The message schedule is kept as a window of the sixteen latest words, oldest first:
  \<open>W\<^sub>t = \<sigma>\<^sub>1(W\<^sub>t\<^sub>-\<^sub>2) + W\<^sub>t\<^sub>-\<^sub>7 + \<sigma>\<^sub>0(W\<^sub>t\<^sub>-\<^sub>1\<^sub>5) + W\<^sub>t\<^sub>-\<^sub>1\<^sub>6\<close>.
\<close>

fun sched_next :: "int list \<Rightarrow> int" where
  "sched_next (w0#w1#w2#w3#w4#w5#w6#w7#w8#w9#w10#w11#w12#w13#w14#w15#r) =
     add32 (add32 (ssig1 w14) w9) (add32 (ssig0 w1) w0)"
| "sched_next w = 0"

fun sha_step2 :: "int \<Rightarrow> int \<Rightarrow> sha_state \<Rightarrow> sha_state" where
  "sha_step2 t1 t2 (a, b, c, d, e, f, g, h) = (add32 t1 t2, a, b, c, add32 d t1, e, f, g)"

fun sha_step :: "int \<Rightarrow> int \<Rightarrow> sha_state \<Rightarrow> sha_state" where
  "sha_step k wt (a, b, c, d, e, f, g, h) =
     sha_step2 (add32 (add32 (add32 h (bsig1 e)) (add32 (ch e f g) k)) wt)
               (add32 (bsig0 a) (maj a b c)) (a, b, c, d, e, f, g, h)"

fun rounds :: "int list \<Rightarrow> int list \<Rightarrow> sha_state \<Rightarrow> sha_state" where
  "rounds [] w st = st"
| "rounds (k # ks) w st = rounds ks (tl w @ [sched_next w]) (sha_step k (hd w) st)"

fun add8 :: "sha_state \<Rightarrow> sha_state \<Rightarrow> sha_state" where
  "add8 (a, b, c, d, e, f, g, h) (a', b', c', d', e', f', g', h') =
    (add32 a a', add32 b b', add32 c c', add32 d d', add32 e e', add32 f f', add32 g g', add32 h h')"

definition compress :: "sha_state \<Rightarrow> int list \<Rightarrow> sha_state" where
  "compress st w = add8 st (rounds K256 w st)"

text \<open>Big-endian words of the padded message, in blocks of sixteen.\<close>

fun be32 :: "int list \<Rightarrow> int list" where
  "be32 (a # b # c # d # r) = (((a * 256 + b) * 256 + c) * 256 + d) # be32 r"
| "be32 r = []"

fun chunks :: "int list \<Rightarrow> int list list" where
  "chunks (a0#a1#a2#a3#a4#a5#a6#a7#a8#a9#a10#a11#a12#a13#a14#a15#r) =
     [a0,a1,a2,a3,a4,a5,a6,a7,a8,a9,a10,a11,a12,a13,a14,a15] # chunks r"
| "chunks r = []"

definition be64 :: "int \<Rightarrow> int list" where
  "be64 n = map (\<lambda>i. (n div 256 ^ i) mod 256) [7, 6, 5, 4, 3, 2, 1, 0 :: nat]"

text \<open>
  Padding: the byte \<open>0x80\<close>, zero bytes up to 56 modulo 64, and the length in bits as a
  64-bit big-endian number.
\<close>

definition pad :: "int list \<Rightarrow> int list" where
  "pad m = m @ [128] @ replicate ((119 - length m mod 64) mod 64) 0 @ be64 (8 * int (length m))"

definition hex32 :: "int \<Rightarrow> string" where
  "hex32 x = map (\<lambda>i. digit_char (nat ((x div 16 ^ i) mod 16))) [7, 6, 5, 4, 3, 2, 1, 0 :: nat]"

fun hex_state :: "sha_state \<Rightarrow> string" where
  "hex_state (a, b, c, d, e, f, g, h) = concat (map hex32 [a, b, c, d, e, f, g, h])"

definition sha256 :: "string \<Rightarrow> string" where
  "sha256 m = hex_state (foldl compress H0 (chunks (be32 (pad (map of_char m)))))"

section \<open>The hash service\<close>

text \<open>
  \<^verbatim>\<open>generateHash(data)\<close>: the data is printed (\<^verbatim>\<open>JSON.stringify\<close> for an object,
  \<^verbatim>\<open>String\<close> otherwise), hashed, and the digest returned behind the prefix \<^verbatim>\<open>0x\<close>.
  Its \<^verbatim>\<open>catch\<close> rethrows what the body throws; over JSON values the body throws nothing.
\<close>

definition dataString_of :: "jsval \<Rightarrow> string" where
  "dataString_of data = (if typeof_object data then stringify data else String_of data)"

definition generateHash :: "jsval \<Rightarrow> js_error + string" where
  "generateHash data = Inr (''0x'' @ sha256 (dataString_of data))"

text \<open>
  \<^verbatim>\<open>verifyHash(data, hash)\<close>. The body of its \<^verbatim>\<open>try\<close> calls \<^verbatim>\<open>hash.startsWith\<close>, which
  throws a \<^verbatim>\<open>TypeError\<close> when \<^verbatim>\<open>hash\<close> is not a string; the \<^verbatim>\<open>catch\<close> returns
  \<^verbatim>\<open>false\<close>.
\<close>

definition verifyHash_try :: "jsval \<Rightarrow> jsval \<Rightarrow> js_error + bool" where
  "verifyHash_try data hash =
     (case generateHash data of
        Inl e \<Rightarrow> Inl (Error (''Hash generation failed''))
      | Inr generatedHash \<Rightarrow>
          (case hash of
             JStr h \<Rightarrow>
               (let cleanHash = (if startsWith ''0x'' h then h else ''0x'' @ h)
                in Inr (generatedHash = cleanHash))
           | _ \<Rightarrow> Inl (TypeError ''hash.startsWith is not a function'')))"

definition verifyHash :: "jsval \<Rightarrow> jsval \<Rightarrow> js_error + bool" where
  "verifyHash data hash =
     (case verifyHash_try data hash of Inl error \<Rightarrow> Inr False | Inr isValid \<Rightarrow> Inr isValid)"

text \<open>
  \<^verbatim>\<open>createAgriDataHash(agriData)\<close>. A field is reported missing when \<^verbatim>\<open>!agriData[field]\<close>;
  reading the first field of \<^verbatim>\<open>null\<close> or \<^verbatim>\<open>undefined\<close> throws a \<^verbatim>\<open>TypeError\<close>, and a value
  that is not an object has none of the fields. The record is then extended by the current
  time, a version and the system name, and hashed. The fields \<^verbatim>\<open>hash\<close>, \<^verbatim>\<open>data\<close>,
  \<^verbatim>\<open>fields\<close> and \<^verbatim>\<open>size\<close> of the result carry the prefix \<open>hr_\<close> here.
\<close>

record hash_result =
  hr_hash :: string
  hr_data :: jsval
  hr_fields :: "string list"
  hr_size :: nat

definition requiredFields :: "string list" where
  "requiredFields = [''farmerId'', ''productType'', ''harvestDate'', ''location'']"

fun props_of :: "jsval \<Rightarrow> (string \<times> jsval) list" where
  "props_of (JObj kvs) = kvs"
| "props_of v = []"

definition missingFields :: "jsval \<Rightarrow> string list" where
  "missingFields agriData = filter (\<lambda>field. \<not> truthy (obj_get (props_of agriData) field)) requiredFields"

definition dataWithMetadata :: "string \<Rightarrow> jsval \<Rightarrow> jsval" where
  "dataWithMetadata now agriData =
     JObj (spread (props_of agriData)
        [(''timestamp'', JStr now), (''version'', JStr ''1.0''), (''system'', JStr ''AgriChain'')])"

definition createAgriDataHash :: "string \<Rightarrow> jsval \<Rightarrow> js_error + hash_result" where
  "createAgriDataHash now agriData =
     (if agriData = JUndefined
      then Inl (TypeError ''Cannot read properties of undefined (reading 'farmerId')'')
      else if agriData = JNull
      then Inl (TypeError ''Cannot read properties of null (reading 'farmerId')'')
      else if missingFields agriData \<noteq> []
      then Inl (Error (''Missing required fields: '' @ join '', '' (missingFields agriData)))
      else (case generateHash (dataWithMetadata now agriData) of
              Inl e \<Rightarrow> Inl e
            | Inr h \<Rightarrow> Inr \<lparr> hr_hash = h,
                           hr_data = dataWithMetadata now agriData,
                           hr_fields = map fst (props_of (dataWithMetadata now agriData)),
                           hr_size = js_length (stringify (dataWithMetadata now agriData)) \<rparr>))"

section \<open>The file service\<close>

text \<open>
  A file as the upload middleware hands it over, the file system as a map from paths to the
  bytes stored there, and \<^verbatim>\<open>fs.readFileSync\<close>, which throws for a path that does not exist.
\<close>

record upload_file =
  originalname :: string
  filename :: string
  path :: string
  file_size :: int
  mimetype :: string
  file_hash :: jsval

type_synonym filesystem = "string \<Rightarrow> string option"

definition readFileSync :: "filesystem \<Rightarrow> string \<Rightarrow> js_error + string" where
  "readFileSync disk p =
     (case disk p of
        None \<Rightarrow> Inl (Error (''ENOENT: no such file or directory, open '' @ [CHR 0x27] @ p @ [CHR 0x27]))
      | Some bytes \<Rightarrow> Inr bytes)"

fun message :: "js_error \<Rightarrow> string" where
  "message (Error m) = m"
| "message (TypeError m) = m"
| "message (ValidationError m fs st) = m"
| "message (BlockchainError m c st) = m"
| "message (RequestError m) = m"

record file_info =
  fi_originalName :: string
  fi_filename :: string
  fi_size :: int
  fi_mimetype :: string
  fi_hash :: string
  fi_path :: string

record combined_metadata =
  hasFiles :: bool
  fileCount :: nat
  totalSize :: int
  dataSize :: nat
  combinedSize :: nat
  timestamp :: string

record combined_result =
  combinedHash :: string
  dataHash :: string
  files :: "file_info list"
  metadata :: combined_metadata

text \<open>
  The loop of \<^verbatim>\<open>generateCombinedHash\<close> over the files, in the order of the array: each file
  is read and hashed, its hexadecimal digest is appended to \<^verbatim>\<open>combinedContent\<close>, and its
  description, with the prefixed digest, is pushed on \<^verbatim>\<open>fileInfo\<close>.
\<close>

fun files_loop :: "filesystem \<Rightarrow> upload_file list \<Rightarrow> string \<Rightarrow> file_info list
    \<Rightarrow> js_error + (string \<times> file_info list)" where
  "files_loop disk [] combinedContent fileInfo = Inr (combinedContent, fileInfo)"
| "files_loop disk (file # rest) combinedContent fileInfo =
     (case readFileSync disk (path file) of
        Inl e \<Rightarrow> Inl e
      | Inr fileBuffer \<Rightarrow>
          files_loop disk rest (combinedContent @ sha256 fileBuffer)
            (fileInfo @ [\<lparr> fi_originalName = originalname file, fi_filename = filename file,
                            fi_size = file_size file, fi_mimetype = mimetype file,
                            fi_hash = ''0x'' @ sha256 fileBuffer, fi_path = path file \<rparr>]))"

text \<open>
  \<^verbatim>\<open>generateCombinedHash(data, files)\<close>. \<^verbatim>\<open>combinedContent\<close> starts as the printed data
  (\<^verbatim>\<open>JSON.stringify(data, null, 0)\<close>; for \<^verbatim>\<open>undefined\<close> the concatenation gives the text
  \<^verbatim>\<open>undefined\<close> and the later \<^verbatim>\<open>update(undefined)\<close> throws). Every exception is caught
  and thrown again as an \<^verbatim>\<open>Error\<close> with the prefix \<^verbatim>\<open>Combined hash generation failed\<close>.
\<close>

definition generateCombinedHash_try ::
  "filesystem \<Rightarrow> string \<Rightarrow> jsval \<Rightarrow> upload_file list \<Rightarrow> js_error + combined_result" where
  "generateCombinedHash_try disk now d fs =
     (case files_loop disk fs (case JSON_stringify d of None \<Rightarrow> ''undefined'' | Some s \<Rightarrow> s) [] of
        Inl e \<Rightarrow> Inl e
      | Inr (combinedContent, fileInfo) \<Rightarrow>
          (case JSON_stringify d of
             None \<Rightarrow> Inl (TypeError (''The '' @ [CHR 0x22] @ ''data'' @ [CHR 0x22]
                       @ '' argument must be of type string or an instance of Buffer, ''
                       @ ''TypedArray, or DataView. Received undefined''))
           | Some dataString \<Rightarrow>
               Inr \<lparr> combinedHash = ''0x'' @ sha256 combinedContent,
                     dataHash = sha256 dataString,
                     files = fileInfo,
                     metadata = \<lparr> hasFiles = (length fs > 0),
                                  fileCount = length fs,
                                  totalSize = sum_list (map fi_size fileInfo),
                                  dataSize = js_length dataString,
                                  combinedSize = js_length combinedContent,
                                  timestamp = now \<rparr> \<rparr>))"

definition generateCombinedHash ::
  "filesystem \<Rightarrow> string \<Rightarrow> jsval \<Rightarrow> upload_file list \<Rightarrow> js_error + combined_result" where
  "generateCombinedHash disk now d fs =
     (case generateCombinedHash_try disk now d fs of
        Inl e \<Rightarrow> Inl (Error (''Combined hash generation failed: '' @ message e))
      | Inr result \<Rightarrow> Inr result)"

text \<open>
  The reading of the specification: the combined digest is the hash of the record digest
  followed by the digests of the files.
\<close>

definition spec_combinedDigest :: "string \<Rightarrow> string list \<Rightarrow> string" where
  "spec_combinedDigest recordDigest fileDigests = ''0x'' @ sha256 (recordDigest @ concat fileDigests)"

text \<open>
  The digest of the bytes stored for a file, and the string that \<^verbatim>\<open>generateCombinedHash\<close>
  hashes when every file can be read: the printed data followed by the digests of the
  files in the order of the array.
\<close>

definition file_digest :: "filesystem \<Rightarrow> upload_file \<Rightarrow> string" where
  "file_digest disk file = sha256 (case disk (path file) of None \<Rightarrow> [] | Some bytes \<Rightarrow> bytes)"

definition combinedContent_of :: "filesystem \<Rightarrow> jsval \<Rightarrow> upload_file list \<Rightarrow> string" where
  "combinedContent_of disk d fs = stringify d @ concat (map (file_digest disk) fs)"

definition readable :: "filesystem \<Rightarrow> upload_file list \<Rightarrow> bool" where
  "readable disk fs = list_all (\<lambda>file. disk (path file) \<noteq> None) fs"

text \<open>Two uploaded files with different bytes, and a third with the bytes of the first.\<close>

definition example_file :: "string \<Rightarrow> upload_file" where
  "example_file name =
     \<lparr> originalname = name, filename = name @ ''_1704067200000'',
       path = ''uploads/P1/'' @ name, file_size = 1, mimetype = ''text/plain'',
       file_hash = JUndefined \<rparr>"

definition example_disk :: filesystem where
  "example_disk = [''uploads/P1/a.txt'' \<mapsto> ''a'', ''uploads/P1/b.txt'' \<mapsto> ''b'',
                   ''uploads/P1/c.txt'' \<mapsto> ''a'']"

section \<open>The blockchain service\<close>

subsection \<open>The ledger and its client\<close>

text \<open>
  The ledger as the JSON-RPC client shows it: the transactions and the receipts that can be
  fetched by transaction hash, the chain id, and whether the endpoint can be reached at
  all (\<open>rpc_fault\<close> is the exception that every call of the client then throws).
\<close>

record chain_tx =
  tx_hash :: string
  tx_from :: string
  tx_to :: string
  tx_value :: int
  tx_data :: string

record chain_receipt =
  rc_hash :: string
  rc_blockNumber :: int
  rc_blockHash :: string
  rc_gasUsed :: int
  rc_gasPrice :: "int option"
  rc_status :: int
  rc_from :: string
  rc_to :: string

record ledger =
  rpc_fault :: "js_error option"
  chainId :: int
  transactions :: "string \<Rightarrow> chain_tx option"
  receipts :: "string \<Rightarrow> chain_receipt option"

record blockchainConfig =
  network :: string
  wallet_address :: string

text \<open>
  What the network does with a submitted transaction is not decided by the service. It is
  an argument: the submission is refused, or the transaction is accepted under a hash and
  waiting for it fails, or it is mined in a block.
\<close>

record mined =
  m_hash :: string
  m_blockNumber :: int
  m_blockHash :: string
  m_gasUsed :: int
  m_gasPrice :: "int option"

datatype network_answer =
    SendFails js_error
  | WaitFails string js_error
  | Confirmed mined

text \<open>
  The node reads the hexadecimal digits of a transaction hash without regard to their case:
  the transactions and the receipts are kept under the hash in lower case.
\<close>

definition lower_hex :: "string \<Rightarrow> string" where
  "lower_hex h = map (\<lambda>c. if c \<in> set ''ABCDEF'' then char_of (of_char c + 32 :: nat) else c) h"

definition getNetwork :: "ledger \<Rightarrow> js_error + int" where
  "getNetwork l = (case rpc_fault l of Some e \<Rightarrow> Inl e | None \<Rightarrow> Inr (chainId l))"

definition getTransaction :: "ledger \<Rightarrow> string \<Rightarrow> js_error + chain_tx option" where
  "getTransaction l h = (case rpc_fault l of Some e \<Rightarrow> Inl e | None \<Rightarrow> Inr (transactions l (lower_hex h)))"

definition getTransactionReceipt :: "ledger \<Rightarrow> string \<Rightarrow> js_error + chain_receipt option" where
  "getTransactionReceipt l h = (case rpc_fault l of Some e \<Rightarrow> Inl e | None \<Rightarrow> Inr (receipts l (lower_hex h)))"

text \<open>
  \<^verbatim>\<open>wallet.sendTransaction\<close> followed by \<^verbatim>\<open>tx.wait()\<close>: an accepted transaction can be fetched
  from then on, a mined one has a receipt with status 1. Every operation on the ledger
  returns the ledger together with its result or exception, so that what was written
  before an exception stays written.
\<close>

definition sendTransaction ::
  "network_answer \<Rightarrow> string \<Rightarrow> string \<Rightarrow> int \<Rightarrow> string \<Rightarrow> ledger \<Rightarrow> (js_error + chain_tx) \<times> ledger" where
  "sendTransaction answer sender to val hexData l =
     (case rpc_fault l of
        Some e \<Rightarrow> (Inl e, l)
      | None \<Rightarrow>
          (case answer of
             SendFails e \<Rightarrow> (Inl e, l)
           | WaitFails h e \<Rightarrow>
               (let tx = \<lparr> tx_hash = h, tx_from = sender, tx_to = to, tx_value = val, tx_data = hexData \<rparr>
                in (Inr tx, l\<lparr> transactions := (transactions l)(lower_hex h \<mapsto> tx) \<rparr>))
           | Confirmed m \<Rightarrow>
               (let tx = \<lparr> tx_hash = m_hash m, tx_from = sender, tx_to = to, tx_value = val,
                           tx_data = hexData \<rparr>
                in (Inr tx, l\<lparr> transactions := (transactions l)(lower_hex (m_hash m) \<mapsto> tx) \<rparr>))))"

definition wait :: "network_answer \<Rightarrow> chain_tx \<Rightarrow> ledger \<Rightarrow> (js_error + chain_receipt) \<times> ledger" where
  "wait answer tx l =
     (case answer of
        SendFails e \<Rightarrow> (Inl e, l)
      | WaitFails h e \<Rightarrow> (Inl e, l)
      | Confirmed m \<Rightarrow>
          (let receipt = \<lparr> rc_hash = tx_hash tx, rc_blockNumber = m_blockNumber m,
                            rc_blockHash = m_blockHash m, rc_gasUsed = m_gasUsed m,
                            rc_gasPrice = m_gasPrice m, rc_status = 1,
                            rc_from = tx_from tx, rc_to = tx_to tx \<rparr>
           in (Inr receipt, l\<lparr> receipts := (receipts l)(lower_hex (tx_hash tx) \<mapsto> receipt) \<rparr>)))"

subsection \<open>Hexadecimal strings\<close>

definition is_hex_char :: "char \<Rightarrow> bool" where
  "is_hex_char c = (c \<in> set ''0123456789abcdefABCDEF'')"

text \<open>The regular expression \<^verbatim>\<open>/^[a-fA-F0-9]{64}$/\<close>.\<close>

definition is_hex64 :: "string \<Rightarrow> bool" where
  "is_hex64 s = (length s = 64 \<and> list_all is_hex_char s)"

text \<open>\<^verbatim>\<open>ethers.isHexString(value, 32)\<close>: the prefix \<^verbatim>\<open>0x\<close> and 64 hexadecimal digits.\<close>

definition isHexString32 :: "string \<Rightarrow> bool" where
  "isHexString32 s = (startsWith ''0x'' s \<and> is_hex64 (drop 2 s))"

definition hex_byte :: "char \<Rightarrow> string" where
  "hex_byte c = [digit_char (of_char c div 16), digit_char (of_char c mod 16)]"

text \<open>\<^verbatim>\<open>ethers.hexlify(ethers.toUtf8Bytes(s))\<close>; a string is the list of its UTF-8 bytes.\<close>

definition hexlify :: "string \<Rightarrow> string" where
  "hexlify bytes = ''0x'' @ concat (map hex_byte bytes)"

text \<open>
  \<^verbatim>\<open>ethers.formatEther\<close> of a number of wei that is not negative: the whole part, a point,
  and the eighteen decimals without trailing zeros, at least one.
\<close>

definition strip_zeros :: "string \<Rightarrow> string" where
  "strip_zeros s = rev (dropWhile (\<lambda>c. c = CHR ''0'') (rev s))"

definition formatEther :: "int \<Rightarrow> string" where
  "formatEther wei =
     (let whole = show_nat (wei div 1000000000000000000);
          digits = show_nat (wei mod 1000000000000000000);
          frac = strip_zeros (replicate (18 - length digits) (CHR ''0'') @ digits)
      in whole @ ''.'' @ (if frac = [] then ''0'' else frac))"

subsection \<open>\<^verbatim>\<open>storeHashOnBlockchain\<close>\<close>

record blockchainProof =
  bp_network :: string
  bp_chainId :: string
  bp_timestamp :: jsval
  bp_fromAddress :: string
  bp_toAddress :: string
  bp_gasUsed :: string
  bp_gasPrice :: string
  bp_transactionFee :: string

record store_result =
  sr_transactionHash :: string
  sr_blockNumber :: int
  sr_gasUsed :: string
  sr_storedHash :: string
  sr_metadata :: jsval
  sr_blockchainProof :: blockchainProof

text \<open>
  The envelope \<^verbatim>\<open>{ timestamp, hash: `0x${cleanHash}`, ...metadata }\<close>: the properties of
  the metadata are written last, so a property \<^verbatim>\<open>timestamp\<close> or \<^verbatim>\<open>hash\<close> of the metadata
  replaces the one of the envelope.
\<close>

definition txData :: "string \<Rightarrow> string \<Rightarrow> (string \<times> jsval) list \<Rightarrow> (string \<times> jsval) list" where
  "txData now cleanHash meta =
     spread [(''timestamp'', JStr now), (''hash'', JStr (''0x'' @ cleanHash))] meta"

definition cleanHash_of :: "string \<Rightarrow> string" where
  "cleanHash_of h = (if startsWith ''0x'' h then drop 2 h else h)"

text \<open>
  The body of the \<^verbatim>\<open>try\<close>. The hash is checked, the envelope is printed and sent as the
  data of a transaction of value 0 from the wallet to itself, and the receipt is awaited.
\<close>

definition storeHashOnBlockchain_try ::
  "string \<Rightarrow> blockchainConfig \<Rightarrow> network_answer \<Rightarrow> jsval \<Rightarrow> (string \<times> jsval) list \<Rightarrow> ledger
     \<Rightarrow> (js_error + store_result) \<times> ledger" where
  "storeHashOnBlockchain_try now cfg answer hash meta l =
     (case hash of
        JStr h \<Rightarrow>
          (if h = [] then (Inl (BlockchainError ''Invalid hash format'' ''INVALID_HASH'' 400), l)
           else if \<not> is_hex64 (cleanHash_of h)
           then (Inl (BlockchainError ''Hash must be 64 hex characters'' ''INVALID_HASH_LENGTH'' 400), l)
           else
             (case sendTransaction answer (wallet_address cfg) (wallet_address cfg) 0
                     (hexlify (stringify (JObj (txData now (cleanHash_of h) meta)))) l of
                (Inl e, l1) \<Rightarrow> (Inl e, l1)
              | (Inr tx, l1) \<Rightarrow>
                  (case wait answer tx l1 of
                     (Inl e, l2) \<Rightarrow> (Inl e, l2)
                   | (Inr receipt, l2) \<Rightarrow>
                       (case getNetwork l2 of
                          Inl e \<Rightarrow> (Inl e, l2)
                        | Inr cid \<Rightarrow>
                            (Inr \<lparr> sr_transactionHash = rc_hash receipt,
                                   sr_blockNumber = rc_blockNumber receipt,
                                   sr_gasUsed = show_int (rc_gasUsed receipt),
                                   sr_storedHash = h,
                                   sr_metadata = JObj (txData now (cleanHash_of h) meta),
                                   sr_blockchainProof =
                                     \<lparr> bp_network = network cfg,
                                       bp_chainId = show_int cid,
                                       bp_timestamp = obj_get (txData now (cleanHash_of h) meta) ''timestamp'',
                                       bp_fromAddress = rc_from receipt,
                                       bp_toAddress = rc_to receipt,
                                       bp_gasUsed = show_int (rc_gasUsed receipt),
                                       bp_gasPrice = (case rc_gasPrice receipt of
                                                        None \<Rightarrow> ''0'' | Some p \<Rightarrow> show_int p),
                                       bp_transactionFee =
                                         (case rc_gasPrice receipt of
                                            None \<Rightarrow> ''0''
                                          | Some p \<Rightarrow> if rc_gasUsed receipt \<noteq> 0 \<and> p \<noteq> 0
                                                       then formatEther (rc_gasUsed receipt * p)
                                                       else ''0'') \<rparr> \<rparr>, l2)))))
      | _ \<Rightarrow> (Inl (BlockchainError ''Invalid hash format'' ''INVALID_HASH'' 400), l))"

text \<open>
  The \<^verbatim>\<open>catch\<close> first logs \<^verbatim>\<open>hash?.substring(0, 10)\<close>: for a hash that is neither a string
  nor \<^verbatim>\<open>null\<close> nor \<^verbatim>\<open>undefined\<close> that call throws a \<^verbatim>\<open>TypeError\<close>, which leaves the
  function in place of the exception that was caught. Otherwise a \<^verbatim>\<open>BlockchainError\<close> is
  thrown again as it is and every other exception is wrapped. A transaction that was
  accepted stays on the ledger when a later step fails.
\<close>

fun optional_substring :: "string \<Rightarrow> jsval \<Rightarrow> js_error + unit" where
  "optional_substring name JUndefined = Inr ()"
| "optional_substring name JNull = Inr ()"
| "optional_substring name (JStr s) = Inr ()"
| "optional_substring name v = Inl (TypeError (name @ ''?.substring is not a function''))"

fun is_BlockchainError :: "js_error \<Rightarrow> bool" where
  "is_BlockchainError (BlockchainError m c st) = True"
| "is_BlockchainError e = False"

definition wrap_error :: "string \<Rightarrow> string \<Rightarrow> js_error \<Rightarrow> js_error" where
  "wrap_error prefix code e =
     (if is_BlockchainError e then e else BlockchainError (prefix @ message e) code 500)"

definition storeHashOnBlockchain ::
  "string \<Rightarrow> blockchainConfig \<Rightarrow> network_answer \<Rightarrow> jsval \<Rightarrow> (string \<times> jsval) list \<Rightarrow> ledger
     \<Rightarrow> (js_error + store_result) \<times> ledger" where
  "storeHashOnBlockchain now cfg answer hash meta l =
     (case storeHashOnBlockchain_try now cfg answer hash meta l of
        (Inl e, l') \<Rightarrow>
          (case optional_substring ''hash'' hash of
             Inl e' \<Rightarrow> (Inl e', l')
           | Inr u \<Rightarrow> (Inl (wrap_error ''Hash storage failed: '' ''HASH_STORAGE_ERROR'' e), l'))
      | (Inr r, l') \<Rightarrow> (Inr r, l'))"

subsection \<open>\<^verbatim>\<open>retrieveHashFromBlockchain\<close>\<close>

text \<open>
  The data of the transaction is decoded by the libraries: \<^verbatim>\<open>ethers.toUtf8String\<close> reads
  the hexadecimal string as UTF-8 text and \<^verbatim>\<open>JSON.parse\<close> parses the text. Their
  composition is an argument \<open>decode\<close> of the model, a function from the data to the parsed
  value or to the exception that one of the two throws.

  \<^verbatim>\<open>v.k\<close> for a value \<open>v\<close> that is neither \<^verbatim>\<open>null\<close> nor \<^verbatim>\<open>undefined\<close> and a key \<open>k\<close> that no
  prototype defines (\<^verbatim>\<open>hash\<close> and \<^verbatim>\<open>timestamp\<close> here): the property of an object,
  \<^verbatim>\<open>undefined\<close> for every other value.
\<close>

definition property :: "jsval \<Rightarrow> string \<Rightarrow> jsval" where
  "property v k = obj_get (props_of v) k"

text \<open>
  The inner \<^verbatim>\<open>try\<close>, entered when the data is neither empty nor \<^verbatim>\<open>0x\<close>: the pair of
  \<^verbatim>\<open>decodedData\<close> and \<^verbatim>\<open>storedHash\<close> after it. Both start as \<^verbatim>\<open>null\<close>. When the decoding
  throws, both stay \<^verbatim>\<open>null\<close>; when it returns \<^verbatim>\<open>null\<close>, reading \<^verbatim>\<open>decodedData.hash\<close>
  throws after the assignment to \<^verbatim>\<open>decodedData\<close>, and \<^verbatim>\<open>storedHash\<close> stays \<^verbatim>\<open>null\<close>.
\<close>

definition decoded :: "(string \<Rightarrow> js_error + jsval) \<Rightarrow> string \<Rightarrow> jsval \<times> jsval" where
  "decoded decode data =
     (if data \<noteq> [] \<and> data \<noteq> ''0x''
      then (case decode data of
              Inl decodeError \<Rightarrow> (JNull, JNull)
            | Inr v \<Rightarrow> (if v = JNull \<or> v = JUndefined then (v, JNull) else (v, property v ''hash'')))
      else (JNull, JNull))"

text \<open>\<^verbatim>\<open>decodedData?.timestamp || null\<close>.\<close>

definition timestamp_of :: "jsval \<Rightarrow> jsval" where
  "timestamp_of decodedData =
     js_or (if decodedData = JNull \<or> decodedData = JUndefined then JUndefined
            else property decodedData ''timestamp'') JNull"

record retrieve_result =
  rr_transactionHash :: string
  rr_blockNumber :: int
  rr_blockHash :: string
  rr_gasUsed :: string
  rr_status :: string
  rr_from :: string
  rr_to :: string
  rr_timestamp :: jsval
  rr_storedHash :: jsval
  rr_metadata :: jsval
  rr_network :: string
  rr_chainId :: string
  rr_confirmed :: bool

text \<open>
  The body of the \<^verbatim>\<open>try\<close>. The format of the transaction hash is checked first; then the
  transaction and its receipt are fetched, the data is decoded, and the result is built.
  The last call of the logger evaluates \<^verbatim>\<open>storedHash?.substring(0, 10)\<close>, which throws for
  a stored hash that is neither a string nor \<^verbatim>\<open>null\<close> nor \<^verbatim>\<open>undefined\<close>.
\<close>

definition retrieveHashFromBlockchain_try ::
  "(string \<Rightarrow> js_error + jsval) \<Rightarrow> blockchainConfig \<Rightarrow> jsval \<Rightarrow> ledger
     \<Rightarrow> js_error + retrieve_result" where
  "retrieveHashFromBlockchain_try decode cfg transactionHash l =
     (case transactionHash of
        JStr h \<Rightarrow>
          (if h = [] \<or> \<not> isHexString32 h
           then Inl (BlockchainError ''Invalid transaction hash format'' ''INVALID_TX_HASH'' 400)
           else
             (case getTransaction l h of
                Inl e \<Rightarrow> Inl e
              | Inr None \<Rightarrow> Inl (BlockchainError ''Transaction not found'' ''TX_NOT_FOUND'' 404)
              | Inr (Some tx) \<Rightarrow>
                  (case getTransactionReceipt l h of
                     Inl e \<Rightarrow> Inl e
                   | Inr None \<Rightarrow>
                       Inl (BlockchainError ''Transaction not confirmed'' ''TX_NOT_CONFIRMED'' 404)
                   | Inr (Some receipt) \<Rightarrow>
                       (case getNetwork l of
                          Inl e \<Rightarrow> Inl e
                        | Inr cid \<Rightarrow>
                            (case optional_substring ''storedHash'' (snd (decoded decode (tx_data tx))) of
                               Inl e \<Rightarrow> Inl e
                             | Inr u \<Rightarrow>
                                 Inr \<lparr> rr_transactionHash = rc_hash receipt,
                                       rr_blockNumber = rc_blockNumber receipt,
                                       rr_blockHash = rc_blockHash receipt,
                                       rr_gasUsed = show_int (rc_gasUsed receipt),
                                       rr_status = (if rc_status receipt = 1 then ''success'' else ''failed''),
                                       rr_from = tx_from tx,
                                       rr_to = tx_to tx,
                                       rr_timestamp = timestamp_of (fst (decoded decode (tx_data tx))),
                                       rr_storedHash = snd (decoded decode (tx_data tx)),
                                       rr_metadata = fst (decoded decode (tx_data tx)),
                                       rr_network = network cfg,
                                       rr_chainId = show_int cid,
                                       rr_confirmed = (rc_status receipt = 1) \<rparr>)))))
      | _ \<Rightarrow> Inl (BlockchainError ''Invalid transaction hash format'' ''INVALID_TX_HASH'' 400))"

text \<open>
  The \<^verbatim>\<open>catch\<close> logs \<^verbatim>\<open>transactionHash?.substring(0, 10)\<close> first, as that of
  \<^verbatim>\<open>storeHashOnBlockchain\<close> does with the hash; then a \<^verbatim>\<open>BlockchainError\<close> is thrown again
  as it is and every other exception is wrapped. The function writes nothing.
\<close>

definition retrieveHashFromBlockchain ::
  "(string \<Rightarrow> js_error + jsval) \<Rightarrow> blockchainConfig \<Rightarrow> jsval \<Rightarrow> ledger
     \<Rightarrow> js_error + retrieve_result" where
  "retrieveHashFromBlockchain decode cfg transactionHash l =
     (case retrieveHashFromBlockchain_try decode cfg transactionHash l of
        Inl e \<Rightarrow>
          (case optional_substring ''transactionHash'' transactionHash of
             Inl e' \<Rightarrow> Inl e'
           | Inr u \<Rightarrow> Inl (wrap_error ''Hash retrieval failed: '' ''HASH_RETRIEVAL_ERROR'' e))
      | Inr r \<Rightarrow> Inr r)"

section \<open>The database service\<close>

subsection \<open>Tables and statements\<close>

text \<open>
  The tables of the relational store, each as the list of its rows in the order of
  insertion, with the columns that the service writes. Columns that only the engine fills
  in by a default (creation dates, record status) are left out. A column holds the
  JavaScript value that was bound to the parameter of the statement.
\<close>

text \<open>
  \<^verbatim>\<open>new Date(v)\<close>: the date object that the constructor makes from its argument. The time
  that it computes is not modelled; the column holds the constructor applied to the value.
\<close>

datatype js_date = new_Date jsval

record farmer_row =
  f_farmer_id :: jsval
  f_full_name :: jsval
  f_email :: jsval
  f_phone :: jsval
  f_address :: jsval
  f_province :: jsval
  f_district :: jsval
  f_ward :: jsval
  f_certification_level :: jsval
  f_wallet_address :: jsval

record agri_row =
  ad_data_id :: int
  ad_farmer_id :: jsval
  ad_product_type :: jsval
  ad_location :: jsval
  ad_harvest_date :: js_date
  ad_quantity :: jsval
  ad_quality :: jsval
  ad_notes :: jsval
  ad_data_hash :: jsval
  ad_transaction_hash :: jsval
  ad_block_number :: jsval
  ad_has_files :: bool
  ad_file_count :: nat

record btx_row =
  bt_transaction_hash :: jsval
  bt_block_number :: jsval
  bt_block_hash :: jsval
  bt_from_address :: jsval
  bt_to_address :: jsval
  bt_gas_used :: jsval
  bt_gas_price :: jsval
  bt_transaction_fee :: jsval
  bt_network_name :: jsval
  bt_network_id :: jsval
  bt_status :: jsval
  bt_transaction_date :: string

record file_row =
  uf_file_id :: int
  uf_data_id :: int
  uf_original_name :: string
  uf_stored_filename :: string
  uf_file_path :: string
  uf_file_size :: int
  uf_mime_type :: string
  uf_file_hash :: jsval
  uf_upload_date :: string
  uf_is_active :: bool

record vlog_row =
  vl_log_id :: int
  vl_data_id :: int
  vl_transaction_hash :: jsval
  vl_verification_date :: string
  vl_verification_method :: string
  vl_is_valid :: int
  vl_stored_hash :: jsval
  vl_current_hash :: jsval
  vl_client_ip :: jsval
  vl_user_agent :: jsval

record syslog_row =
  sl_log_level :: string
  sl_log_category :: string
  sl_message :: string
  sl_details :: string
  sl_timestamp :: string

text \<open>
  The state of the store. The engine can refuse any statement (lost connection, violated
  constraint, value too long); which statements it refuses is not decided by the service,
  so it is part of the state: \<open>faults\<close> holds, for the statements to come, either \<open>None\<close>
  (the statement is executed) or the message of the error that is raised instead. The
  counters are the \<^verbatim>\<open>IDENTITY\<close> columns.
\<close>

record database =
  farmers :: "farmer_row list"
  agricultural_data :: "agri_row list"
  blockchain_transactions :: "btx_row list"
  uploaded_files :: "file_row list"
  verification_logs :: "vlog_row list"
  system_logs :: "syslog_row list"
  next_data_id :: int
  next_file_id :: int
  next_log_id :: int
  faults :: "string option list"

definition take_fault :: "database \<Rightarrow> string option \<times> database" where
  "take_fault db = (case faults db of [] \<Rightarrow> (None, db) | f # fs \<Rightarrow> (f, db\<lparr> faults := fs \<rparr>))"

text \<open>
  \<^verbatim>\<open>executeQuery\<close> and \<^verbatim>\<open>executeProcedure\<close>: the statement is executed unless the engine
  refuses it. A statement is a function from the state to its result (or its own error)
  and the new state. The state is returned with an exception too: what was written before
  stays written.
\<close>

definition executeQuery ::
  "(database \<Rightarrow> (js_error + 'r) \<times> database) \<Rightarrow> database \<Rightarrow> (js_error + 'r) \<times> database" where
  "executeQuery statement db =
     (case take_fault db of
        (Some msg, db') \<Rightarrow> (Inl (RequestError msg), db')
      | (None, db') \<Rightarrow> statement db')"

text \<open>\<^verbatim>\<open>s.includes(sub)\<close>.\<close>

fun js_includes :: "string \<Rightarrow> string \<Rightarrow> bool" where
  "js_includes [] sub = (sub = [])"
| "js_includes (c # cs) sub = (startsWith sub (c # cs) \<or> js_includes cs sub)"

text \<open>
  The message of SQL Server for a second row with the same value in a column that is a
  primary key or declared \<^verbatim>\<open>UNIQUE\<close>.
\<close>

definition duplicate_key_message :: "string \<Rightarrow> string" where
  "duplicate_key_message table =
     ''Violation of UNIQUE KEY constraint. Cannot insert duplicate key in object dbo.'' @ table"

subsection \<open>The statements of the service\<close>

text \<open>The check and the insertion of \<^verbatim>\<open>ensureFarmerExists\<close>.\<close>

definition select_farmer :: "jsval \<Rightarrow> database \<Rightarrow> (js_error + farmer_row list) \<times> database" where
  "select_farmer farmerId db = (Inr (filter (\<lambda>r. f_farmer_id r = farmerId) (farmers db)), db)"

definition insert_farmer :: "farmer_row \<Rightarrow> database \<Rightarrow> (js_error + unit) \<times> database" where
  "insert_farmer row db =
     (if f_farmer_id row \<in> set (map f_farmer_id (farmers db))
      then (Inl (RequestError (duplicate_key_message ''farmers'')), db)
      else (Inr (), db\<lparr> farmers := farmers db @ [row] \<rparr>))"

text \<open>
  The stored procedure \<^verbatim>\<open>sp_StoreAgriData\<close>: one insertion in a transaction of its own,
  committed before the procedure returns the new row.
\<close>

definition sp_StoreAgriData :: "agri_row \<Rightarrow> database \<Rightarrow> (js_error + agri_row) \<times> database" where
  "sp_StoreAgriData params db =
     (let row = params\<lparr> ad_data_id := next_data_id db \<rparr>
      in (Inr row, db\<lparr> agricultural_data := agricultural_data db @ [row],
                        next_data_id := next_data_id db + 1 \<rparr>))"

definition insert_blockchain_transaction :: "btx_row \<Rightarrow> database \<Rightarrow> (js_error + unit) \<times> database" where
  "insert_blockchain_transaction row db =
     (if bt_transaction_hash row \<in> set (map bt_transaction_hash (blockchain_transactions db))
      then (Inl (RequestError (duplicate_key_message ''blockchain_transactions'')), db)
      else (Inr (), db\<lparr> blockchain_transactions := blockchain_transactions db @ [row] \<rparr>))"

definition insert_uploaded_file :: "file_row \<Rightarrow> database \<Rightarrow> (js_error + unit) \<times> database" where
  "insert_uploaded_file params db =
     (Inr (), db\<lparr> uploaded_files := uploaded_files db @ [params\<lparr> uf_file_id := next_file_id db \<rparr>],
                   next_file_id := next_file_id db + 1 \<rparr>)"

definition insert_verification_log :: "vlog_row \<Rightarrow> database \<Rightarrow> (js_error + unit) \<times> database" where
  "insert_verification_log params db =
     (Inr (), db\<lparr> verification_logs := verification_logs db @ [params\<lparr> vl_log_id := next_log_id db \<rparr>],
                   next_log_id := next_log_id db + 1 \<rparr>)"

definition insert_system_log :: "syslog_row \<Rightarrow> database \<Rightarrow> (js_error + unit) \<times> database" where
  "insert_system_log row db = (Inr (), db\<lparr> system_logs := system_logs db @ [row] \<rparr>)"

subsection \<open>\<^verbatim>\<open>ensureFarmerExists\<close>\<close>

text \<open>
  The farmer is looked up; only when no row is found, a row is inserted, with defaults for
  what \<^verbatim>\<open>farmerInfo\<close> does not give. Exceptions are thrown again.
\<close>

definition new_farmer_row :: "jsval \<Rightarrow> (string \<times> jsval) list \<Rightarrow> farmer_row" where
  "new_farmer_row farmerId farmerInfo =
     \<lparr> f_farmer_id = farmerId,
       f_full_name = js_or (obj_get farmerInfo ''fullName'') (JStr (''Farmer '' @ String_of farmerId)),
       f_email = js_or (obj_get farmerInfo ''email'') JNull,
       f_phone = js_or (obj_get farmerInfo ''phone'') JNull,
       f_address = js_or (obj_get farmerInfo ''address'') JNull,
       f_province = js_or (obj_get farmerInfo ''province'') JNull,
       f_district = js_or (obj_get farmerInfo ''district'') JNull,
       f_ward = js_or (obj_get farmerInfo ''ward'') JNull,
       f_certification_level = js_or (obj_get farmerInfo ''certificationLevel'') (JStr ''Standard''),
       f_wallet_address = js_or (obj_get farmerInfo ''walletAddress'') JNull \<rparr>"

definition ensureFarmerExists ::
  "jsval \<Rightarrow> (string \<times> jsval) list \<Rightarrow> database \<Rightarrow> (js_error + unit) \<times> database" where
  "ensureFarmerExists farmerId farmerInfo db =
     (case executeQuery (select_farmer farmerId) db of
        (Inl e, db1) \<Rightarrow> (Inl e, db1)
      | (Inr recordset, db1) \<Rightarrow>
          (if length recordset = 0
           then executeQuery (insert_farmer (new_farmer_row farmerId farmerInfo)) db1
           else (Inr (), db1)))"

subsection \<open>\<^verbatim>\<open>storeBlockchainTransaction\<close>, \<^verbatim>\<open>storeFileMetadata\<close>, \<^verbatim>\<open>logOperation\<close>\<close>

definition new_btx_row :: "string \<Rightarrow> (string \<times> jsval) list \<Rightarrow> btx_row" where
  "new_btx_row now blockchainData =
     \<lparr> bt_transaction_hash = obj_get blockchainData ''transactionHash'',
       bt_block_number = js_or (obj_get blockchainData ''blockNumber'') JNull,
       bt_block_hash = js_or (obj_get blockchainData ''blockHash'') JNull,
       bt_from_address = js_or (obj_get blockchainData ''from'') (obj_get blockchainData ''fromAddress''),
       bt_to_address = js_or (obj_get blockchainData ''to'') (obj_get blockchainData ''toAddress''),
       bt_gas_used = js_or (obj_get blockchainData ''gasUsed'') JNull,
       bt_gas_price = js_or (obj_get blockchainData ''gasPrice'') JNull,
       bt_transaction_fee = js_or (obj_get blockchainData ''transactionFee'') JNull,
       bt_network_name = js_or (obj_get blockchainData ''networkName'') (JStr ''amoy''),
       bt_network_id = js_or (obj_get blockchainData ''networkId'') (JNum 80002),
       bt_status = js_or (obj_get blockchainData ''status'') (JStr ''Confirmed''),
       bt_transaction_date = now \<rparr>"

text \<open>
  An exception of the insertion whose message contains \<^verbatim>\<open>duplicate\<close> or \<^verbatim>\<open>UNIQUE\<close> is
  ignored; every other exception is thrown again.
\<close>

definition storeBlockchainTransaction ::
  "string \<Rightarrow> (string \<times> jsval) list \<Rightarrow> database \<Rightarrow> (js_error + unit) \<times> database" where
  "storeBlockchainTransaction now blockchainData db =
     (case executeQuery (insert_blockchain_transaction (new_btx_row now blockchainData)) db of
        (Inl e, db1) \<Rightarrow>
          (if \<not> js_includes (message e) ''duplicate'' \<and> \<not> js_includes (message e) ''UNIQUE''
           then (Inl e, db1)
           else (Inr (), db1))
      | (Inr u, db1) \<Rightarrow> (Inr (), db1))"

definition new_file_row :: "string \<Rightarrow> int \<Rightarrow> upload_file \<Rightarrow> file_row" where
  "new_file_row now dataId file =
     \<lparr> uf_file_id = 0, uf_data_id = dataId, uf_original_name = originalname file,
       uf_stored_filename = filename file, uf_file_path = path file,
       uf_file_size = file_size file, uf_mime_type = mimetype file,
       uf_file_hash = js_or (file_hash file) (JStr []), uf_upload_date = now,
       uf_is_active = True \<rparr>"

text \<open>
  The loop of \<^verbatim>\<open>storeFileMetadata\<close>: one insertion for each file, in order; the first
  exception ends the loop and is thrown again.
\<close>

fun storeFileMetadata ::
  "string \<Rightarrow> int \<Rightarrow> upload_file list \<Rightarrow> database \<Rightarrow> (js_error + unit) \<times> database" where
  "storeFileMetadata now dataId [] db = (Inr (), db)"
| "storeFileMetadata now dataId (file # rest) db =
     (case executeQuery (insert_uploaded_file (new_file_row now dataId file)) db of
        (Inl e, db1) \<Rightarrow> (Inl e, db1)
      | (Inr u, db1) \<Rightarrow> storeFileMetadata now dataId rest db1)"

text \<open>\<^verbatim>\<open>logOperation\<close> writes a row of the system log; its exceptions are swallowed.\<close>

definition logOperation :: "string \<Rightarrow> string \<Rightarrow> jsval \<Rightarrow> database \<Rightarrow> (js_error + unit) \<times> database" where
  "logOperation now operation details db =
     (case executeQuery (insert_system_log
             \<lparr> sl_log_level = ''INFO'', sl_log_category = ''API'', sl_message = operation,
               sl_details = stringify details, sl_timestamp = now \<rparr>) db of
        (Inl e, db1) \<Rightarrow> (Inr (), db1)
      | (Inr u, db1) \<Rightarrow> (Inr (), db1))"

subsection \<open>\<^verbatim>\<open>DatabaseService.storeAgriData\<close>\<close>

definition new_agri_row :: "(string \<times> jsval) list \<Rightarrow> (string \<times> jsval) list \<Rightarrow> upload_file list \<Rightarrow> agri_row" where
  "new_agri_row agriData blockchainData fs =
     \<lparr> ad_data_id = 0,
       ad_farmer_id = obj_get agriData ''farmerId'',
       ad_product_type = obj_get agriData ''productType'',
       ad_location = obj_get agriData ''location'',
       ad_harvest_date = new_Date (obj_get agriData ''harvestDate''),
       ad_quantity = js_or (obj_get agriData ''quantity'') JNull,
       ad_quality = js_or (obj_get agriData ''quality'') (JStr ''Standard''),
       ad_notes = js_or (obj_get agriData ''notes'') JNull,
       ad_data_hash = obj_get agriData ''hash'',
       ad_transaction_hash = obj_get blockchainData ''transactionHash'',
       ad_block_number = js_or (obj_get blockchainData ''blockNumber'') JNull,
       ad_has_files = (length fs > 0),
       ad_file_count = length fs \<rparr>"

text \<open>
  In this order: the farmer is ensured, the record is stored by the procedure, the
  transaction row is stored, then the rows of the files, then the system log. An
  exception of any step but the last ends the function and is thrown again; nothing that
  was written before is taken back.
\<close>

definition db_storeAgriData ::
  "string \<Rightarrow> (string \<times> jsval) list \<Rightarrow> (string \<times> jsval) list \<Rightarrow> upload_file list \<Rightarrow> database
     \<Rightarrow> (js_error + agri_row) \<times> database" where
  "db_storeAgriData now agriData blockchainData fs db =
     (case ensureFarmerExists (obj_get agriData ''farmerId'')
             (props_of (js_or (obj_get agriData ''farmerInfo'') (JObj []))) db of
        (Inl e, db1) \<Rightarrow> (Inl e, db1)
      | (Inr u, db1) \<Rightarrow>
          (case executeQuery (sp_StoreAgriData (new_agri_row agriData blockchainData fs)) db1 of
             (Inl e, db2) \<Rightarrow> (Inl e, db2)
           | (Inr row, db2) \<Rightarrow>
               (case storeBlockchainTransaction now blockchainData db2 of
                  (Inl e, db3) \<Rightarrow> (Inl e, db3)
                | (Inr u, db3) \<Rightarrow>
                    (case (if length fs > 0 then storeFileMetadata now (ad_data_id row) fs db3
                           else (Inr (), db3)) of
                       (Inl e, db4) \<Rightarrow> (Inl e, db4)
                     | (Inr u, db4) \<Rightarrow>
                         (case logOperation now ''STORE_DATA''
                                 (JObj [(''dataId'', JNum (ad_data_id row)),
                                        (''farmerId'', obj_get agriData ''farmerId''),
                                        (''transactionHash'', obj_get blockchainData ''transactionHash''),
                                        (''fileCount'', JNum (int (length fs)))]) db4 of
                            (r, db5) \<Rightarrow> (Inr row, db5))))))"

subsection \<open>\<^verbatim>\<open>retrieveAgriData\<close> and the verification log\<close>

text \<open>
  The result of the query of \<^verbatim>\<open>retrieveAgriData\<close>: a row of \<^verbatim>\<open>agricultural_data\<close> with the
  columns joined from the farmer and from the transaction (\<^verbatim>\<open>null\<close> without a partner),
  then the files and the earlier verifications.
\<close>

record agri_view =
  av_row :: agri_row
  av_full_name :: jsval
  av_email :: jsval
  av_phone :: jsval
  av_blockchain_status :: jsval
  av_gas_used :: jsval
  av_transaction_fee :: jsval
  av_files :: "file_row list"
  av_verificationHistory :: "vlog_row list"

text \<open>
  A row is found by its number (given as a number or as its decimal text) for the type
  \<^verbatim>\<open>id\<close>, and otherwise by its transaction hash or its data hash.
\<close>

definition matches :: "string \<Rightarrow> jsval \<Rightarrow> agri_row \<Rightarrow> bool" where
  "matches ty identifier r =
     (if ty = ''id''
      then identifier = JNum (ad_data_id r) \<or> identifier = JStr (show_int (ad_data_id r))
      else ad_transaction_hash r = identifier \<or> ad_data_hash r = identifier)"

definition left_join :: "agri_row \<Rightarrow> database \<Rightarrow> agri_view list" where
  "left_join r db =
     (let fs = filter (\<lambda>f. f_farmer_id f = ad_farmer_id r) (farmers db);
          ts = filter (\<lambda>t. bt_transaction_hash t = ad_transaction_hash r) (blockchain_transactions db);
          with_farmer = (\<lambda>f t. \<lparr> av_row = r,
                                  av_full_name = (case f of None \<Rightarrow> JNull | Some x \<Rightarrow> f_full_name x),
                                  av_email = (case f of None \<Rightarrow> JNull | Some x \<Rightarrow> f_email x),
                                  av_phone = (case f of None \<Rightarrow> JNull | Some x \<Rightarrow> f_phone x),
                                  av_blockchain_status = (case t of None \<Rightarrow> JNull | Some x \<Rightarrow> bt_status x),
                                  av_gas_used = (case t of None \<Rightarrow> JNull | Some x \<Rightarrow> bt_gas_used x),
                                  av_transaction_fee = (case t of None \<Rightarrow> JNull | Some x \<Rightarrow> bt_transaction_fee x),
                                  av_files = [], av_verificationHistory = [] \<rparr>)
      in concat (map (\<lambda>f. map (\<lambda>t. with_farmer f t) (if ts = [] then [None] else map Some ts))
                     (if fs = [] then [None] else map Some fs)))"

definition select_agri_data :: "string \<Rightarrow> jsval \<Rightarrow> database \<Rightarrow> (js_error + agri_view list) \<times> database" where
  "select_agri_data ty identifier db =
     (Inr (concat (map (\<lambda>r. left_join r db) (filter (matches ty identifier) (agricultural_data db)))), db)"

text \<open>
  \<^verbatim>\<open>getFilesByDataId\<close> and \<^verbatim>\<open>getVerificationLogs\<close> return the newest rows first and the
  empty list when the query fails.
\<close>

definition select_files :: "int \<Rightarrow> database \<Rightarrow> (js_error + file_row list) \<times> database" where
  "select_files dataId db =
     (Inr (rev (filter (\<lambda>f. uf_data_id f = dataId \<and> uf_is_active f) (uploaded_files db))), db)"

definition getFilesByDataId :: "int \<Rightarrow> database \<Rightarrow> (js_error + file_row list) \<times> database" where
  "getFilesByDataId dataId db =
     (case executeQuery (select_files dataId) db of
        (Inl e, db1) \<Rightarrow> (Inr [], db1)
      | (Inr recordset, db1) \<Rightarrow> (Inr recordset, db1))"

definition select_verification_logs :: "int \<Rightarrow> database \<Rightarrow> (js_error + vlog_row list) \<times> database" where
  "select_verification_logs dataId db =
     (Inr (rev (filter (\<lambda>v. vl_data_id v = dataId) (verification_logs db))), db)"

definition getVerificationLogs :: "int \<Rightarrow> database \<Rightarrow> (js_error + vlog_row list) \<times> database" where
  "getVerificationLogs dataId db =
     (case executeQuery (select_verification_logs dataId) db of
        (Inl e, db1) \<Rightarrow> (Inr [], db1)
      | (Inr recordset, db1) \<Rightarrow> (Inr recordset, db1))"

definition db_retrieveAgriData ::
  "string \<Rightarrow> jsval \<Rightarrow> database \<Rightarrow> (js_error + agri_view) \<times> database" where
  "db_retrieveAgriData ty identifier db =
     (case executeQuery (select_agri_data ty identifier) db of
        (Inl e, db1) \<Rightarrow> (Inl e, db1)
      | (Inr [], db1) \<Rightarrow>
          (Inl (Error (''No data found for '' @ ty @ '': '' @ String_of identifier)), db1)
      | (Inr (d # others), db1) \<Rightarrow>
          (case (if ad_has_files (av_row d) then getFilesByDataId (ad_data_id (av_row d)) db1
                 else (Inr [], db1)) of
             (Inl e, db2) \<Rightarrow> (Inl e, db2)
           | (Inr fs, db2) \<Rightarrow>
               (case getVerificationLogs (ad_data_id (av_row d)) db2 of
                  (Inl e, db3) \<Rightarrow> (Inl e, db3)
                | (Inr logs, db3) \<Rightarrow>
                    (Inr (d\<lparr> av_files := fs, av_verificationHistory := logs \<rparr>), db3))))"

text \<open>
  \<^verbatim>\<open>logVerification\<close>: one insertion into \<^verbatim>\<open>verification_logs\<close>. When the insertion throws,
  the exception is written to the console and the function returns normally.
\<close>

definition zero_hash :: string where
  "zero_hash = ''0x0000000000000000000000000000000000000000000000000000000000000000''"

definition new_vlog_row :: "string \<Rightarrow> int \<Rightarrow> bool \<Rightarrow> string \<Rightarrow> (string \<times> jsval) list \<Rightarrow> vlog_row" where
  "new_vlog_row now dataId isValid method details =
     \<lparr> vl_log_id = 0, vl_data_id = dataId,
       vl_transaction_hash = js_or (obj_get details ''transactionHash'') (JStr zero_hash),
       vl_verification_date = now,
       vl_verification_method = method,
       vl_is_valid = (if isValid then 1 else 0),
       vl_stored_hash = js_or (obj_get details ''storedHash'') (JStr zero_hash),
       vl_current_hash = js_or (obj_get details ''currentHash'') (JStr zero_hash),
       vl_client_ip = js_or (obj_get details ''ip'') JNull,
       vl_user_agent = js_or (obj_get details ''userAgent'') JNull \<rparr>"

definition logVerification ::
  "string \<Rightarrow> int \<Rightarrow> bool \<Rightarrow> string \<Rightarrow> (string \<times> jsval) list \<Rightarrow> database \<Rightarrow> (js_error + unit) \<times> database" where
  "logVerification now dataId isValid method details db =
     (case executeQuery (insert_verification_log (new_vlog_row now dataId isValid method details)) db of
        (Inl e, db1) \<Rightarrow> (Inr (), db1)
      | (Inr u, db1) \<Rightarrow> (Inr (), db1))"

text \<open>The rows of a farmer, and the state after two calls of \<^verbatim>\<open>ensureFarmerExists\<close>.\<close>

definition farmer_rows :: "jsval \<Rightarrow> database \<Rightarrow> farmer_row list" where
  "farmer_rows farmerId db = filter (\<lambda>r. f_farmer_id r = farmerId) (farmers db)"

definition ensured_twice ::
  "jsval \<Rightarrow> (string \<times> jsval) list \<Rightarrow> (string \<times> jsval) list \<Rightarrow> database \<Rightarrow> database" where
  "ensured_twice farmerId info1 info2 db =
     snd (ensureFarmerExists farmerId info2 (snd (ensureFarmerExists farmerId info1 db)))"

text \<open>Two states with the same tables and counters: they differ at most in the faults to come.\<close>

definition same_tables :: "database \<Rightarrow> database \<Rightarrow> bool" where
  "same_tables db db' = (db' = db\<lparr> faults := faults db' \<rparr>)"

text \<open>
  The rows that \<^verbatim>\<open>storeFileMetadata\<close> writes for a list of files when every insertion is
  executed; \<open>n\<close> is the number of the first row.
\<close>

fun file_rows :: "string \<Rightarrow> int \<Rightarrow> int \<Rightarrow> upload_file list \<Rightarrow> file_row list" where
  "file_rows now dataId n [] = []"
| "file_rows now dataId n (file # rest) =
     (new_file_row now dataId file)\<lparr> uf_file_id := n \<rparr> # file_rows now dataId (n + 1) rest"

definition has_transaction :: "(string \<times> jsval) list \<Rightarrow> database \<Rightarrow> bool" where
  "has_transaction blockchainData db =
     (obj_get blockchainData ''transactionHash'' \<in> set (map bt_transaction_hash (blockchain_transactions db)))"

text \<open>The row that the procedure returns for the parameters of \<^verbatim>\<open>storeAgriData\<close>.\<close>

definition stored_row ::
  "(string \<times> jsval) list \<Rightarrow> (string \<times> jsval) list \<Rightarrow> upload_file list \<Rightarrow> database \<Rightarrow> agri_row" where
  "stored_row agriData blockchainData fs db =
     (new_agri_row agriData blockchainData fs)\<lparr> ad_data_id := next_data_id db \<rparr>"

section \<open>The AgriChain service\<close>

text \<open>
  The service works on the ledger and on the database. Its clock is read in three places
  of \<^verbatim>\<open>storeAgriData\<close> (for the hash, for the envelope of the transaction, for the rows of
  the database) and in two of \<^verbatim>\<open>verifyAgriDataIntegrity\<close>; each reading is an argument.
\<close>

record agri_store_result =
  as_dataId :: int
  as_dataHash :: string
  as_originalData :: jsval
  as_transactionHash :: string
  as_blockNumber :: int
  as_network :: string
  as_chainId :: string
  as_timestamp :: jsval
  as_filesStored :: nat
  as_gasUsed :: string
  as_dataSize :: nat
  as_fieldsProcessed :: "string list"

definition anchor_metadata :: "jsval \<Rightarrow> hash_result \<Rightarrow> (string \<times> jsval) list" where
  "anchor_metadata agriData hashResult =
     [(''farmerId'', obj_get (props_of agriData) ''farmerId''),
      (''productType'', obj_get (props_of agriData) ''productType''),
      (''harvestDate'', obj_get (props_of agriData) ''harvestDate''),
      (''dataSize'', JNum (int (hr_size hashResult))),
      (''fieldsCount'', JNum (int (length (hr_fields hashResult))))]"

definition blockchainData_of :: "store_result \<Rightarrow> (string \<times> jsval) list" where
  "blockchainData_of blockchainResult =
     [(''transactionHash'', JStr (sr_transactionHash blockchainResult)),
      (''blockNumber'', JNum (sr_blockNumber blockchainResult)),
      (''from'', JStr (bp_fromAddress (sr_blockchainProof blockchainResult))),
      (''to'', JStr (bp_toAddress (sr_blockchainProof blockchainResult))),
      (''gasUsed'', JStr (bp_gasUsed (sr_blockchainProof blockchainResult))),
      (''gasPrice'', JStr (bp_gasPrice (sr_blockchainProof blockchainResult))),
      (''transactionFee'', JStr (bp_transactionFee (sr_blockchainProof blockchainResult))),
      (''networkName'', JStr (bp_network (sr_blockchainProof blockchainResult))),
      (''networkId'', JStr (bp_chainId (sr_blockchainProof blockchainResult))),
      (''status'', JStr ''Confirmed'')]"

text \<open>
  \<^verbatim>\<open>storeAgriData(agriData, files)\<close>: the hash of the record, the transaction that carries
  it, the rows of the database. Every exception is thrown again.
\<close>

definition storeAgriData ::
  "string \<Rightarrow> string \<Rightarrow> string \<Rightarrow> blockchainConfig \<Rightarrow> network_answer \<Rightarrow> jsval \<Rightarrow> upload_file list
     \<Rightarrow> ledger \<times> database \<Rightarrow> (js_error + agri_store_result) \<times> (ledger \<times> database)" where
  "storeAgriData t_hash t_tx t_db cfg answer agriData fs world =
     (case createAgriDataHash t_hash agriData of
        Inl e \<Rightarrow> (Inl e, world)
      | Inr hashResult \<Rightarrow>
          (case storeHashOnBlockchain t_tx cfg answer (JStr (hr_hash hashResult))
                  (anchor_metadata agriData hashResult) (fst world) of
             (Inl e, l1) \<Rightarrow> (Inl e, (l1, snd world))
           | (Inr blockchainResult, l1) \<Rightarrow>
               (case db_storeAgriData t_db
                       (spread (props_of agriData) [(''hash'', JStr (hr_hash hashResult))])
                       (blockchainData_of blockchainResult) fs (snd world) of
                  (Inl e, db1) \<Rightarrow> (Inl e, (l1, db1))
                | (Inr databaseResult, db1) \<Rightarrow>
                    (Inr \<lparr> as_dataId = ad_data_id databaseResult,
                           as_dataHash = hr_hash hashResult,
                           as_originalData = hr_data hashResult,
                           as_transactionHash = sr_transactionHash blockchainResult,
                           as_blockNumber = sr_blockNumber blockchainResult,
                           as_network = bp_network (sr_blockchainProof blockchainResult),
                           as_chainId = bp_chainId (sr_blockchainProof blockchainResult),
                           as_timestamp = bp_timestamp (sr_blockchainProof blockchainResult),
                           as_filesStored = length fs,
                           as_gasUsed = sr_gasUsed blockchainResult,
                           as_dataSize = hr_size hashResult,
                           as_fieldsProcessed = hr_fields hashResult \<rparr>, (l1, db1)))))"

record verify_result =
  vr_dataId :: int
  vr_isValid :: bool
  vr_storedHash :: jsval
  vr_currentHash :: string
  vr_current :: jsval
  vr_status :: string
  vr_message :: string

text \<open>
  \<^verbatim>\<open>verifyAgriDataIntegrity(originalData, identifier, type, verificationDetails)\<close>: the stored
  record is fetched, the hash of the data that the caller supplies is created anew with
  \<^verbatim>\<open>createAgriDataHash\<close>, the data it returns is compared with the stored hash by
  \<^verbatim>\<open>verifyHash\<close>, and the attempt is logged.
\<close>

definition verifyAgriDataIntegrity ::
  "string \<Rightarrow> string \<Rightarrow> jsval \<Rightarrow> jsval \<Rightarrow> string \<Rightarrow> (string \<times> jsval) list \<Rightarrow> database
     \<Rightarrow> (js_error + verify_result) \<times> database" where
  "verifyAgriDataIntegrity t_hash t_log originalData identifier ty verificationDetails db =
     (case db_retrieveAgriData ty identifier db of
        (Inl e, db1) \<Rightarrow> (Inl e, db1)
      | (Inr storedData, db1) \<Rightarrow>
          (case createAgriDataHash t_hash originalData of
             Inl e \<Rightarrow> (Inl e, db1)
           | Inr currentHashResult \<Rightarrow>
               (case verifyHash (hr_data currentHashResult) (ad_data_hash (av_row storedData)) of
                  Inl e \<Rightarrow> (Inl e, db1)
                | Inr isValid \<Rightarrow>
                    (case logVerification t_log (ad_data_id (av_row storedData)) isValid ''hash_comparison''
                            (spread verificationDetails
                               [(''transactionHash'', ad_transaction_hash (av_row storedData)),
                                (''currentHash'', JStr (hr_hash currentHashResult)),
                                (''storedHash'', ad_data_hash (av_row storedData)),
                                (''comparisonMethod'', JStr ''SHA-256'')]) db1 of
                       (Inl e, db2) \<Rightarrow> (Inl e, db2)
                     | (Inr u, db2) \<Rightarrow>
                         (Inr \<lparr> vr_dataId = ad_data_id (av_row storedData),
                                vr_isValid = isValid,
                                vr_storedHash = ad_data_hash (av_row storedData),
                                vr_currentHash = hr_hash currentHashResult,
                                vr_current = hr_data currentHashResult,
                                vr_status = (if isValid then ''VERIFIED'' else ''TAMPERED''),
                                vr_message = (if isValid then ''Data integrity verified successfully''
                                   else ''Data has been modified - integrity check failed'') \<rparr>,
                          db2)))))"

subsection \<open>A record, a ledger and a database to run the services on\<close>

definition example_record :: jsval where
  "example_record =
     JObj [(''farmerId'', JStr ''P1''), (''productType'', JStr ''Rice''),
           (''harvestDate'', JStr ''2024-01-01''), (''location'', JStr ''Delta'')]"

definition example_config :: blockchainConfig where
  "example_config = \<lparr> network = ''amoy'',
                       wallet_address = ''0x1111111111111111111111111111111111111111'' \<rparr>"

definition example_tx_hash :: string where
  "example_tx_hash = ''0xaaaaaaaaaaaaaaaaaaaaaaaaaaaaaaaaaaaaaaaaaaaaaaaaaaaaaaaaaaaaaaaa''"

definition example_answer :: network_answer where
  "example_answer = Confirmed \<lparr> m_hash = example_tx_hash, m_blockNumber = 100,
                                 m_blockHash = ''0xbbbbbbbbbbbbbbbbbbbbbbbbbbbbbbbbbbbbbbbbbbbbbbbbbbbbbbbbbbbbbbbb'',
                                 m_gasUsed = 25000, m_gasPrice = Some 30000000000 \<rparr>"

definition empty_ledger :: ledger where
  "empty_ledger = \<lparr> rpc_fault = None, chainId = 80002,
                     transactions = (\<lambda>h. None), receipts = (\<lambda>h. None) \<rparr>"

definition empty_database :: database where
  "empty_database = \<lparr> farmers = [], agricultural_data = [], blockchain_transactions = [],
                       uploaded_files = [], verification_logs = [], system_logs = [],
                       next_data_id = 1, next_file_id = 1, next_log_id = 1, faults = [] \<rparr>"

text \<open>A database that holds the example record, stored at \<^verbatim>\<open>2024-01-01T00:00:00.000Z\<close>.\<close>

definition stored_database :: database where
  "stored_database = empty_database
     \<lparr> farmers := [new_farmer_row (JStr ''P1'') []],
       agricultural_data :=
         [\<lparr> ad_data_id = 1, ad_farmer_id = JStr ''P1'', ad_product_type = JStr ''Rice'',
            ad_location = JStr ''Delta'', ad_harvest_date = new_Date (JStr ''2024-01-01''),
            ad_quantity = JNull, ad_quality = JStr ''Standard'', ad_notes = JNull,
            ad_data_hash = JStr ''0xe6cad9e46f4df78a591196465b3dbe6eb5a490b816a2738fbe7b7c6313e3c427'',
            ad_transaction_hash = JStr example_tx_hash, ad_block_number = JNum 100,
            ad_has_files = False, ad_file_count = 0 \<rparr>],
       next_data_id := 2 \<rparr>"

text \<open>The arguments of \<^verbatim>\<open>DatabaseService.storeAgriData\<close> for the example record.\<close>

definition example_fields :: "(string \<times> jsval) list" where
  "example_fields =
     [(''farmerId'', JStr ''P1''), (''productType'', JStr ''Rice''),
      (''harvestDate'', JStr ''2024-01-01''), (''location'', JStr ''Delta''),
      (''hash'', JStr ''0xe6cad9e46f4df78a591196465b3dbe6eb5a490b816a2738fbe7b7c6313e3c427'')]"

definition example_anchor :: "(string \<times> jsval) list" where
  "example_anchor = [(''transactionHash'', JStr example_tx_hash), (''blockNumber'', JNum 7)]"

text \<open>
  A transaction without data and its receipt; a ledger that has the transaction, and one
  that has the receipt too.
\<close>

definition example_tx :: chain_tx where
  "example_tx = \<lparr> tx_hash = example_tx_hash,
                   tx_from = ''0x1111111111111111111111111111111111111111'',
                   tx_to = ''0x1111111111111111111111111111111111111111'',
                   tx_value = 0, tx_data = ''0x'' \<rparr>"

definition example_receipt :: chain_receipt where
  "example_receipt = \<lparr> rc_hash = example_tx_hash, rc_blockNumber = 100,
                        rc_blockHash = ''0xbbbbbbbbbbbbbbbbbbbbbbbbbbbbbbbbbbbbbbbbbbbbbbbbbbbbbbbbbbbbbbbb'',
                        rc_gasUsed = 25000, rc_gasPrice = Some 30000000000, rc_status = 1,
                        rc_from = ''0x1111111111111111111111111111111111111111'',
                        rc_to = ''0x1111111111111111111111111111111111111111'' \<rparr>"

definition pending_ledger :: ledger where
  "pending_ledger = empty_ledger\<lparr> transactions := [example_tx_hash \<mapsto> example_tx] \<rparr>"

definition confirmed_ledger :: ledger where
  "confirmed_ledger = pending_ledger\<lparr> receipts := [example_tx_hash \<mapsto> example_receipt] \<rparr>"

text \<open>
  A decoder that is right for one value: it returns the value for the hexadecimal form of
  its printed text, and throws for every other data.
\<close>

definition decode_of :: "jsval \<Rightarrow> string \<Rightarrow> js_error + jsval" where
  "decode_of v data =
     (if data = hexlify (stringify v) then Inr v
      else Inl (Error ''Unexpected end of JSON input''))"


section \<open>Properties of SHA-256\<close>

lemma length_hex_state: "length (hex_state st) = 64"
  by (cases st rule: hex_state.cases) (simp add: hex32_def)

lemma length_sha256: "length (sha256 m) = 64"
  by (simp add: sha256_def length_hex_state)

lemma sha256_abc:
  "sha256 ''abc'' = ''ba7816bf8f01cfea414140de5dae2223b00361a396177a9cb410ff61f20015ad''"
  by code_simp

section \<open>Properties of the hash service\<close>

lemma startsWith_0x_Cons [simp]: "startsWith ''0x'' (CHR ''0'' # CHR ''x'' # h)"
  by (simp add: startsWith_def)

lemma verifyHash_returns: "\<exists>b. verifyHash d h = Inr b"
  by (cases "verifyHash_try d h") (auto simp: verifyHash_def)

lemma verifyHash_catch: "verifyHash_try d h = Inl e \<Longrightarrow> verifyHash d h = Inr False"
  by (simp add: verifyHash_def)

lemma verifyHash_not_string: "\<forall>s. h \<noteq> JStr s \<Longrightarrow> verifyHash d h = Inr False"
  by (cases h) (simp_all add: verifyHash_def verifyHash_try_def generateHash_def)

lemma verifyHash_prefix:
  "\<not> startsWith ''0x'' s \<Longrightarrow> verifyHash d (JStr s) = verifyHash d (JStr (''0x'' @ s))"
  by (simp add: verifyHash_def verifyHash_try_def generateHash_def)

text \<open>
  C10. \<^verbatim>\<open>verifyHash\<close> returns a boolean for every data value and every expected hash and
  never throws: whatever its body throws becomes \<^verbatim>\<open>false\<close>, in particular an expected hash
  that is not a string; and for an expected hash written without the prefix \<^verbatim>\<open>0x\<close> the
  result is the same as for that hash with the prefix added.
\<close>

theorem verifyHash_total:
  "(\<exists>b. verifyHash d h = Inr b)
   \<and> (verifyHash_try d h = Inl e \<longrightarrow> verifyHash d h = Inr False)
   \<and> ((\<forall>s. h \<noteq> JStr s) \<longrightarrow> verifyHash d h = Inr False)
   \<and> (\<not> startsWith ''0x'' s \<longrightarrow> verifyHash d (JStr s) = verifyHash d (JStr (''0x'' @ s)))"
  using verifyHash_returns verifyHash_catch verifyHash_not_string verifyHash_prefix by blast

theorem verifyHash_total_witness:
  "verifyHash_try (JStr ''abc'') (JNum 5) = Inl (TypeError ''hash.startsWith is not a function'')
   \<and> (\<forall>s. JNum 5 \<noteq> JStr s)
   \<and> \<not> startsWith ''0x'' ''ab''
   \<and> verifyHash (JStr ''abc'') (JNum 5) = Inr False
   \<and> verifyHash (JStr ''abc'') (JStr ''ab'') = verifyHash (JStr ''abc'') (JStr ''0xab'')"
  using verifyHash_total [of "JStr ''abc''" "JNum 5" "TypeError ''hash.startsWith is not a function''" "''ab''"]
  by (simp add: verifyHash_try_def generateHash_def startsWith_def)

lemma createAgriDataHash_Inl_iff:
  "(\<exists>e. createAgriDataHash now R = Inl e) = (R = JUndefined \<or> R = JNull \<or> missingFields R \<noteq> [])"
  by (simp add: createAgriDataHash_def generateHash_def)

lemma missingFields_iff:
  "(missingFields R \<noteq> []) = (\<exists>f \<in> set requiredFields. \<not> truthy (obj_get (props_of R) f))"
  by (simp add: missingFields_def filter_empty_conv)

lemma createAgriDataHash_Inr:
  "R \<noteq> JUndefined \<Longrightarrow> R \<noteq> JNull \<Longrightarrow> missingFields R = [] \<Longrightarrow>
   \<exists>r. createAgriDataHash now R = Inr r
       \<and> hr_hash r = ''0x'' @ sha256 (stringify (dataWithMetadata now R))"
  by (simp add: createAgriDataHash_def generateHash_def dataString_of_def dataWithMetadata_def)

text \<open>
  C9, as stated, fails: a record in which all four required fields are present, with the
  number \<open>0\<close> as its location, is rejected, and the error is a plain \<^verbatim>\<open>Error\<close>, not a
  \<^verbatim>\<open>ValidationError\<close>.
\<close>

theorem createAgriDataHash_present_field_rejected:
  "has_key [(''farmerId'', JStr ''P1''), (''productType'', JStr ''Rice''),
            (''harvestDate'', JStr ''2024-01-01''), (''location'', JNum 0)] ''farmerId''
   \<and> has_key [(''farmerId'', JStr ''P1''), (''productType'', JStr ''Rice''),
            (''harvestDate'', JStr ''2024-01-01''), (''location'', JNum 0)] ''productType''
   \<and> has_key [(''farmerId'', JStr ''P1''), (''productType'', JStr ''Rice''),
            (''harvestDate'', JStr ''2024-01-01''), (''location'', JNum 0)] ''harvestDate''
   \<and> has_key [(''farmerId'', JStr ''P1''), (''productType'', JStr ''Rice''),
            (''harvestDate'', JStr ''2024-01-01''), (''location'', JNum 0)] ''location''
   \<and> createAgriDataHash ''2024-01-01T00:00:00.000Z''
        (JObj [(''farmerId'', JStr ''P1''), (''productType'', JStr ''Rice''),
               (''harvestDate'', JStr ''2024-01-01''), (''location'', JNum 0)])
       = Inl (Error ''Missing required fields: location'')"
  by (simp add: has_key_def createAgriDataHash_def missingFields_def requiredFields_def obj_get_def)

text \<open>
  C9, amended. \<^verbatim>\<open>createAgriDataHash\<close> fails exactly when the record is \<^verbatim>\<open>null\<close> or
  \<^verbatim>\<open>undefined\<close> or one of the four required fields is absent or falsy (\<^verbatim>\<open>null\<close>, \<^verbatim>\<open>false\<close>,
  \<^verbatim>\<open>0\<close>, the empty string). For \<^verbatim>\<open>undefined\<close> and for \<^verbatim>\<open>null\<close> the error is the
  \<^verbatim>\<open>TypeError\<close> of reading the first required field; for every other value it is a plain
  \<^verbatim>\<open>Error\<close> whose message lists the missing fields in the order of the list of required
  fields. No other failure exists: a record that passes the check always gets its hash,
  which for a record whose numbers are safe integers is the prefixed SHA-256 digest of the
  printed record with its metadata.
\<close>

theorem createAgriDataHash_rejects_iff_falsy:
  "((\<exists>e. createAgriDataHash now R = Inl e)
      = (R = JUndefined \<or> R = JNull \<or> (\<exists>f \<in> set requiredFields. \<not> truthy (obj_get (props_of R) f))))
   \<and> createAgriDataHash now JUndefined
        = Inl (TypeError ''Cannot read properties of undefined (reading 'farmerId')'')
   \<and> createAgriDataHash now JNull
        = Inl (TypeError ''Cannot read properties of null (reading 'farmerId')'')
   \<and> (R \<noteq> JUndefined \<and> R \<noteq> JNull \<and> createAgriDataHash now R = Inl e \<longrightarrow>
        e = Error (''Missing required fields: '' @ join '', '' (missingFields R)))
   \<and> (R \<noteq> JUndefined \<and> R \<noteq> JNull \<and> (\<forall>f \<in> set requiredFields. truthy (obj_get (props_of R) f)) \<longrightarrow>
        (\<exists>r. createAgriDataHash now R = Inr r))
   \<and> (safe_numbers R \<and> createAgriDataHash now R = Inr r \<longrightarrow>
        hr_hash r = ''0x'' @ sha256 (stringify (dataWithMetadata now R))
        \<and> hr_data r = dataWithMetadata now R)"
proof (intro conjI impI)
  show "(\<exists>e. createAgriDataHash now R = Inl e)
      = (R = JUndefined \<or> R = JNull \<or> (\<exists>f \<in> set requiredFields. \<not> truthy (obj_get (props_of R) f)))"
    by (simp only: createAgriDataHash_Inl_iff missingFields_iff)
next
  show "createAgriDataHash now JUndefined
        = Inl (TypeError ''Cannot read properties of undefined (reading 'farmerId')'')"
    by (simp add: createAgriDataHash_def)
next
  show "createAgriDataHash now JNull
        = Inl (TypeError ''Cannot read properties of null (reading 'farmerId')'')"
    by (simp add: createAgriDataHash_def)
next
  assume "R \<noteq> JUndefined \<and> R \<noteq> JNull \<and> createAgriDataHash now R = Inl e"
  then show "e = Error (''Missing required fields: '' @ join '', '' (missingFields R))"
    by (simp add: createAgriDataHash_def generateHash_def split: if_splits)
next
  assume a: "R \<noteq> JUndefined \<and> R \<noteq> JNull \<and> (\<forall>f \<in> set requiredFields. truthy (obj_get (props_of R) f))"
  then have "missingFields R = []"
    using missingFields_iff [of R] by blast
  with a show "\<exists>r. createAgriDataHash now R = Inr r"
    using createAgriDataHash_Inr by blast
next
  assume "safe_numbers R \<and> createAgriDataHash now R = Inr r"
  then show "hr_hash r = ''0x'' @ sha256 (stringify (dataWithMetadata now R))"
    by (auto simp: createAgriDataHash_def generateHash_def dataString_of_def dataWithMetadata_def
        split: if_splits)
next
  assume "safe_numbers R \<and> createAgriDataHash now R = Inr r"
  then show "hr_data r = dataWithMetadata now R"
    by (auto simp: createAgriDataHash_def generateHash_def split: if_splits)
qed

theorem createAgriDataHash_rejects_iff_falsy_witness:
  "createAgriDataHash ''2024-01-01T00:00:00.000Z''
      (JObj [(''farmerId'', JStr ''P1''), (''productType'', JStr []),
             (''harvestDate'', JStr ''2024-01-01'')])
     = Inl (Error ''Missing required fields: productType, location'')
   \<and> list_all (\<lambda>f. truthy (obj_get
         [(''farmerId'', JStr ''P1''), (''productType'', JStr ''Rice''),
          (''harvestDate'', JStr ''2024-01-01''), (''location'', JStr ''Delta'')] f)) requiredFields
   \<and> safe_numbers
        (JObj [(''farmerId'', JStr ''P1''), (''productType'', JStr ''Rice''),
               (''harvestDate'', JStr ''2024-01-01''), (''location'', JStr ''Delta'')])
   \<and> (\<exists>r. createAgriDataHash ''2024-01-01T00:00:00.000Z''
         (JObj [(''farmerId'', JStr ''P1''), (''productType'', JStr ''Rice''),
                (''harvestDate'', JStr ''2024-01-01''), (''location'', JStr ''Delta'')]) = Inr r
        \<and> hr_hash r = ''0x'' @ sha256 (stringify (dataWithMetadata ''2024-01-01T00:00:00.000Z''
         (JObj [(''farmerId'', JStr ''P1''), (''productType'', JStr ''Rice''),
                (''harvestDate'', JStr ''2024-01-01''), (''location'', JStr ''Delta'')]))))"
proof -
  let ?t = "''2024-01-01T00:00:00.000Z''"
  let ?bad = "[(''farmerId'', JStr ''P1''), (''productType'', JStr []),
               (''harvestDate'', JStr ''2024-01-01'')]"
  let ?good = "[(''farmerId'', JStr ''P1''), (''productType'', JStr ''Rice''),
                (''harvestDate'', JStr ''2024-01-01''), (''location'', JStr ''Delta'')]"
  have m: "missingFields (JObj ?bad) = [''productType'', ''location'']"
    by (simp add: missingFields_def requiredFields_def obj_get_def)
  have b: "createAgriDataHash ?t (JObj ?bad) = Inl (Error ''Missing required fields: productType, location'')"
    by (simp add: createAgriDataHash_def m)
  note bad = createAgriDataHash_rejects_iff_falsy
      [where now = ?t and R = "JObj ?bad"
         and e = "Error ''Missing required fields: productType, location''",
       THEN conjunct2, THEN conjunct2, THEN conjunct2, THEN conjunct1]
  from bad b m have bad': "createAgriDataHash ?t (JObj ?bad)
      = Inl (Error ''Missing required fields: productType, location'')"
    by simp
  have good: "\<forall>f \<in> set requiredFields. truthy (obj_get ?good f)"
    by (simp add: requiredFields_def obj_get_def)
  have safe: "safe_numbers (JObj ?good)"
    by simp
  from good
    createAgriDataHash_rejects_iff_falsy
      [where now = ?t and R = "JObj ?good",
       THEN conjunct2, THEN conjunct2, THEN conjunct2, THEN conjunct2, THEN conjunct1]
  obtain r where r: "createAgriDataHash ?t (JObj ?good) = Inr r"
    by auto
  from safe r
    createAgriDataHash_rejects_iff_falsy
      [where now = ?t and R = "JObj ?good" and r = r,
       THEN conjunct2, THEN conjunct2, THEN conjunct2, THEN conjunct2, THEN conjunct2]
  have "hr_hash r = ''0x'' @ sha256 (stringify (dataWithMetadata ?t (JObj ?good)))"
    by simp
  with r have "\<exists>r. createAgriDataHash ?t (JObj ?good) = Inr r
        \<and> hr_hash r = ''0x'' @ sha256 (stringify (dataWithMetadata ?t (JObj ?good)))"
    by blast
  moreover from good have "list_all (\<lambda>f. truthy (obj_get ?good f)) requiredFields"
    by (simp only: list_all_iff)
  ultimately show ?thesis using bad' safe by blast
qed

section \<open>Properties of the file service\<close>

lemma sha256_empty_object:
  "sha256 ''{}'' = ''44136fa355b3678a1146ad16f7e8649e94fb4fc21fe77e8310c060f61caaff8a''"
  by code_simp

lemma sha256_of_digest:
  "sha256 ''44136fa355b3678a1146ad16f7e8649e94fb4fc21fe77e8310c060f61caaff8a''
     = ''b8a4120408a76e335316de9a0c139291da653eaffab9cb1406bccf615a0ff495''"
  by code_simp

lemma sha256_a:
  "sha256 ''a'' = ''ca978112ca1bbdcafac231b39a23dc4da786eff8147c4e72b9807785afee48bb''"
  by code_simp

lemma sha256_b:
  "sha256 ''b'' = ''3e23e8160039594a33894f6564e1b1348bbd7a0088d42c4acb73eeaed59c009d''"
  by code_simp

lemma files_loop_readable:
  "readable disk fs \<Longrightarrow>
   files_loop disk fs c infos =
     Inr (c @ concat (map (file_digest disk) fs),
          infos @ map (\<lambda>file. \<lparr> fi_originalName = originalname file, fi_filename = filename file,
                                fi_size = file_size file, fi_mimetype = mimetype file,
                                fi_hash = ''0x'' @ file_digest disk file, fi_path = path file \<rparr>) fs)"
proof (induction fs arbitrary: c infos)
  case Nil
  then show ?case by simp
next
  case (Cons f rest)
  from Cons.prems obtain bytes where b: "disk (path f) = Some bytes" and r: "readable disk rest"
    by (auto simp: readable_def)
  show ?case
    using Cons.IH [OF r] b by (simp add: readFileSync_def file_digest_def)
qed

lemma concat_digests_inj:
  "length xs = length ys \<Longrightarrow>
   concat (map (file_digest disk) xs) = concat (map (file_digest disk) ys) \<Longrightarrow>
   map (file_digest disk) xs = map (file_digest disk) ys"
proof (induction xs ys rule: list_induct2)
  case Nil
  then show ?case by simp
next
  case (Cons x xs y ys)
  have "length (file_digest disk x) = length (file_digest disk y)"
    by (simp add: file_digest_def length_sha256)
  with Cons show ?case by simp
qed

lemma generateCombinedHash_readable:
  assumes "readable disk fs" and "d \<noteq> JUndefined"
  shows "generateCombinedHash disk now d fs =
     Inr \<lparr> combinedHash = ''0x'' @ sha256 (combinedContent_of disk d fs),
           dataHash = sha256 (stringify d),
           files = map (\<lambda>file. \<lparr> fi_originalName = originalname file, fi_filename = filename file,
                                   fi_size = file_size file, fi_mimetype = mimetype file,
                                   fi_hash = ''0x'' @ file_digest disk file, fi_path = path file \<rparr>) fs,
           metadata = \<lparr> hasFiles = (fs \<noteq> []), fileCount = length fs,
                        totalSize = sum_list (map file_size fs),
                        dataSize = js_length (stringify d),
                        combinedSize = js_length (combinedContent_of disk d fs),
                        timestamp = now \<rparr> \<rparr>"
  using assms files_loop_readable [of disk fs "stringify d" "[]"]
  by (simp add: generateCombinedHash_def generateCombinedHash_try_def JSON_stringify_def
      combinedContent_of_def comp_def)

lemma combinedContent_of_swap:
  assumes "file_digest disk f1 = file_digest disk f2"
  shows "combinedContent_of disk d (pre @ f1 # mid @ f2 # post)
       = combinedContent_of disk d (pre @ f2 # mid @ f1 # post)"
  using assms by (simp add: combinedContent_of_def)

text \<open>
  C3, as stated, fails: what is hashed is the printed record, not its digest. For the empty
  record without files the combined digest is the prefixed digest of \<^verbatim>\<open>{}\<close>, and differs
  from the hash of the record digest.
\<close>

theorem generateCombinedHash_not_hash_of_digests:
  "(case generateCombinedHash (\<lambda>p. None) ''2024-01-01T00:00:00.000Z'' (JObj []) [] of
      Inl e \<Rightarrow> False
    | Inr r \<Rightarrow> combinedHash r = ''0x44136fa355b3678a1146ad16f7e8649e94fb4fc21fe77e8310c060f61caaff8a''
            \<and> dataHash r = ''44136fa355b3678a1146ad16f7e8649e94fb4fc21fe77e8310c060f61caaff8a''
            \<and> combinedHash r \<noteq> spec_combinedDigest (dataHash r) (map fi_hash (files r)))"
  by (simp add: generateCombinedHash_def generateCombinedHash_try_def JSON_stringify_def
      spec_combinedDigest_def sha256_empty_object sha256_of_digest)

text \<open>
  C3, amended. When every file can be read, \<^verbatim>\<open>generateCombinedHash\<close> returns: as the
  combined digest, the prefixed SHA-256 digest of the printed record followed by the
  hexadecimal digests of the files in the order of submission, each the SHA-256 digest of
  the bytes of the file; as \<^verbatim>\<open>dataHash\<close>, the SHA-256 digest of the printed record, without
  prefix, which is no input of the combined digest; the description of each file with its
  prefixed digest; and the counts and sizes. The printed record is that of
  \<^verbatim>\<open>JSON.stringify\<close> for a record whose numbers are safe integers. For two lists of files
  of the same length the hashed strings are equal only if the lists of digests are equal;
  so swapping two files whose digests differ changes the string that is hashed, and
  swapping two files with the same bytes changes nothing.
\<close>

theorem generateCombinedHash_order:
  "(readable disk fs \<and> d \<noteq> JUndefined \<and> safe_numbers d \<longrightarrow>
      generateCombinedHash disk now d fs =
        Inr \<lparr> combinedHash = ''0x'' @ sha256 (combinedContent_of disk d fs),
              dataHash = sha256 (stringify d),
              files = map (\<lambda>file. \<lparr> fi_originalName = originalname file, fi_filename = filename file,
                                      fi_size = file_size file, fi_mimetype = mimetype file,
                                      fi_hash = ''0x'' @ file_digest disk file, fi_path = path file \<rparr>) fs,
              metadata = \<lparr> hasFiles = (fs \<noteq> []), fileCount = length fs,
                           totalSize = sum_list (map file_size fs),
                           dataSize = js_length (stringify d),
                           combinedSize = js_length (combinedContent_of disk d fs),
                           timestamp = now \<rparr> \<rparr>)
   \<and> combinedContent_of disk d fs = stringify d @ concat (map (file_digest disk) fs)
   \<and> (disk (path f1) = Some bytes \<longrightarrow> file_digest disk f1 = sha256 bytes)
   \<and> (length fs = length fs' \<and> combinedContent_of disk d fs = combinedContent_of disk d fs' \<longrightarrow>
        map (file_digest disk) fs = map (file_digest disk) fs')
   \<and> (file_digest disk f1 \<noteq> file_digest disk f2 \<longrightarrow>
        combinedContent_of disk d (pre @ f1 # mid @ f2 # post)
          \<noteq> combinedContent_of disk d (pre @ f2 # mid @ f1 # post))
   \<and> (disk (path f1) = disk (path f2) \<longrightarrow>
        combinedContent_of disk d (pre @ f1 # mid @ f2 # post)
          = combinedContent_of disk d (pre @ f2 # mid @ f1 # post))"
proof (intro conjI impI)
  assume "readable disk fs \<and> d \<noteq> JUndefined \<and> safe_numbers d"
  then show "generateCombinedHash disk now d fs =
        Inr \<lparr> combinedHash = ''0x'' @ sha256 (combinedContent_of disk d fs),
              dataHash = sha256 (stringify d),
              files = map (\<lambda>file. \<lparr> fi_originalName = originalname file, fi_filename = filename file,
                                      fi_size = file_size file, fi_mimetype = mimetype file,
                                      fi_hash = ''0x'' @ file_digest disk file, fi_path = path file \<rparr>) fs,
              metadata = \<lparr> hasFiles = (fs \<noteq> []), fileCount = length fs,
                           totalSize = sum_list (map file_size fs),
                           dataSize = js_length (stringify d),
                           combinedSize = js_length (combinedContent_of disk d fs),
                           timestamp = now \<rparr> \<rparr>"
    using generateCombinedHash_readable by blast
next
  show "combinedContent_of disk d fs = stringify d @ concat (map (file_digest disk) fs)"
    by (simp add: combinedContent_of_def)
next
  assume "disk (path f1) = Some bytes"
  then show "file_digest disk f1 = sha256 bytes"
    by (simp add: file_digest_def)
next
  assume "length fs = length fs' \<and> combinedContent_of disk d fs = combinedContent_of disk d fs'"
  then show "map (file_digest disk) fs = map (file_digest disk) fs'"
    using concat_digests_inj by (simp add: combinedContent_of_def)
next
  assume ne: "file_digest disk f1 \<noteq> file_digest disk f2"
  show "combinedContent_of disk d (pre @ f1 # mid @ f2 # post)
          \<noteq> combinedContent_of disk d (pre @ f2 # mid @ f1 # post)"
  proof
    assume eq: "combinedContent_of disk d (pre @ f1 # mid @ f2 # post)
          = combinedContent_of disk d (pre @ f2 # mid @ f1 # post)"
    have "length (pre @ f1 # mid @ f2 # post) = length (pre @ f2 # mid @ f1 # post)"
      by simp
    from concat_digests_inj [OF this] eq
    have "map (file_digest disk) (pre @ f1 # mid @ f2 # post)
        = map (file_digest disk) (pre @ f2 # mid @ f1 # post)"
      by (simp only: combinedContent_of_def same_append_eq)
    with ne show False by simp
  qed
next
  assume "disk (path f1) = disk (path f2)"
  then have "file_digest disk f1 = file_digest disk f2"
    by (simp add: file_digest_def)
  then show "combinedContent_of disk d (pre @ f1 # mid @ f2 # post)
          = combinedContent_of disk d (pre @ f2 # mid @ f1 # post)"
    by (rule combinedContent_of_swap)
qed

theorem generateCombinedHash_order_witness:
  "readable example_disk [example_file ''a.txt'', example_file ''b.txt'']
   \<and> safe_numbers (JObj [])
   \<and> example_disk (path (example_file ''a.txt'')) = Some ''a''
   \<and> example_disk (path (example_file ''a.txt'')) = example_disk (path (example_file ''c.txt''))
   \<and> file_digest example_disk (example_file ''a.txt'') \<noteq> file_digest example_disk (example_file ''b.txt'')
   \<and> length [example_file ''a.txt'', example_file ''b.txt'']
       = length [example_file ''c.txt'', example_file ''b.txt'']
   \<and> combinedContent_of example_disk (JObj []) [example_file ''a.txt'', example_file ''b.txt'']
       = combinedContent_of example_disk (JObj []) [example_file ''c.txt'', example_file ''b.txt'']
   \<and> map_sum id combinedHash (generateCombinedHash example_disk ''2024-01-01T00:00:00.000Z'' (JObj [])
              [example_file ''a.txt'', example_file ''b.txt''])
       = Inr (''0x'' @ sha256
             (''{}'' @ ''ca978112ca1bbdcafac231b39a23dc4da786eff8147c4e72b9807785afee48bb''
                    @ ''3e23e8160039594a33894f6564e1b1348bbd7a0088d42c4acb73eeaed59c009d''))
   \<and> map_sum id dataHash (generateCombinedHash example_disk ''2024-01-01T00:00:00.000Z'' (JObj [])
              [example_file ''a.txt'', example_file ''b.txt''])
       = Inr ''44136fa355b3678a1146ad16f7e8649e94fb4fc21fe77e8310c060f61caaff8a''
   \<and> file_digest example_disk (example_file ''a.txt'')
       = ''ca978112ca1bbdcafac231b39a23dc4da786eff8147c4e72b9807785afee48bb''
   \<and> map (file_digest example_disk) [example_file ''a.txt'', example_file ''b.txt'']
       = map (file_digest example_disk) [example_file ''c.txt'', example_file ''b.txt'']
   \<and> combinedContent_of example_disk (JObj []) [example_file ''a.txt'', example_file ''b.txt'']
       \<noteq> combinedContent_of example_disk (JObj []) [example_file ''b.txt'', example_file ''a.txt'']
   \<and> combinedContent_of example_disk (JObj []) [example_file ''a.txt'', example_file ''c.txt'']
       = combinedContent_of example_disk (JObj []) [example_file ''c.txt'', example_file ''a.txt'']"
proof -
  let ?a = "example_file ''a.txt''" and ?b = "example_file ''b.txt''" and ?c = "example_file ''c.txt''"
  let ?t = "''2024-01-01T00:00:00.000Z''"
  have pa: "example_disk (path ?a) = Some ''a''" and pb: "example_disk (path ?b) = Some ''b''"
    and pc: "example_disk (path ?c) = Some ''a''"
    by (simp_all add: example_disk_def example_file_def)
  have r: "readable example_disk [?a, ?b]"
    by (simp add: readable_def pa pb)
  have s: "safe_numbers (JObj [])"
    by simp
  note inst = generateCombinedHash_order
    [where disk = example_disk and fs = "[?a, ?b]" and d = "JObj []" and now = ?t
       and fs' = "[?c, ?b]" and ?f1.0 = ?a and ?f2.0 = ?b and pre = "[]" and mid = "[]"
       and post = "[]" and bytes = "''a''"]
  note swap = generateCombinedHash_order
    [where disk = example_disk and d = "JObj []" and ?f1.0 = ?a and ?f2.0 = ?c and pre = "[]"
       and mid = "[]" and post = "[]", THEN conjunct2, THEN conjunct2, THEN conjunct2,
     THEN conjunct2, THEN conjunct2, rule_format]
  note i1 = inst [THEN conjunct1, rule_format]
  note i3 = inst [THEN conjunct2, THEN conjunct2, THEN conjunct1, rule_format]
  note i4 = inst [THEN conjunct2, THEN conjunct2, THEN conjunct2, THEN conjunct1, rule_format]
  note i5 = inst [THEN conjunct2, THEN conjunct2, THEN conjunct2, THEN conjunct2, THEN conjunct1,
                  rule_format]
  from i3 [OF pa] have da: "file_digest example_disk ?a
      = ''ca978112ca1bbdcafac231b39a23dc4da786eff8147c4e72b9807785afee48bb''"
    by (simp add: sha256_a)
  have db: "file_digest example_disk ?b
      = ''3e23e8160039594a33894f6564e1b1348bbd7a0088d42c4acb73eeaed59c009d''"
    by (simp add: file_digest_def pb sha256_b)
  have dc: "file_digest example_disk ?c
      = ''ca978112ca1bbdcafac231b39a23dc4da786eff8147c4e72b9807785afee48bb''"
    by (simp add: file_digest_def pc sha256_a)
  have ne: "file_digest example_disk ?a \<noteq> file_digest example_disk ?b"
    by (simp add: da db)
  have eq: "combinedContent_of example_disk (JObj []) [?a, ?b]
       = combinedContent_of example_disk (JObj []) [?c, ?b]"
    by (simp add: combinedContent_of_def da dc)
  have cc: "combinedContent_of example_disk (JObj []) [?a, ?b]
      = ''{}'' @ ''ca978112ca1bbdcafac231b39a23dc4da786eff8147c4e72b9807785afee48bb''
             @ ''3e23e8160039594a33894f6564e1b1348bbd7a0088d42c4acb73eeaed59c009d''"
    by (simp add: combinedContent_of_def da db)
  from r s have "readable example_disk [?a, ?b] \<and> JObj [] \<noteq> JUndefined \<and> safe_numbers (JObj [])"
    by simp
  from i1 [OF this] have res: "generateCombinedHash example_disk ?t (JObj []) [?a, ?b] =
        Inr \<lparr> combinedHash = ''0x'' @ sha256 (combinedContent_of example_disk (JObj []) [?a, ?b]),
              dataHash = sha256 (stringify (JObj [])),
              files = map (\<lambda>file. \<lparr> fi_originalName = originalname file, fi_filename = filename file,
                                      fi_size = file_size file, fi_mimetype = mimetype file,
                                      fi_hash = ''0x'' @ file_digest example_disk file, fi_path = path file \<rparr>) [?a, ?b],
              metadata = \<lparr> hasFiles = ([?a, ?b] \<noteq> []), fileCount = length [?a, ?b],
                           totalSize = sum_list (map file_size [?a, ?b]),
                           dataSize = js_length (stringify (JObj [])),
                           combinedSize = js_length (combinedContent_of example_disk (JObj []) [?a, ?b]),
                           timestamp = ?t \<rparr> \<rparr>"
    by simp
  have h1: "map_sum id combinedHash (generateCombinedHash example_disk ?t (JObj []) [?a, ?b])
       = Inr (''0x'' @ sha256
             (''{}'' @ ''ca978112ca1bbdcafac231b39a23dc4da786eff8147c4e72b9807785afee48bb''
                    @ ''3e23e8160039594a33894f6564e1b1348bbd7a0088d42c4acb73eeaed59c009d''))"
    unfolding res cc by simp
  have h2: "map_sum id dataHash (generateCombinedHash example_disk ?t (JObj []) [?a, ?b])
       = Inr ''44136fa355b3678a1146ad16f7e8649e94fb4fc21fe77e8310c060f61caaff8a''"
    unfolding res by (simp add: sha256_empty_object)
  have l: "length [?a, ?b] = length [?c, ?b]"
    by simp
  from l eq have "length [?a, ?b] = length [?c, ?b]
      \<and> combinedContent_of example_disk (JObj []) [?a, ?b]
          = combinedContent_of example_disk (JObj []) [?c, ?b]"
    by (rule conjI)
  from i4 [OF this]
  have m: "map (file_digest example_disk) [?a, ?b] = map (file_digest example_disk) [?c, ?b]" .
  from i5 [OF ne] have sw: "combinedContent_of example_disk (JObj []) [?a, ?b]
       \<noteq> combinedContent_of example_disk (JObj []) [?b, ?a]"
    by simp
  from pa pc have pp: "example_disk (path ?a) = example_disk (path ?c)"
    by simp
  from swap [OF pp] have same: "combinedContent_of example_disk (JObj []) [?a, ?c]
       = combinedContent_of example_disk (JObj []) [?c, ?a]"
    by simp
  from r s pa pp ne l eq h1 h2 da m sw same show ?thesis
    by (intro conjI)
qed

section \<open>Properties of the blockchain service\<close>

lemma isHexString32_nonempty: "isHexString32 h \<Longrightarrow> h \<noteq> []"
  by (auto simp: isHexString32_def startsWith_def)

lemma retrieve_invalid:
  "\<not> isHexString32 h \<Longrightarrow>
   retrieveHashFromBlockchain decode cfg (JStr h) l
     = Inl (BlockchainError ''Invalid transaction hash format'' ''INVALID_TX_HASH'' 400)"
  by (simp add: retrieveHashFromBlockchain_def retrieveHashFromBlockchain_try_def wrap_error_def)

lemma retrieve_nullish:
  "v = JNull \<or> v = JUndefined \<Longrightarrow>
   retrieveHashFromBlockchain decode cfg v l
     = Inl (BlockchainError ''Invalid transaction hash format'' ''INVALID_TX_HASH'' 400)"
  by (auto simp: retrieveHashFromBlockchain_def retrieveHashFromBlockchain_try_def wrap_error_def)

lemma retrieve_not_string:
  "v \<noteq> JNull \<Longrightarrow> v \<noteq> JUndefined \<Longrightarrow> \<forall>s. v \<noteq> JStr s \<Longrightarrow>
   retrieveHashFromBlockchain decode cfg v l
     = Inl (TypeError ''transactionHash?.substring is not a function'')"
  by (cases v) (simp_all add: retrieveHashFromBlockchain_def retrieveHashFromBlockchain_try_def)

lemma retrieve_unreachable:
  "isHexString32 h \<Longrightarrow> rpc_fault l = Some e \<Longrightarrow>
   retrieveHashFromBlockchain decode cfg (JStr h) l
     = Inl (wrap_error ''Hash retrieval failed: '' ''HASH_RETRIEVAL_ERROR'' e)"
  using isHexString32_nonempty [of h]
  by (simp add: retrieveHashFromBlockchain_def retrieveHashFromBlockchain_try_def getTransaction_def)

lemma retrieve_not_found:
  "isHexString32 h \<Longrightarrow> rpc_fault l = None \<Longrightarrow> transactions l (lower_hex h) = None \<Longrightarrow>
   retrieveHashFromBlockchain decode cfg (JStr h) l
     = Inl (BlockchainError ''Transaction not found'' ''TX_NOT_FOUND'' 404)"
  using isHexString32_nonempty [of h]
  by (simp add: retrieveHashFromBlockchain_def retrieveHashFromBlockchain_try_def getTransaction_def
      wrap_error_def)

lemma retrieve_not_confirmed:
  "isHexString32 h \<Longrightarrow> rpc_fault l = None \<Longrightarrow> transactions l (lower_hex h) = Some tx \<Longrightarrow>
   receipts l (lower_hex h) = None \<Longrightarrow>
   retrieveHashFromBlockchain decode cfg (JStr h) l
     = Inl (BlockchainError ''Transaction not confirmed'' ''TX_NOT_CONFIRMED'' 404)"
  using isHexString32_nonempty [of h]
  by (simp add: retrieveHashFromBlockchain_def retrieveHashFromBlockchain_try_def getTransaction_def
      getTransactionReceipt_def wrap_error_def)

lemma retrieve_found:
  "isHexString32 h \<Longrightarrow> rpc_fault l = None \<Longrightarrow> transactions l (lower_hex h) = Some tx \<Longrightarrow>
   receipts l (lower_hex h) = Some receipt \<Longrightarrow>
   retrieveHashFromBlockchain decode cfg (JStr h) l =
     (case optional_substring ''storedHash'' (snd (decoded decode (tx_data tx))) of
        Inl e \<Rightarrow> Inl (wrap_error ''Hash retrieval failed: '' ''HASH_RETRIEVAL_ERROR'' e)
      | Inr u \<Rightarrow>
          Inr \<lparr> rr_transactionHash = rc_hash receipt,
                rr_blockNumber = rc_blockNumber receipt,
                rr_blockHash = rc_blockHash receipt,
                rr_gasUsed = show_int (rc_gasUsed receipt),
                rr_status = (if rc_status receipt = 1 then ''success'' else ''failed''),
                rr_from = tx_from tx,
                rr_to = tx_to tx,
                rr_timestamp = timestamp_of (fst (decoded decode (tx_data tx))),
                rr_storedHash = snd (decoded decode (tx_data tx)),
                rr_metadata = fst (decoded decode (tx_data tx)),
                rr_network = network cfg,
                rr_chainId = show_int (chainId l),
                rr_confirmed = (rc_status receipt = 1) \<rparr>)"
  using isHexString32_nonempty [of h]
  by (simp add: retrieveHashFromBlockchain_def retrieveHashFromBlockchain_try_def getTransaction_def
      getTransactionReceipt_def getNetwork_def split: sum.splits)

lemma decoded_null:
  "data = [] \<or> data = ''0x'' \<or> decode data = Inl d \<Longrightarrow> decoded decode data = (JNull, JNull)"
  by (auto simp: decoded_def)













text \<open>
  C5, as stated, fails: for a transaction hash that is not \<^verbatim>\<open>0x\<close> and 64 hexadecimal
  digits the function fails with the error \<^verbatim>\<open>INVALID_TX_HASH\<close> of status 400, not with
  the error for a transaction that is not found, although the ledger has no transaction
  under that hash.
\<close>

theorem retrieveHashFromBlockchain_malformed_id:
  "transactions empty_ledger (lower_hex ''0x1234'') = None
   \<and> retrieveHashFromBlockchain (decode_of JNull) example_config (JStr ''0x1234'') empty_ledger
       = Inl (BlockchainError ''Invalid transaction hash format'' ''INVALID_TX_HASH'' 400)"
  by (simp add: empty_ledger_def retrieve_invalid isHexString32_def is_hex64_def)

text \<open>
  C5, amended. Whatever the libraries decode: \<^verbatim>\<open>retrieveHashFromBlockchain\<close> fails with
  \<^verbatim>\<open>INVALID_TX_HASH\<close> (400) for a string that is not \<^verbatim>\<open>0x\<close> and 64 hexadecimal digits. For
  a hash of that form it fails with \<^verbatim>\<open>HASH_RETRIEVAL_ERROR\<close> around the exception of the
  client when the ledger cannot be reached; with \<^verbatim>\<open>TX_NOT_FOUND\<close> (404) when the ledger has
  no such transaction; with \<^verbatim>\<open>TX_NOT_CONFIRMED\<close> (404) when it has the transaction and no
  receipt; and when it has both and the data of the transaction is empty, is \<^verbatim>\<open>0x\<close>, or
  makes the decoding throw, it returns the fields of the receipt and of the transaction
  with \<^verbatim>\<open>null\<close> as stored hash, as metadata and as timestamp.
\<close>

theorem retrieveHashFromBlockchain_failures:
  "(\<not> isHexString32 h \<longrightarrow>
      retrieveHashFromBlockchain decode cfg (JStr h) l
        = Inl (BlockchainError ''Invalid transaction hash format'' ''INVALID_TX_HASH'' 400))
   \<and> (isHexString32 h \<and> rpc_fault l = Some e \<longrightarrow>
        retrieveHashFromBlockchain decode cfg (JStr h) l
          = Inl (wrap_error ''Hash retrieval failed: '' ''HASH_RETRIEVAL_ERROR'' e))
   \<and> (isHexString32 h \<and> rpc_fault l = None \<and> transactions l (lower_hex h) = None \<longrightarrow>
        retrieveHashFromBlockchain decode cfg (JStr h) l
          = Inl (BlockchainError ''Transaction not found'' ''TX_NOT_FOUND'' 404))
   \<and> (isHexString32 h \<and> rpc_fault l = None \<and> transactions l (lower_hex h) = Some tx
        \<and> receipts l (lower_hex h) = None \<longrightarrow>
        retrieveHashFromBlockchain decode cfg (JStr h) l
          = Inl (BlockchainError ''Transaction not confirmed'' ''TX_NOT_CONFIRMED'' 404))
   \<and> (isHexString32 h \<and> rpc_fault l = None \<and> transactions l (lower_hex h) = Some tx
        \<and> receipts l (lower_hex h) = Some receipt
        \<and> (tx_data tx = [] \<or> tx_data tx = ''0x'' \<or> decode (tx_data tx) = Inl d) \<longrightarrow>
        retrieveHashFromBlockchain decode cfg (JStr h) l
          = Inr \<lparr> rr_transactionHash = rc_hash receipt,
                  rr_blockNumber = rc_blockNumber receipt,
                  rr_blockHash = rc_blockHash receipt,
                  rr_gasUsed = show_int (rc_gasUsed receipt),
                  rr_status = (if rc_status receipt = 1 then ''success'' else ''failed''),
                  rr_from = tx_from tx,
                  rr_to = tx_to tx,
                  rr_timestamp = JNull,
                  rr_storedHash = JNull,
                  rr_metadata = JNull,
                  rr_network = network cfg,
                  rr_chainId = show_int (chainId l),
                  rr_confirmed = (rc_status receipt = 1) \<rparr>)"
proof (intro conjI impI)
  assume "\<not> isHexString32 h"
  then show "retrieveHashFromBlockchain decode cfg (JStr h) l
        = Inl (BlockchainError ''Invalid transaction hash format'' ''INVALID_TX_HASH'' 400)"
    by (rule retrieve_invalid)
next
  assume "isHexString32 h \<and> rpc_fault l = Some e"
  then show "retrieveHashFromBlockchain decode cfg (JStr h) l
          = Inl (wrap_error ''Hash retrieval failed: '' ''HASH_RETRIEVAL_ERROR'' e)"
    by (simp add: retrieve_unreachable)
next
  assume "isHexString32 h \<and> rpc_fault l = None \<and> transactions l (lower_hex h) = None"
  then show "retrieveHashFromBlockchain decode cfg (JStr h) l
          = Inl (BlockchainError ''Transaction not found'' ''TX_NOT_FOUND'' 404)"
    by (simp add: retrieve_not_found)
next
  assume "isHexString32 h \<and> rpc_fault l = None \<and> transactions l (lower_hex h) = Some tx
        \<and> receipts l (lower_hex h) = None"
  then show "retrieveHashFromBlockchain decode cfg (JStr h) l
          = Inl (BlockchainError ''Transaction not confirmed'' ''TX_NOT_CONFIRMED'' 404)"
    by (simp add: retrieve_not_confirmed)
next
  assume a: "isHexString32 h \<and> rpc_fault l = None \<and> transactions l (lower_hex h) = Some tx
        \<and> receipts l (lower_hex h) = Some receipt
        \<and> (tx_data tx = [] \<or> tx_data tx = ''0x'' \<or> decode (tx_data tx) = Inl d)"
  then have n: "decoded decode (tx_data tx) = (JNull, JNull)"
    using decoded_null [of "tx_data tx" decode d] by blast
  from a have "isHexString32 h" "rpc_fault l = None" "transactions l (lower_hex h) = Some tx"
    "receipts l (lower_hex h) = Some receipt"
    by simp_all
  from retrieve_found [OF this, of decode cfg]
  show "retrieveHashFromBlockchain decode cfg (JStr h) l
          = Inr \<lparr> rr_transactionHash = rc_hash receipt,
                  rr_blockNumber = rc_blockNumber receipt,
                  rr_blockHash = rc_blockHash receipt,
                  rr_gasUsed = show_int (rc_gasUsed receipt),
                  rr_status = (if rc_status receipt = 1 then ''success'' else ''failed''),
                  rr_from = tx_from tx,
                  rr_to = tx_to tx,
                  rr_timestamp = JNull,
                  rr_storedHash = JNull,
                  rr_metadata = JNull,
                  rr_network = network cfg,
                  rr_chainId = show_int (chainId l),
                  rr_confirmed = (rc_status receipt = 1) \<rparr>"
    by (simp add: n timestamp_of_def js_or_def)
qed

theorem retrieveHashFromBlockchain_failures_witness:
  "\<not> isHexString32 ''0x1234''
   \<and> retrieveHashFromBlockchain (decode_of JNull) example_config (JStr ''0x1234'') confirmed_ledger
       = Inl (BlockchainError ''Invalid transaction hash format'' ''INVALID_TX_HASH'' 400)
   \<and> isHexString32 example_tx_hash
   \<and> retrieveHashFromBlockchain (decode_of JNull) example_config (JStr example_tx_hash)
         (confirmed_ledger\<lparr> rpc_fault := Some (Error ''connect ECONNREFUSED'') \<rparr>)
       = Inl (BlockchainError ''Hash retrieval failed: connect ECONNREFUSED'' ''HASH_RETRIEVAL_ERROR'' 500)
   \<and> transactions empty_ledger (lower_hex example_tx_hash) = None
   \<and> retrieveHashFromBlockchain (decode_of JNull) example_config (JStr example_tx_hash) empty_ledger
       = Inl (BlockchainError ''Transaction not found'' ''TX_NOT_FOUND'' 404)
   \<and> transactions pending_ledger (lower_hex example_tx_hash) = Some example_tx
   \<and> receipts pending_ledger (lower_hex example_tx_hash) = None
   \<and> retrieveHashFromBlockchain (decode_of JNull) example_config (JStr example_tx_hash) pending_ledger
       = Inl (BlockchainError ''Transaction not confirmed'' ''TX_NOT_CONFIRMED'' 404)
   \<and> receipts confirmed_ledger (lower_hex example_tx_hash) = Some example_receipt
   \<and> tx_data example_tx = ''0x''
   \<and> map_sum id rr_storedHash
         (retrieveHashFromBlockchain (decode_of JNull) example_config (JStr example_tx_hash) confirmed_ledger)
       = Inr JNull
   \<and> map_sum id rr_metadata
         (retrieveHashFromBlockchain (decode_of JNull) example_config (JStr example_tx_hash) confirmed_ledger)
       = Inr JNull
   \<and> map_sum id rr_blockNumber
         (retrieveHashFromBlockchain (decode_of JNull) example_config (JStr example_tx_hash) confirmed_ledger)
       = Inr 100"
proof -
  let ?dec = "decode_of JNull"
  let ?down = "confirmed_ledger\<lparr> rpc_fault := Some (Error ''connect ECONNREFUSED'') \<rparr>"
  have bad: "\<not> isHexString32 ''0x1234''"
    by (simp add: isHexString32_def is_hex64_def)
  have ok: "isHexString32 example_tx_hash"
    by (simp add: isHexString32_def is_hex64_def startsWith_def example_tx_hash_def is_hex_char_def)
  have low: "lower_hex example_tx_hash = example_tx_hash"
    by (simp add: lower_hex_def example_tx_hash_def)
  have up: "rpc_fault empty_ledger = None" "rpc_fault pending_ledger = None"
    "rpc_fault confirmed_ledger = None" "rpc_fault ?down = Some (Error ''connect ECONNREFUSED'')"
    by (simp_all add: confirmed_ledger_def pending_ledger_def empty_ledger_def)
  have t0: "transactions empty_ledger (lower_hex example_tx_hash) = None"
    by (simp add: empty_ledger_def)
  have t1: "transactions pending_ledger (lower_hex example_tx_hash) = Some example_tx"
    and r1: "receipts pending_ledger (lower_hex example_tx_hash) = None"
    by (simp_all add: low pending_ledger_def empty_ledger_def)
  have t2: "transactions confirmed_ledger (lower_hex example_tx_hash) = Some example_tx"
    and r2: "receipts confirmed_ledger (lower_hex example_tx_hash) = Some example_receipt"
    by (simp_all add: low confirmed_ledger_def pending_ledger_def empty_ledger_def)
  have d: "tx_data example_tx = ''0x''"
    by (simp add: example_tx_def)
  note c1 = retrieveHashFromBlockchain_failures
    [where h = "''0x1234''" and decode = ?dec and cfg = example_config and l = confirmed_ledger,
     THEN conjunct1, rule_format, OF bad]
  from ok up(4) have "isHexString32 example_tx_hash \<and> rpc_fault ?down = Some (Error ''connect ECONNREFUSED'')"
    by (rule conjI)
  note c2 = retrieveHashFromBlockchain_failures
    [where h = example_tx_hash and decode = ?dec and cfg = example_config and l = ?down
       and e = "Error ''connect ECONNREFUSED''",
     THEN conjunct2, THEN conjunct1, rule_format, OF this]
  from ok up(1) t0 have "isHexString32 example_tx_hash \<and> rpc_fault empty_ledger = None
      \<and> transactions empty_ledger (lower_hex example_tx_hash) = None"
    by (intro conjI)
  note c3 = retrieveHashFromBlockchain_failures
    [where h = example_tx_hash and decode = ?dec and cfg = example_config and l = empty_ledger,
     THEN conjunct2, THEN conjunct2, THEN conjunct1, rule_format, OF this]
  from ok up(2) t1 r1 have "isHexString32 example_tx_hash \<and> rpc_fault pending_ledger = None
      \<and> transactions pending_ledger (lower_hex example_tx_hash) = Some example_tx
      \<and> receipts pending_ledger (lower_hex example_tx_hash) = None"
    by (intro conjI)
  note c4 = retrieveHashFromBlockchain_failures
    [where h = example_tx_hash and decode = ?dec and cfg = example_config and l = pending_ledger
       and tx = example_tx,
     THEN conjunct2, THEN conjunct2, THEN conjunct2, THEN conjunct1, rule_format, OF this]
  from ok up(3) t2 r2 d have "isHexString32 example_tx_hash \<and> rpc_fault confirmed_ledger = None
      \<and> transactions confirmed_ledger (lower_hex example_tx_hash) = Some example_tx
      \<and> receipts confirmed_ledger (lower_hex example_tx_hash) = Some example_receipt
      \<and> (tx_data example_tx = [] \<or> tx_data example_tx = ''0x''
          \<or> ?dec (tx_data example_tx) = Inl (Error []))"
    by simp
  note c5 = retrieveHashFromBlockchain_failures
    [where h = example_tx_hash and decode = ?dec and cfg = example_config and l = confirmed_ledger
       and tx = example_tx and receipt = example_receipt and d = "Error []",
     THEN conjunct2, THEN conjunct2, THEN conjunct2, THEN conjunct2, rule_format, OF this]
  have c2': "retrieveHashFromBlockchain ?dec example_config (JStr example_tx_hash) ?down
       = Inl (BlockchainError ''Hash retrieval failed: connect ECONNREFUSED'' ''HASH_RETRIEVAL_ERROR'' 500)"
    unfolding c2 by (simp add: wrap_error_def)
  have c5a: "map_sum id rr_storedHash
         (retrieveHashFromBlockchain ?dec example_config (JStr example_tx_hash) confirmed_ledger) = Inr JNull"
    and c5b: "map_sum id rr_metadata
         (retrieveHashFromBlockchain ?dec example_config (JStr example_tx_hash) confirmed_ledger) = Inr JNull"
    and c5c: "map_sum id rr_blockNumber
         (retrieveHashFromBlockchain ?dec example_config (JStr example_tx_hash) confirmed_ledger) = Inr 100"
    unfolding c5 by (simp_all add: example_receipt_def)
  from bad c1 ok c2' t0 c3 t1 r1 c4 r2 d c5a c5b c5c show ?thesis
    by (intro conjI)
qed




section \<open>Properties of the database service\<close>

subsection \<open>\<^verbatim>\<open>ensureFarmerExists\<close>\<close>

lemma take_fault_tables:
  "take_fault db = (f, db') \<Longrightarrow>
     farmers db' = farmers db \<and> agricultural_data db' = agricultural_data db
   \<and> blockchain_transactions db' = blockchain_transactions db
   \<and> uploaded_files db' = uploaded_files db \<and> verification_logs db' = verification_logs db
   \<and> system_logs db' = system_logs db \<and> next_data_id db' = next_data_id db
   \<and> next_file_id db' = next_file_id db \<and> next_log_id db' = next_log_id db"
  by (auto simp: take_fault_def split: list.splits)

lemma ensureFarmerExists_existing:
  assumes "farmer_rows farmerId db \<noteq> []"
  shows "farmers (snd (ensureFarmerExists farmerId info db)) = farmers db"
proof (cases "take_fault db")
  case (Pair f db')
  with take_fault_tables [OF Pair] assms show ?thesis
    by (cases f) (simp_all add: ensureFarmerExists_def executeQuery_def select_farmer_def farmer_rows_def)
qed

lemma ensureFarmerExists_existing_ok:
  assumes "farmer_rows farmerId db \<noteq> []" and "fst (take_fault db) = None"
  shows "fst (ensureFarmerExists farmerId info db) = Inr ()"
proof (cases "take_fault db")
  case (Pair f db')
  with take_fault_tables [OF Pair] assms show ?thesis
    by (simp add: ensureFarmerExists_def executeQuery_def select_farmer_def farmer_rows_def)
qed

lemma ensureFarmerExists_rows:
  "farmer_rows farmerId (snd (ensureFarmerExists farmerId info db)) = farmer_rows farmerId db
   \<or> (farmer_rows farmerId db = []
      \<and> farmer_rows farmerId (snd (ensureFarmerExists farmerId info db)) = [new_farmer_row farmerId info])"
proof (cases "take_fault db")
  case (Pair f db')
  note t = take_fault_tables [OF Pair]
  show ?thesis
  proof (cases f)
    case (Some msg)
    with Pair t show ?thesis
      by (simp add: ensureFarmerExists_def executeQuery_def farmer_rows_def)
  next
    case None
    obtain g db'' where g: "take_fault db' = (g, db'')" by (cases "take_fault db'")
    note t' = take_fault_tables [OF g]
    from None Pair t g t' show ?thesis
      by (cases g)
         (auto simp: ensureFarmerExists_def executeQuery_def select_farmer_def farmer_rows_def
            insert_farmer_def new_farmer_row_def filter_empty_conv)
  qed
qed

lemma ensureFarmerExists_success_exists:
  "fst (ensureFarmerExists farmerId info db) = Inr () \<Longrightarrow>
   farmer_rows farmerId (snd (ensureFarmerExists farmerId info db)) \<noteq> []"
proof (cases "take_fault db")
  case (Pair f db')
  assume ok: "fst (ensureFarmerExists farmerId info db) = Inr ()"
  note t = take_fault_tables [OF Pair]
  show ?thesis
  proof (cases f)
    case (Some msg)
    with Pair ok show ?thesis
      by (simp add: ensureFarmerExists_def executeQuery_def)
  next
    case None
    obtain g db'' where g: "take_fault db' = (g, db'')" by (cases "take_fault db'")
    note t' = take_fault_tables [OF g]
    from None Pair t g t' ok show ?thesis
      by (cases g)
         (auto simp: ensureFarmerExists_def executeQuery_def select_farmer_def farmer_rows_def
            insert_farmer_def new_farmer_row_def filter_empty_conv split: if_splits)
  qed
qed

lemma ensureFarmerExists_existing_result:
  assumes "farmer_rows farmerId db \<noteq> []"
  shows "fst (ensureFarmerExists farmerId info db)
       = (case fst (take_fault db) of None \<Rightarrow> Inr () | Some msg \<Rightarrow> Inl (RequestError msg))"
proof (cases "take_fault db")
  case (Pair f db')
  with take_fault_tables [OF Pair] assms show ?thesis
    by (cases f) (simp_all add: ensureFarmerExists_def executeQuery_def select_farmer_def farmer_rows_def)
qed

text \<open>
  C8, as stated, fails in its last part: a call for a farmer who has a row fails when the
  engine refuses the query that looks the farmer up.
\<close>

theorem ensureFarmerExists_existing_fails:
  "farmer_rows (JStr ''P1'') stored_database = [new_farmer_row (JStr ''P1'') []]
   \<and> fst (ensureFarmerExists (JStr ''P1'') []
            (stored_database\<lparr> faults := [Some ''Connection is closed.''] \<rparr>))
       = Inl (RequestError ''Connection is closed.'')
   \<and> farmers (snd (ensureFarmerExists (JStr ''P1'') []
            (stored_database\<lparr> faults := [Some ''Connection is closed.''] \<rparr>)))
       = farmers stored_database"
  by (simp add: ensureFarmerExists_def executeQuery_def take_fault_def farmer_rows_def
      stored_database_def empty_database_def new_farmer_row_def)

text \<open>
  C8, amended. Producer provisioning is idempotent. Whatever the engine does with the
  statements: a farmer who has at most one row before two calls of \<^verbatim>\<open>ensureFarmerExists\<close>
  with the same id has at most one row after them; a call for a farmer who has a row
  leaves the table of farmers as it is, so nothing is overwritten; after a call that
  returned normally the farmer has a row, so the second call writes nothing. A call for a
  farmer who has a row returns normally when the engine answers the query that looks the
  farmer up, and fails, with the error of the engine, when the engine refuses that query.
\<close>

theorem ensureFarmerExists_idempotent:
  "(length (farmer_rows farmerId db) \<le> 1 \<longrightarrow>
      length (farmer_rows farmerId (ensured_twice farmerId info1 info2 db)) \<le> 1)
   \<and> (farmer_rows farmerId db \<noteq> [] \<longrightarrow>
        farmers (snd (ensureFarmerExists farmerId info1 db)) = farmers db)
   \<and> (fst (ensureFarmerExists farmerId info1 db) = Inr () \<longrightarrow>
        farmers (ensured_twice farmerId info1 info2 db)
          = farmers (snd (ensureFarmerExists farmerId info1 db)))
   \<and> (farmer_rows farmerId db \<noteq> [] \<longrightarrow>
        fst (ensureFarmerExists farmerId info1 db)
          = (case fst (take_fault db) of None \<Rightarrow> Inr () | Some msg \<Rightarrow> Inl (RequestError msg)))"
proof (intro conjI impI)
  let ?db1 = "snd (ensureFarmerExists farmerId info1 db)"
  assume le: "length (farmer_rows farmerId db) \<le> 1"
  have one: "length (farmer_rows farmerId ?db1) \<le> 1"
    using ensureFarmerExists_rows [of farmerId info1 db] le by auto
  show "length (farmer_rows farmerId (ensured_twice farmerId info1 info2 db)) \<le> 1"
    using ensureFarmerExists_rows [of farmerId info2 ?db1] one
    by (auto simp: ensured_twice_def)
next
  assume "farmer_rows farmerId db \<noteq> []"
  then show "farmers (snd (ensureFarmerExists farmerId info1 db)) = farmers db"
    by (rule ensureFarmerExists_existing)
next
  assume "fst (ensureFarmerExists farmerId info1 db) = Inr ()"
  then have "farmer_rows farmerId (snd (ensureFarmerExists farmerId info1 db)) \<noteq> []"
    by (rule ensureFarmerExists_success_exists)
  then show "farmers (ensured_twice farmerId info1 info2 db)
          = farmers (snd (ensureFarmerExists farmerId info1 db))"
    unfolding ensured_twice_def by (rule ensureFarmerExists_existing)
next
  assume "farmer_rows farmerId db \<noteq> []"
  then show "fst (ensureFarmerExists farmerId info1 db)
          = (case fst (take_fault db) of None \<Rightarrow> Inr () | Some msg \<Rightarrow> Inl (RequestError msg))"
    by (rule ensureFarmerExists_existing_result)
qed

theorem ensureFarmerExists_idempotent_witness:
  "length (farmer_rows (JStr ''P1'') empty_database) \<le> 1
   \<and> fst (ensureFarmerExists (JStr ''P1'') [(''fullName'', JStr ''An'')] empty_database) = Inr ()
   \<and> farmer_rows (JStr ''P1'') (snd (ensureFarmerExists (JStr ''P1'') [(''fullName'', JStr ''An'')] empty_database)) \<noteq> []
   \<and> fst (take_fault (snd (ensureFarmerExists (JStr ''P1'') [(''fullName'', JStr ''An'')] empty_database))) = None
   \<and> length (farmer_rows (JStr ''P1'') (ensured_twice (JStr ''P1'') [(''fullName'', JStr ''An'')] [] empty_database)) \<le> 1
   \<and> farmers (ensured_twice (JStr ''P1'') [(''fullName'', JStr ''An'')] [] empty_database)
       = farmers (snd (ensureFarmerExists (JStr ''P1'') [(''fullName'', JStr ''An'')] empty_database))
   \<and> map f_full_name (farmers (ensured_twice (JStr ''P1'') [(''fullName'', JStr ''An'')] [] empty_database))
       = [JStr ''An'']
   \<and> fst (ensureFarmerExists (JStr ''P1'') []
        (snd (ensureFarmerExists (JStr ''P1'') [(''fullName'', JStr ''An'')] empty_database))) = Inr ()"
proof -
  let ?info = "[(''fullName'', JStr ''An'')]"
  let ?db1 = "snd (ensureFarmerExists (JStr ''P1'') ?info empty_database)"
  have e: "ensureFarmerExists (JStr ''P1'') ?info empty_database
      = (Inr (), empty_database\<lparr> farmers := [new_farmer_row (JStr ''P1'') ?info] \<rparr>)"
    by (simp add: ensureFarmerExists_def executeQuery_def take_fault_def empty_database_def
        select_farmer_def insert_farmer_def)
  have a: "length (farmer_rows (JStr ''P1'') empty_database) \<le> 1"
    by (simp add: farmer_rows_def empty_database_def)
  have b: "fst (ensureFarmerExists (JStr ''P1'') ?info empty_database) = Inr ()"
    by (simp add: e)
  have c: "farmer_rows (JStr ''P1'') ?db1 \<noteq> []"
    by (simp add: e farmer_rows_def new_farmer_row_def)
  have d: "fst (take_fault ?db1) = None"
    unfolding e by (simp add: take_fault_def empty_database_def)
  have n: "map f_full_name (farmers ?db1) = [JStr ''An'']"
    by (simp add: e new_farmer_row_def obj_get_def js_or_def)
  note i1 = ensureFarmerExists_idempotent [of "JStr ''P1''" empty_database ?info "[]"]
  note i2 = ensureFarmerExists_idempotent [of "JStr ''P1''" ?db1 "[]" "[]"]
  from i1 a have f: "length (farmer_rows (JStr ''P1'') (ensured_twice (JStr ''P1'') ?info [] empty_database)) \<le> 1"
    by blast
  from i1 b have g: "farmers (ensured_twice (JStr ''P1'') ?info [] empty_database) = farmers ?db1"
    by blast
  from i2 c d have h: "fst (ensureFarmerExists (JStr ''P1'') [] ?db1) = Inr ()"
    by simp
  from a b c d f g h n show ?thesis by simp
qed

subsection \<open>The verification log\<close>

lemma same_tables_refl [simp]: "same_tables db db"
  by (simp add: same_tables_def)

lemma same_tables_trans: "same_tables a b \<Longrightarrow> same_tables b c \<Longrightarrow> same_tables a c"
  by (metis (no_types, lifting) database.surjective database.update_convs(10) same_tables_def)

lemma same_tables_logs: "same_tables db db' \<Longrightarrow> verification_logs db' = verification_logs db"
  by (metis database.select_convs(5) database.surjective database.update_convs(10) same_tables_def)

lemma take_fault_same: "take_fault db = (f, db') \<Longrightarrow> same_tables db db'"
  by (auto simp: take_fault_def same_tables_def split: list.splits)

lemma executeQuery_select_same:
  assumes "\<And>d. snd (statement d) = d" and "executeQuery statement db = (r, db')"
  shows "same_tables db db'"
proof (cases "take_fault db")
  case (Pair f d)
  from assms(2) Pair have "db' = d"
    using assms(1) [of d] by (cases f) (auto simp: executeQuery_def dest: sndI)
  with take_fault_same [OF Pair] show ?thesis by simp
qed

lemma getFilesByDataId_same: "getFilesByDataId n db = (r, db') \<Longrightarrow> same_tables db db'"
proof -
  assume a: "getFilesByDataId n db = (r, db')"
  obtain q d where q: "executeQuery (select_files n) db = (q, d)"
    by (cases "executeQuery (select_files n) db")
  have "same_tables db d"
    by (rule executeQuery_select_same [OF _ q]) (simp add: select_files_def)
  moreover from a q have "db' = d"
    by (cases q) (simp_all add: getFilesByDataId_def)
  ultimately show ?thesis by simp
qed

lemma getVerificationLogs_same: "getVerificationLogs n db = (r, db') \<Longrightarrow> same_tables db db'"
proof -
  assume a: "getVerificationLogs n db = (r, db')"
  obtain q d where q: "executeQuery (select_verification_logs n) db = (q, d)"
    by (cases "executeQuery (select_verification_logs n) db")
  have "same_tables db d"
    by (rule executeQuery_select_same [OF _ q]) (simp add: select_verification_logs_def)
  moreover from a q have "db' = d"
    by (cases q) (simp_all add: getVerificationLogs_def)
  ultimately show ?thesis by simp
qed

lemma db_retrieveAgriData_same: "db_retrieveAgriData ty i db = (r, db') \<Longrightarrow> same_tables db db'"
proof -
  assume a: "db_retrieveAgriData ty i db = (r, db')"
  obtain q d1 where q: "executeQuery (select_agri_data ty i) db = (q, d1)"
    by (cases "executeQuery (select_agri_data ty i) db")
  have s1: "same_tables db d1"
    by (rule executeQuery_select_same [OF _ q]) (simp add: select_agri_data_def)
  show ?thesis
  proof (cases q)
    case (Inl e)
    with a q s1 show ?thesis by (simp add: db_retrieveAgriData_def)
  next
    case (Inr rows)
    show ?thesis
    proof (cases rows)
      case Nil
      with a q s1 Inr show ?thesis by (simp add: db_retrieveAgriData_def)
    next
      case (Cons d others)
      obtain fr d2 where f: "(if ad_has_files (av_row d) then getFilesByDataId (ad_data_id (av_row d)) d1
                 else (Inr [], d1)) = (fr, d2)"
        by (cases "(if ad_has_files (av_row d) then getFilesByDataId (ad_data_id (av_row d)) d1
                 else (Inr [], d1))")
      have s2: "same_tables d1 d2"
        using f getFilesByDataId_same by (auto split: if_splits)
      obtain lr d3 where l: "getVerificationLogs (ad_data_id (av_row d)) d2 = (lr, d3)"
        by (cases "getVerificationLogs (ad_data_id (av_row d)) d2")
      have s3: "same_tables d2 d3"
        using l by (rule getVerificationLogs_same)
      from a q Inr Cons f l have "db' = d2 \<or> db' = d3"
        by (cases fr; cases lr) (simp_all add: db_retrieveAgriData_def)
      with s1 s2 s3 show ?thesis
        using same_tables_trans by blast
    qed
  qed
qed

lemma logVerification_returns: "fst (logVerification now n ok m details db) = Inr ()"
  by (cases "take_fault db"; cases "fst (take_fault db)")
     (auto simp: logVerification_def executeQuery_def insert_verification_log_def)

lemma logVerification_logs:
  "verification_logs (snd (logVerification now n ok m details db)) =
     (case fst (take_fault db) of
        None \<Rightarrow> verification_logs db @ [(new_vlog_row now n ok m details)\<lparr> vl_log_id := next_log_id db \<rparr>]
      | Some msg \<Rightarrow> verification_logs db)"
proof (cases "take_fault db")
  case (Pair f d)
  with take_fault_tables [OF Pair] show ?thesis
    by (cases f) (simp_all add: logVerification_def executeQuery_def insert_verification_log_def)
qed

subsection \<open>\<^verbatim>\<open>DatabaseService.storeAgriData\<close>\<close>

lemma executeQuery_Nil: "faults db = [] \<Longrightarrow> executeQuery statement db = statement db"
  by (simp add: executeQuery_def take_fault_def)

lemma startsWith_append: "startsWith sub a \<Longrightarrow> startsWith sub (a @ b)"
proof -
  assume s: "startsWith sub a"
  then have "length (take (length sub) a) = length sub"
    by (simp add: startsWith_def)
  then have "length sub \<le> length a"
    by simp
  with s show ?thesis by (simp add: startsWith_def)
qed

lemma js_includes_append: "js_includes a sub \<Longrightarrow> js_includes (a @ b) sub"
proof (induction a)
  case Nil
  then show ?case by (cases b) (simp_all add: startsWith_def)
next
  case (Cons c cs)
  then show ?case
    using startsWith_append [of sub "c # cs" b] by auto
qed

lemma duplicate_key_message_suppressed: "js_includes (duplicate_key_message table) ''duplicate''"
  unfolding duplicate_key_message_def
  by (rule js_includes_append) (simp add: startsWith_def)

text \<open>What the steps of \<^verbatim>\<open>storeAgriData\<close> leave untouched, whatever the engine does.\<close>

lemma ensureFarmerExists_frame:
  "agricultural_data (snd (ensureFarmerExists farmerId info db)) = agricultural_data db
 \<and> uploaded_files (snd (ensureFarmerExists farmerId info db)) = uploaded_files db
 \<and> blockchain_transactions (snd (ensureFarmerExists farmerId info db)) = blockchain_transactions db
 \<and> next_data_id (snd (ensureFarmerExists farmerId info db)) = next_data_id db
 \<and> next_file_id (snd (ensureFarmerExists farmerId info db)) = next_file_id db"
proof (cases "take_fault db")
  case (Pair f d)
  note t = take_fault_tables [OF Pair]
  show ?thesis
  proof (cases f)
    case (Some msg)
    with Pair t show ?thesis
      by (simp add: ensureFarmerExists_def executeQuery_def)
  next
    case None
    obtain g d' where g: "take_fault d = (g, d')" by (cases "take_fault d")
    note t' = take_fault_tables [OF g]
    from None Pair t g t' show ?thesis
      by (cases g)
         (simp_all add: ensureFarmerExists_def executeQuery_def select_farmer_def insert_farmer_def)
  qed
qed

lemma sp_StoreAgriData_frame:
  "uploaded_files (snd (executeQuery (sp_StoreAgriData params) db)) = uploaded_files db
 \<and> blockchain_transactions (snd (executeQuery (sp_StoreAgriData params) db)) = blockchain_transactions db
 \<and> next_file_id (snd (executeQuery (sp_StoreAgriData params) db)) = next_file_id db
 \<and> agricultural_data (snd (executeQuery (sp_StoreAgriData params) db))
     = (case fst (executeQuery (sp_StoreAgriData params) db) of
          Inl e \<Rightarrow> agricultural_data db
        | Inr row \<Rightarrow> agricultural_data db @ [row])
 \<and> (case fst (executeQuery (sp_StoreAgriData params) db) of
      Inl e \<Rightarrow> True
    | Inr row \<Rightarrow> row = params\<lparr> ad_data_id := next_data_id db \<rparr>)"
proof (cases "take_fault db")
  case (Pair f d)
  with take_fault_tables [OF Pair] show ?thesis
    by (cases f) (simp_all add: executeQuery_def sp_StoreAgriData_def Let_def)
qed

lemma storeBlockchainTransaction_frame:
  "agricultural_data (snd (storeBlockchainTransaction now b db)) = agricultural_data db
 \<and> uploaded_files (snd (storeBlockchainTransaction now b db)) = uploaded_files db
 \<and> next_file_id (snd (storeBlockchainTransaction now b db)) = next_file_id db
 \<and> (blockchain_transactions (snd (storeBlockchainTransaction now b db)) = blockchain_transactions db
    \<or> blockchain_transactions (snd (storeBlockchainTransaction now b db))
         = blockchain_transactions db @ [new_btx_row now b])"
proof (cases "take_fault db")
  case (Pair f d)
  with take_fault_tables [OF Pair] show ?thesis
    by (cases f)
       (simp_all add: storeBlockchainTransaction_def executeQuery_def insert_blockchain_transaction_def)
qed

lemma logOperation_frame:
  "fst (logOperation now operation details db) = Inr ()
 \<and> agricultural_data (snd (logOperation now operation details db)) = agricultural_data db
 \<and> uploaded_files (snd (logOperation now operation details db)) = uploaded_files db
 \<and> blockchain_transactions (snd (logOperation now operation details db)) = blockchain_transactions db"
proof (cases "take_fault db")
  case (Pair f d)
  with take_fault_tables [OF Pair] show ?thesis
    by (cases f) (simp_all add: logOperation_def executeQuery_def insert_system_log_def)
qed
lemma storeFileMetadata_frame:
  "agricultural_data (snd (storeFileMetadata now dataId fs db)) = agricultural_data db
 \<and> blockchain_transactions (snd (storeFileMetadata now dataId fs db)) = blockchain_transactions db
 \<and> (\<exists>k \<le> length fs.
        uploaded_files (snd (storeFileMetadata now dataId fs db))
          = uploaded_files db @ file_rows now dataId (next_file_id db) (take k fs)
      \<and> (k = length fs) = (fst (storeFileMetadata now dataId fs db) = Inr ()))"
proof (induction fs arbitrary: db)
  case Nil
  then show ?case by simp
next
  case (Cons f rest)
  obtain g d where g: "take_fault db = (g, d)" by (cases "take_fault db")
  note t = take_fault_tables [OF g]
  show ?case
  proof (cases g)
    case (Some msg)
    with g t have "storeFileMetadata now dataId (f # rest) db = (Inl (RequestError msg), d)"
      by (simp add: executeQuery_def)
    with t show ?thesis
      by (intro conjI exI [of _ 0]) simp_all
  next
    case None
    let ?d1 = "d\<lparr> uploaded_files := uploaded_files d @ [(new_file_row now dataId f)\<lparr> uf_file_id := next_file_id d \<rparr>],
                   next_file_id := next_file_id d + 1 \<rparr>"
    from None g have rec: "storeFileMetadata now dataId (f # rest) db = storeFileMetadata now dataId rest ?d1"
      by (simp add: executeQuery_def insert_uploaded_file_def)
    from Cons.IH [of ?d1] obtain k where k: "k \<le> length rest"
      "uploaded_files (snd (storeFileMetadata now dataId rest ?d1))
         = uploaded_files ?d1 @ file_rows now dataId (next_file_id ?d1) (take k rest)"
      "(k = length rest) = (fst (storeFileMetadata now dataId rest ?d1) = Inr ())"
      and fr: "agricultural_data (snd (storeFileMetadata now dataId rest ?d1)) = agricultural_data ?d1"
        "blockchain_transactions (snd (storeFileMetadata now dataId rest ?d1)) = blockchain_transactions ?d1"
      by blast
    from k fr t show ?thesis
      unfolding rec by (intro conjI exI [of _ "Suc k"]) simp_all
  qed
qed

lemma ensureFarmerExists_quiet:
  assumes "faults db = []"
  shows "fst (ensureFarmerExists farmerId info db) = Inr ()
       \<and> faults (snd (ensureFarmerExists farmerId info db)) = []"
  using assms
  by (auto simp: ensureFarmerExists_def executeQuery_Nil select_farmer_def insert_farmer_def
        new_farmer_row_def filter_empty_conv)

lemma sp_StoreAgriData_quiet:
  assumes "faults db = []"
  shows "fst (executeQuery (sp_StoreAgriData params) db) = Inr (params\<lparr> ad_data_id := next_data_id db \<rparr>)
       \<and> faults (snd (executeQuery (sp_StoreAgriData params) db)) = []"
  using assms by (simp add: executeQuery_Nil sp_StoreAgriData_def Let_def)

lemma storeBlockchainTransaction_quiet:
  assumes "faults db = []"
  shows "fst (storeBlockchainTransaction now b db) = Inr ()
       \<and> faults (snd (storeBlockchainTransaction now b db)) = []
       \<and> blockchain_transactions (snd (storeBlockchainTransaction now b db))
           = (if has_transaction b db then blockchain_transactions db
              else blockchain_transactions db @ [new_btx_row now b])"
  using assms duplicate_key_message_suppressed [of "''blockchain_transactions''"]
  by (simp add: storeBlockchainTransaction_def executeQuery_Nil insert_blockchain_transaction_def
        has_transaction_def new_btx_row_def)

lemma storeFileMetadata_quiet:
  "faults db = [] \<Longrightarrow>
     fst (storeFileMetadata now dataId fs db) = Inr ()
   \<and> uploaded_files (snd (storeFileMetadata now dataId fs db))
       = uploaded_files db @ file_rows now dataId (next_file_id db) fs"
proof (induction fs arbitrary: db)
  case Nil
  then show ?case by simp
next
  case (Cons f rest)
  let ?d1 = "db\<lparr> uploaded_files := uploaded_files db @ [(new_file_row now dataId f)\<lparr> uf_file_id := next_file_id db \<rparr>],
                   next_file_id := next_file_id db + 1 \<rparr>"
  from Cons.prems have rec: "storeFileMetadata now dataId (f # rest) db = storeFileMetadata now dataId rest ?d1"
    by (simp add: executeQuery_Nil insert_uploaded_file_def)
  from Cons.prems have "faults ?d1 = []" by simp
  from Cons.IH [OF this] show ?case
    unfolding rec by simp
qed

lemma storeFileMetadata_if:
  "(if length fs > 0 then storeFileMetadata now dataId fs db else (Inr (), db))
     = storeFileMetadata now dataId fs db"
  by (cases fs) simp_all
lemma db_storeAgriData_quiet:
  assumes q: "faults db = []"
  shows "fst (db_storeAgriData now a b fs db) = Inr (stored_row a b fs db)
       \<and> agricultural_data (snd (db_storeAgriData now a b fs db))
           = agricultural_data db @ [stored_row a b fs db]
       \<and> uploaded_files (snd (db_storeAgriData now a b fs db))
           = uploaded_files db @ file_rows now (next_data_id db) (next_file_id db) fs
       \<and> blockchain_transactions (snd (db_storeAgriData now a b fs db))
           = (if has_transaction b db then blockchain_transactions db
              else blockchain_transactions db @ [new_btx_row now b])"
proof -
  let ?info = "props_of (js_or (obj_get a ''farmerInfo'') (JObj []))"
  obtain r1 db1 where e1: "ensureFarmerExists (obj_get a ''farmerId'') ?info db = (r1, db1)"
    by (cases "ensureFarmerExists (obj_get a ''farmerId'') ?info db")
  from ensureFarmerExists_frame [of "obj_get a ''farmerId''" ?info db] e1
  have f1: "agricultural_data db1 = agricultural_data db" "uploaded_files db1 = uploaded_files db"
    "blockchain_transactions db1 = blockchain_transactions db"
    "next_data_id db1 = next_data_id db" "next_file_id db1 = next_file_id db"
    by simp_all
  from ensureFarmerExists_quiet [OF q, of "obj_get a ''farmerId''" ?info] e1
  have q1: "r1 = Inr ()" "faults db1 = []" by simp_all
  let ?row = "stored_row a b fs db"
  obtain r2 db2 where e2: "executeQuery (sp_StoreAgriData (new_agri_row a b fs)) db1 = (r2, db2)"
    by (cases "executeQuery (sp_StoreAgriData (new_agri_row a b fs)) db1")
  from sp_StoreAgriData_quiet [OF q1(2), of "new_agri_row a b fs"] e2 f1
  have q2: "r2 = Inr ?row" "faults db2 = []" by (simp_all add: stored_row_def)
  from sp_StoreAgriData_frame [of "new_agri_row a b fs" db1] e2 f1 q2
  have f2: "agricultural_data db2 = agricultural_data db @ [?row]" "uploaded_files db2 = uploaded_files db"
    "blockchain_transactions db2 = blockchain_transactions db" "next_file_id db2 = next_file_id db"
    by simp_all
  obtain r3 db3 where e3: "storeBlockchainTransaction now b db2 = (r3, db3)"
    by (cases "storeBlockchainTransaction now b db2")
  from storeBlockchainTransaction_quiet [OF q2(2), of now b] e3 f2
  have q3: "r3 = Inr ()" "faults db3 = []"
    "blockchain_transactions db3 = (if has_transaction b db then blockchain_transactions db
              else blockchain_transactions db @ [new_btx_row now b])"
    by (simp_all add: has_transaction_def)
  from storeBlockchainTransaction_frame [of now b db2] e3 f2
  have f3: "agricultural_data db3 = agricultural_data db @ [?row]" "uploaded_files db3 = uploaded_files db"
    "next_file_id db3 = next_file_id db"
    by simp_all
  obtain r4 db4 where e4: "storeFileMetadata now (next_data_id db) fs db3 = (r4, db4)"
    by (cases "storeFileMetadata now (next_data_id db) fs db3")
  from storeFileMetadata_quiet [OF q3(2), of now "next_data_id db" fs] e4 f3
  have q4: "r4 = Inr ()"
    "uploaded_files db4 = uploaded_files db @ file_rows now (next_data_id db) (next_file_id db) fs"
    by simp_all
  from storeFileMetadata_frame [of now "next_data_id db" fs db3] e4 f3 q3
  have f4: "agricultural_data db4 = agricultural_data db @ [?row]"
    "blockchain_transactions db4 = (if has_transaction b db then blockchain_transactions db
              else blockchain_transactions db @ [new_btx_row now b])"
    by simp_all
  have id: "ad_data_id ?row = next_data_id db" by (simp add: stored_row_def)
  have "db_storeAgriData now a b fs db
          = (Inr ?row, snd (logOperation now ''STORE_DATA''
                (JObj [(''dataId'', JNum (next_data_id db)),
                       (''farmerId'', obj_get a ''farmerId''),
                       (''transactionHash'', obj_get b ''transactionHash''),
                       (''fileCount'', JNum (int (length fs)))]) db4))"
    unfolding db_storeAgriData_def storeFileMetadata_if e1 q1 by (simp add: e2 q2 e3 q3 id e4 q4 case_prod_beta)
  with q4 f4 show ?thesis
    by (simp add: logOperation_frame)
qed

lemma db_storeAgriData_partial:
  assumes res: "db_storeAgriData now a b fs db = (r, db')"
  shows "(agricultural_data db' = agricultural_data db
          \<or> agricultural_data db' = agricultural_data db @ [stored_row a b fs db])
       \<and> (blockchain_transactions db' = blockchain_transactions db
          \<or> blockchain_transactions db' = blockchain_transactions db @ [new_btx_row now b])
       \<and> (\<exists>k \<le> length fs.
              uploaded_files db'
                = uploaded_files db @ file_rows now (next_data_id db) (next_file_id db) (take k fs)
            \<and> (0 < k \<longrightarrow> agricultural_data db' = agricultural_data db @ [stored_row a b fs db])
            \<and> (\<forall>row. r = Inr row \<longrightarrow> k = length fs))
       \<and> (\<forall>row. r = Inr row \<longrightarrow>
              row = stored_row a b fs db
            \<and> agricultural_data db' = agricultural_data db @ [stored_row a b fs db])"
proof -
  let ?info = "props_of (js_or (obj_get a ''farmerInfo'') (JObj []))"
  let ?row = "stored_row a b fs db"
  obtain r1 db1 where e1: "ensureFarmerExists (obj_get a ''farmerId'') ?info db = (r1, db1)"
    by (cases "ensureFarmerExists (obj_get a ''farmerId'') ?info db")
  from ensureFarmerExists_frame [of "obj_get a ''farmerId''" ?info db] e1
  have f1: "agricultural_data db1 = agricultural_data db" "uploaded_files db1 = uploaded_files db"
    "blockchain_transactions db1 = blockchain_transactions db"
    "next_data_id db1 = next_data_id db" "next_file_id db1 = next_file_id db"
    by simp_all
  show ?thesis
  proof (cases r1)
    case (Inl e)
    with res e1 have "r = Inl e" "db' = db1"
      by (simp_all add: db_storeAgriData_def)
    with f1 show ?thesis
      by (intro conjI exI [of _ 0]) simp_all
  next
    case u1: (Inr u)
    obtain r2 db2 where e2: "executeQuery (sp_StoreAgriData (new_agri_row a b fs)) db1 = (r2, db2)"
      by (cases "executeQuery (sp_StoreAgriData (new_agri_row a b fs)) db1")
    note s2 = sp_StoreAgriData_frame [of "new_agri_row a b fs" db1]
    from s2 e2 f1
    have f2: "uploaded_files db2 = uploaded_files db"
      "blockchain_transactions db2 = blockchain_transactions db" "next_file_id db2 = next_file_id db"
      by simp_all
    show ?thesis
    proof (cases r2)
      case (Inl e)
      with res e1 u1 e2 have "r = Inl e" "db' = db2"
        by (simp_all add: db_storeAgriData_def)
      moreover from s2 e2 f1 Inl have "agricultural_data db2 = agricultural_data db"
        by simp
      ultimately show ?thesis using f2
        by (intro conjI exI [of _ 0]) simp_all
    next
      case u2: (Inr row)
      from s2 e2 f1 u2 have row: "row = ?row" and a2: "agricultural_data db2 = agricultural_data db @ [?row]"
        by (simp_all add: stored_row_def)
      have id: "ad_data_id ?row = next_data_id db" by (simp add: stored_row_def)
      obtain r3 db3 where e3: "storeBlockchainTransaction now b db2 = (r3, db3)"
        by (cases "storeBlockchainTransaction now b db2")
      from storeBlockchainTransaction_frame [of now b db2] e3 f2 a2
      have f3: "agricultural_data db3 = agricultural_data db @ [?row]" "uploaded_files db3 = uploaded_files db"
        "next_file_id db3 = next_file_id db"
        "blockchain_transactions db3 = blockchain_transactions db
         \<or> blockchain_transactions db3 = blockchain_transactions db @ [new_btx_row now b]"
        by simp_all
      show ?thesis
      proof (cases r3)
        case (Inl e)
        with res e1 u1 e2 u2 e3 have "r = Inl e" "db' = db3"
          by (simp_all add: db_storeAgriData_def)
        with f3 show ?thesis
          by (intro conjI exI [of _ 0]) simp_all
      next
        case u3: (Inr u')
        obtain r4 db4 where e4: "storeFileMetadata now (next_data_id db) fs db3 = (r4, db4)"
          by (cases "storeFileMetadata now (next_data_id db) fs db3")
        from storeFileMetadata_frame [of now "next_data_id db" fs db3] e4 f3
        obtain k where k: "k \<le> length fs"
          "uploaded_files db4 = uploaded_files db @ file_rows now (next_data_id db) (next_file_id db) (take k fs)"
          "(k = length fs) = (r4 = Inr ())"
          and f4: "agricultural_data db4 = agricultural_data db @ [?row]"
          "blockchain_transactions db4 = blockchain_transactions db
           \<or> blockchain_transactions db4 = blockchain_transactions db @ [new_btx_row now b]"
          by auto
        show ?thesis
        proof (cases r4)
          case (Inl e)
          from res have "r = Inl e" "db' = db4"
            unfolding db_storeAgriData_def storeFileMetadata_if e1 u1
            by (simp_all add: e2 u2 row id e3 u3 e4 Inl)
          with f4 k show ?thesis
            by (intro conjI exI [of _ k]) simp_all
        next
          case u4: (Inr u'')
          from res have "r = Inr ?row"
            "db' = snd (logOperation now ''STORE_DATA''
                (JObj [(''dataId'', JNum (next_data_id db)),
                       (''farmerId'', obj_get a ''farmerId''),
                       (''transactionHash'', obj_get b ''transactionHash''),
                       (''fileCount'', JNum (int (length fs)))]) db4)"
            unfolding db_storeAgriData_def storeFileMetadata_if e1 u1
            by (auto simp: e2 u2 row id e3 u3 e4 u4 case_prod_beta)
          with f4 k u4 show ?thesis
            by (intro conjI exI [of _ k]) (simp_all add: logOperation_frame)
        qed
      qed
    qed
  qed
qed

lemma executeQuery_None:
  "faults db = None # fs \<Longrightarrow> executeQuery statement db = statement (db\<lparr> faults := fs \<rparr>)"
  by (simp add: executeQuery_def take_fault_def)

lemma executeQuery_answered:
  "faults db \<noteq> [] \<Longrightarrow> hd (faults db) = None \<Longrightarrow>
   executeQuery statement db = statement (db\<lparr> faults := tl (faults db) \<rparr>)"
  by (cases "faults db") (simp_all add: executeQuery_def take_fault_def)

lemma executeQuery_Some:
  "faults db = Some msg # fs \<Longrightarrow>
   executeQuery statement db = (Inl (RequestError msg), db\<lparr> faults := fs \<rparr>)"
  by (simp add: executeQuery_def take_fault_def)

lemma ensureFarmerExists_answered:
  assumes "faults db = replicate ((if farmer_rows farmerId db = [] then 2 else 1) + m) None @ rest"
  shows "fst (ensureFarmerExists farmerId info db) = Inr ()
       \<and> faults (snd (ensureFarmerExists farmerId info db)) = replicate m None @ rest"
proof (cases "farmer_rows farmerId db = []")
  case True
  with assms have f: "faults db = None # None # replicate m None @ rest"
    by (simp add: numeral_2_eq_2)
  from True show ?thesis
    by (auto simp: ensureFarmerExists_def executeQuery_None [OF f] select_farmer_def
        farmer_rows_def executeQuery_answered insert_farmer_def new_farmer_row_def
        filter_empty_conv)
next
  case False
  with assms have f: "faults db = None # replicate m None @ rest"
    by simp
  from False show ?thesis
    by (simp add: ensureFarmerExists_def executeQuery_None [OF f] select_farmer_def farmer_rows_def)
qed

lemma sp_StoreAgriData_answered:
  assumes "faults db = None # fs"
  shows "fst (executeQuery (sp_StoreAgriData params) db) = Inr (params\<lparr> ad_data_id := next_data_id db \<rparr>)
       \<and> faults (snd (executeQuery (sp_StoreAgriData params) db)) = fs"
  by (simp add: executeQuery_None [OF assms] sp_StoreAgriData_def Let_def)

lemma storeBlockchainTransaction_answered:
  assumes "faults db = None # fs"
  shows "fst (storeBlockchainTransaction now b db) = Inr ()
       \<and> faults (snd (storeBlockchainTransaction now b db)) = fs
       \<and> blockchain_transactions (snd (storeBlockchainTransaction now b db))
           = (if has_transaction b db then blockchain_transactions db
              else blockchain_transactions db @ [new_btx_row now b])"
  using duplicate_key_message_suppressed [of "''blockchain_transactions''"]
  by (simp add: storeBlockchainTransaction_def executeQuery_None [OF assms]
        insert_blockchain_transaction_def has_transaction_def new_btx_row_def)

lemma storeFileMetadata_refused:
  "faults db = replicate j None @ Some msg # rest \<Longrightarrow> j < length fs \<Longrightarrow>
     fst (storeFileMetadata now dataId fs db) = Inl (RequestError msg)
   \<and> uploaded_files (snd (storeFileMetadata now dataId fs db))
       = uploaded_files db @ file_rows now dataId (next_file_id db) (take j fs)"
proof (induction fs arbitrary: db j)
  case Nil
  then show ?case by simp
next
  case (Cons f fs')
  show ?case
  proof (cases j)
    case 0
    with Cons.prems have "faults db = Some msg # rest" by simp
    from 0 show ?thesis by (simp add: executeQuery_Some [OF \<open>faults db = Some msg # rest\<close>])
  next
    case (Suc i)
    with Cons.prems have fd: "faults db = None # replicate i None @ Some msg # rest"
      and i: "i < length fs'"
      by simp_all
    let ?d1 = "db\<lparr> faults := replicate i None @ Some msg # rest,
                   uploaded_files := uploaded_files db @ [(new_file_row now dataId f)\<lparr> uf_file_id := next_file_id db \<rparr>],
                   next_file_id := next_file_id db + 1 \<rparr>"
    have rec: "storeFileMetadata now dataId (f # fs') db = storeFileMetadata now dataId fs' ?d1"
      by (simp add: executeQuery_None [OF fd] insert_uploaded_file_def)
    have "faults ?d1 = replicate i None @ Some msg # rest" by simp
    from Cons.IH [OF this i] Suc show ?thesis
      unfolding rec by simp
  qed
qed

lemma db_storeAgriData_refused:
  assumes fd: "faults db = replicate ((if farmer_rows (obj_get a ''farmerId'') db = [] then 2 else 1) + 2 + j) None
                   @ Some msg # rest"
    and j: "j < length fs"
  shows "fst (db_storeAgriData now a b fs db) = Inl (RequestError msg)
       \<and> agricultural_data (snd (db_storeAgriData now a b fs db))
           = agricultural_data db @ [stored_row a b fs db]
       \<and> blockchain_transactions (snd (db_storeAgriData now a b fs db))
           = (if has_transaction b db then blockchain_transactions db
              else blockchain_transactions db @ [new_btx_row now b])
       \<and> uploaded_files (snd (db_storeAgriData now a b fs db))
           = uploaded_files db @ file_rows now (next_data_id db) (next_file_id db) (take j fs)"
proof -
  let ?info = "props_of (js_or (obj_get a ''farmerInfo'') (JObj []))"
  let ?tail = "Some msg # rest"
  obtain r1 db1 where e1: "ensureFarmerExists (obj_get a ''farmerId'') ?info db = (r1, db1)"
    by (cases "ensureFarmerExists (obj_get a ''farmerId'') ?info db")
  from ensureFarmerExists_frame [of "obj_get a ''farmerId''" ?info db] e1
  have f1: "agricultural_data db1 = agricultural_data db" "uploaded_files db1 = uploaded_files db"
    "blockchain_transactions db1 = blockchain_transactions db"
    "next_data_id db1 = next_data_id db" "next_file_id db1 = next_file_id db"
    by simp_all
  from fd have "faults db = replicate ((if farmer_rows (obj_get a ''farmerId'') db = [] then 2 else 1) + (2 + j)) None
                   @ ?tail"
    by (simp add: add.assoc)
  from ensureFarmerExists_answered [OF this, of ?info] e1
  have q1: "r1 = Inr ()" "faults db1 = None # None # replicate j None @ ?tail"
    by (simp_all add: numeral_2_eq_2)
  let ?row = "stored_row a b fs db"
  obtain r2 db2 where e2: "executeQuery (sp_StoreAgriData (new_agri_row a b fs)) db1 = (r2, db2)"
    by (cases "executeQuery (sp_StoreAgriData (new_agri_row a b fs)) db1")
  from sp_StoreAgriData_answered [OF q1(2), of "new_agri_row a b fs"] e2 f1
  have q2: "r2 = Inr ?row" "faults db2 = None # replicate j None @ ?tail"
    by (simp_all add: stored_row_def)
  from sp_StoreAgriData_frame [of "new_agri_row a b fs" db1] e2 f1 q2
  have f2: "agricultural_data db2 = agricultural_data db @ [?row]" "uploaded_files db2 = uploaded_files db"
    "blockchain_transactions db2 = blockchain_transactions db" "next_file_id db2 = next_file_id db"
    by simp_all
  obtain r3 db3 where e3: "storeBlockchainTransaction now b db2 = (r3, db3)"
    by (cases "storeBlockchainTransaction now b db2")
  from storeBlockchainTransaction_answered [OF q2(2), of now b] e3 f2
  have q3: "r3 = Inr ()" "faults db3 = replicate j None @ ?tail"
    "blockchain_transactions db3 = (if has_transaction b db then blockchain_transactions db
              else blockchain_transactions db @ [new_btx_row now b])"
    by (simp_all add: has_transaction_def)
  from storeBlockchainTransaction_frame [of now b db2] e3 f2
  have f3: "agricultural_data db3 = agricultural_data db @ [?row]" "uploaded_files db3 = uploaded_files db"
    "next_file_id db3 = next_file_id db"
    by simp_all
  obtain r4 db4 where e4: "storeFileMetadata now (next_data_id db) fs db3 = (r4, db4)"
    by (cases "storeFileMetadata now (next_data_id db) fs db3")
  from storeFileMetadata_refused [OF q3(2) j, of now "next_data_id db"] e4 f3
  have q4: "r4 = Inl (RequestError msg)"
    "uploaded_files db4 = uploaded_files db @ file_rows now (next_data_id db) (next_file_id db) (take j fs)"
    by simp_all
  from storeFileMetadata_frame [of now "next_data_id db" fs db3] e4 f3 q3
  have f4: "agricultural_data db4 = agricultural_data db @ [?row]"
    "blockchain_transactions db4 = (if has_transaction b db then blockchain_transactions db
              else blockchain_transactions db @ [new_btx_row now b])"
    by simp_all
  have id: "ad_data_id ?row = next_data_id db" by (simp add: stored_row_def)
  have "db_storeAgriData now a b fs db = (Inl (RequestError msg), db4)"
    unfolding db_storeAgriData_def storeFileMetadata_if e1 q1 by (simp add: e2 q2 e3 q3 id e4 q4)
  with q4 f4 show ?thesis
    by simp
qed

text \<open>
  C6, as stated, fails: the call is not atomic. With two files and an engine that executes
  five statements (the lookup and the insertion of the farmer, the procedure, the
  insertion of the transaction, the insertion of the first file) and refuses the sixth,
  the call throws, and the record, the transaction and the first file stay in their
  tables.
\<close>

theorem storeAgriData_failure_keeps_rows:
  "(case db_storeAgriData ''2024-01-01T00:00:05.000Z'' example_fields example_anchor
           [example_file ''a.txt'', example_file ''b.txt'']
           (empty_database\<lparr> faults := [None, None, None, None, None,
                                         Some ''Timeout: Request failed to complete in 15000ms''] \<rparr>) of
      (Inl e, db') \<Rightarrow>
        e = RequestError ''Timeout: Request failed to complete in 15000ms''
        \<and> map ad_data_id (agricultural_data db') = [1]
        \<and> map bt_transaction_hash (blockchain_transactions db') = [JStr example_tx_hash]
        \<and> map uf_original_name (uploaded_files db') = [''a.txt'']
    | (Inr row, db') \<Rightarrow> False)"
  by code_simp

text \<open>
  C6, amended. When the engine refuses no statement, \<^verbatim>\<open>storeAgriData\<close> returns the row of
  the procedure, that row is appended to \<^verbatim>\<open>agricultural_data\<close>, one row for each file is
  appended to \<^verbatim>\<open>uploaded_files\<close>, in the order of the files and with the id of the record,
  and the transaction is appended to \<^verbatim>\<open>blockchain_transactions\<close> unless its hash is there
  already: then the refusal of the duplicate is swallowed and the call succeeds all the
  same. There is no transaction around the record and its files: when the engine executes
  the statements up to the insertion of file number \<open>j\<close> and refuses that one, the call
  fails with the error of the engine, and the record, the transaction and the rows of the
  \<open>j\<close> files before it stay in their tables. Whatever the engine does, each table is left
  with what it had and, at its end, the record or not, the transaction or not, and the
  rows of the first \<open>k\<close> files; rows of files are only there with the record; and a call
  that returns has written the record and the rows of all the files.
\<close>

theorem db_storeAgriData_rows:
  "(case db_storeAgriData now a b fs db of
      (r, db') \<Rightarrow>
        (faults db = [] \<longrightarrow>
             r = Inr (stored_row a b fs db)
           \<and> agricultural_data db' = agricultural_data db @ [stored_row a b fs db]
           \<and> blockchain_transactions db'
               = (if has_transaction b db then blockchain_transactions db
                  else blockchain_transactions db @ [new_btx_row now b])
           \<and> uploaded_files db'
               = uploaded_files db @ file_rows now (next_data_id db) (next_file_id db) fs)
      \<and> (j < length fs
          \<and> faults db = replicate ((if farmer_rows (obj_get a ''farmerId'') db = [] then 2 else 1) + 2 + j) None
                          @ Some msg # rest \<longrightarrow>
             r = Inl (RequestError msg)
           \<and> agricultural_data db' = agricultural_data db @ [stored_row a b fs db]
           \<and> blockchain_transactions db'
               = (if has_transaction b db then blockchain_transactions db
                  else blockchain_transactions db @ [new_btx_row now b])
           \<and> uploaded_files db'
               = uploaded_files db @ file_rows now (next_data_id db) (next_file_id db) (take j fs))
      \<and> (agricultural_data db' = agricultural_data db
          \<or> agricultural_data db' = agricultural_data db @ [stored_row a b fs db])
      \<and> (blockchain_transactions db' = blockchain_transactions db
          \<or> blockchain_transactions db' = blockchain_transactions db @ [new_btx_row now b])
      \<and> (\<exists>k \<le> length fs.
              uploaded_files db'
                = uploaded_files db @ file_rows now (next_data_id db) (next_file_id db) (take k fs)
            \<and> (0 < k \<longrightarrow> agricultural_data db' = agricultural_data db @ [stored_row a b fs db])
            \<and> (\<forall>row. r = Inr row \<longrightarrow> k = length fs))
      \<and> (\<forall>row. r = Inr row \<longrightarrow>
              row = stored_row a b fs db
            \<and> agricultural_data db' = agricultural_data db @ [stored_row a b fs db]))"
proof (cases "db_storeAgriData now a b fs db")
  case (Pair r db')
  have A: "faults db = [] \<longrightarrow>
             r = Inr (stored_row a b fs db)
           \<and> agricultural_data db' = agricultural_data db @ [stored_row a b fs db]
           \<and> blockchain_transactions db'
               = (if has_transaction b db then blockchain_transactions db
                  else blockchain_transactions db @ [new_btx_row now b])
           \<and> uploaded_files db'
               = uploaded_files db @ file_rows now (next_data_id db) (next_file_id db) fs"
    using db_storeAgriData_quiet [of db now a b fs] by (simp add: Pair)
  have B: "j < length fs
          \<and> faults db = replicate ((if farmer_rows (obj_get a ''farmerId'') db = [] then 2 else 1) + 2 + j) None
                          @ Some msg # rest \<longrightarrow>
             r = Inl (RequestError msg)
           \<and> agricultural_data db' = agricultural_data db @ [stored_row a b fs db]
           \<and> blockchain_transactions db'
               = (if has_transaction b db then blockchain_transactions db
                  else blockchain_transactions db @ [new_btx_row now b])
           \<and> uploaded_files db'
               = uploaded_files db @ file_rows now (next_data_id db) (next_file_id db) (take j fs)"
  proof
    assume h: "j < length fs
          \<and> faults db = replicate ((if farmer_rows (obj_get a ''farmerId'') db = [] then 2 else 1) + 2 + j) None
                          @ Some msg # rest"
    then have h1: "j < length fs"
      and h2: "faults db = replicate ((if farmer_rows (obj_get a ''farmerId'') db = [] then 2 else 1) + 2 + j) None
                          @ Some msg # rest"
      by simp_all
    from db_storeAgriData_refused [OF h2 h1, of now b]
    show "r = Inl (RequestError msg)
           \<and> agricultural_data db' = agricultural_data db @ [stored_row a b fs db]
           \<and> blockchain_transactions db'
               = (if has_transaction b db then blockchain_transactions db
                  else blockchain_transactions db @ [new_btx_row now b])
           \<and> uploaded_files db'
               = uploaded_files db @ file_rows now (next_data_id db) (next_file_id db) (take j fs)"
      by (simp add: Pair)
  qed
  note C = db_storeAgriData_partial [OF Pair]
  show ?thesis
    unfolding Pair prod.case by (rule conjI [OF A conjI [OF B C]])
qed

theorem db_storeAgriData_rows_witness:
  "faults empty_database = []
   \<and> fst (db_storeAgriData ''2024-01-01T00:00:05.000Z'' example_fields example_anchor
             [example_file ''a.txt''] empty_database)
       = Inr (stored_row example_fields example_anchor [example_file ''a.txt''] empty_database)
   \<and> map ad_data_id (agricultural_data (snd (db_storeAgriData ''2024-01-01T00:00:05.000Z''
             example_fields example_anchor [example_file ''a.txt''] empty_database))) = [1]
   \<and> map uf_original_name (uploaded_files (snd (db_storeAgriData ''2024-01-01T00:00:05.000Z''
             example_fields example_anchor [example_file ''a.txt''] empty_database))) = [''a.txt'']
   \<and> faults (empty_database\<lparr> faults := [None, None, None, None, None, Some ''Connection is closed.''] \<rparr>)
       = replicate ((if farmer_rows (obj_get example_fields ''farmerId'')
                          (empty_database\<lparr> faults := [None, None, None, None, None,
                                                        Some ''Connection is closed.''] \<rparr>) = []
                     then 2 else 1) + 2 + 1) None @ Some ''Connection is closed.'' # []
   \<and> fst (db_storeAgriData ''2024-01-01T00:00:05.000Z'' example_fields example_anchor
             [example_file ''a.txt'', example_file ''b.txt'']
             (empty_database\<lparr> faults := [None, None, None, None, None, Some ''Connection is closed.''] \<rparr>))
       = Inl (RequestError ''Connection is closed.'')
   \<and> map ad_data_id (agricultural_data (snd (db_storeAgriData ''2024-01-01T00:00:05.000Z''
             example_fields example_anchor [example_file ''a.txt'', example_file ''b.txt'']
             (empty_database\<lparr> faults := [None, None, None, None, None, Some ''Connection is closed.''] \<rparr>))))
       = [1]
   \<and> map uf_original_name (uploaded_files (snd (db_storeAgriData ''2024-01-01T00:00:05.000Z''
             example_fields example_anchor [example_file ''a.txt'', example_file ''b.txt'']
             (empty_database\<lparr> faults := [None, None, None, None, None, Some ''Connection is closed.''] \<rparr>))))
       = [''a.txt'']"
proof -
  let ?t = "''2024-01-01T00:00:05.000Z''"
  let ?fs = "[example_file ''a.txt'']"
  let ?X = "db_storeAgriData ?t example_fields example_anchor ?fs empty_database"
  have q: "faults empty_database = []"
    by (simp add: empty_database_def)
  note i = db_storeAgriData_rows [where now = ?t and a = example_fields and b = example_anchor
         and fs = ?fs and db = empty_database, unfolded case_prod_beta, THEN conjunct1,
         rule_format, OF q]
  have r: "stored_row example_fields example_anchor ?fs empty_database
      = (new_agri_row example_fields example_anchor ?fs)\<lparr> ad_data_id := 1 \<rparr>"
    by (simp add: stored_row_def empty_database_def)
  have a: "agricultural_data empty_database = []" and u: "uploaded_files empty_database = []"
    and n: "next_data_id empty_database = 1" "next_file_id empty_database = 1"
    by (simp_all add: empty_database_def)
  from i have x1: "fst ?X = Inr (stored_row example_fields example_anchor ?fs empty_database)"
    and x2: "agricultural_data (snd ?X) = [(new_agri_row example_fields example_anchor ?fs)\<lparr> ad_data_id := 1 \<rparr>]"
    and x3: "uploaded_files (snd ?X) = file_rows ?t 1 1 ?fs"
    unfolding r a u n by simp_all
  let ?gs = "[example_file ''a.txt'', example_file ''b.txt'']"
  let ?D = "empty_database\<lparr> faults := [None, None, None, None, None, Some ''Connection is closed.''] \<rparr>"
  let ?Y = "db_storeAgriData ?t example_fields example_anchor ?gs ?D"
  have fr: "farmer_rows (obj_get example_fields ''farmerId'') ?D = []"
    by (simp add: farmer_rows_def empty_database_def)
  have h: "faults ?D
       = replicate ((if farmer_rows (obj_get example_fields ''farmerId'') ?D = [] then 2 else 1) + 2 + 1) None
           @ Some ''Connection is closed.'' # []"
    unfolding fr by (simp add: numeral_eq_Suc)
  have l: "1 < length ?gs"
    by simp
  from l h have lh: "1 < length ?gs \<and> faults ?D
       = replicate ((if farmer_rows (obj_get example_fields ''farmerId'') ?D = [] then 2 else 1) + 2 + 1) None
           @ Some ''Connection is closed.'' # []"
    by (rule conjI)
  note k = db_storeAgriData_rows [where now = ?t and a = example_fields and b = example_anchor
         and fs = ?gs and db = ?D and j = 1 and msg = "''Connection is closed.''" and rest = "[]",
         unfolded case_prod_beta, THEN conjunct2, THEN conjunct1, rule_format, OF lh]
  have r': "stored_row example_fields example_anchor ?gs ?D
      = (new_agri_row example_fields example_anchor ?gs)\<lparr> ad_data_id := 1 \<rparr>"
    by (simp add: stored_row_def empty_database_def)
  have a': "agricultural_data ?D = []" and u': "uploaded_files ?D = []"
    and n': "next_data_id ?D = 1" "next_file_id ?D = 1"
    by (simp_all add: empty_database_def)
  from k have y1: "fst ?Y = Inl (RequestError ''Connection is closed.'')"
    and y2: "agricultural_data (snd ?Y) = [(new_agri_row example_fields example_anchor ?gs)\<lparr> ad_data_id := 1 \<rparr>]"
    and y3: "uploaded_files (snd ?Y) = file_rows ?t 1 1 (take 1 ?gs)"
    unfolding r' a' u' n' by simp_all
  from x2 have x2': "map ad_data_id (agricultural_data (snd ?X)) = [1]"
    by simp
  from x3 have x3': "map uf_original_name (uploaded_files (snd ?X)) = [''a.txt'']"
    by (simp add: example_file_def new_file_row_def)
  from y2 have y2': "map ad_data_id (agricultural_data (snd ?Y)) = [1]"
    by simp
  from y3 have y3': "map uf_original_name (uploaded_files (snd ?Y)) = [''a.txt'']"
    by (simp add: example_file_def new_file_row_def)
  from q x1 x2' x3' h y1 y2' y3' show ?thesis
    by (intro conjI)
qed

section \<open>Properties of the AgriChain service\<close>

lemma stringify_example_first:
  "stringify (dataWithMetadata ''2024-01-01T00:00:00.000Z'' example_record) =
   ''{\"farmerId\":\"P1\",\"productType\":\"Rice\",\"harvestDate\":\"2024-01-01\",\"location\":\"Delta\",\"timestamp\":\"2024-01-01T00:00:00.000Z\",\"version\":\"1.0\",\"system\":\"AgriChain\"}''"
  by code_simp

lemma stringify_example_second:
  "stringify (dataWithMetadata ''2024-01-01T00:00:01.000Z'' example_record) =
   ''{\"farmerId\":\"P1\",\"productType\":\"Rice\",\"harvestDate\":\"2024-01-01\",\"location\":\"Delta\",\"timestamp\":\"2024-01-01T00:00:01.000Z\",\"version\":\"1.0\",\"system\":\"AgriChain\"}''"
  by code_simp

lemma sha256_example_first:
  "sha256 ''{\"farmerId\":\"P1\",\"productType\":\"Rice\",\"harvestDate\":\"2024-01-01\",\"location\":\"Delta\",\"timestamp\":\"2024-01-01T00:00:00.000Z\",\"version\":\"1.0\",\"system\":\"AgriChain\"}''
   = ''e6cad9e46f4df78a591196465b3dbe6eb5a490b816a2738fbe7b7c6313e3c427''"
  by code_simp

lemma sha256_example_second:
  "sha256 ''{\"farmerId\":\"P1\",\"productType\":\"Rice\",\"harvestDate\":\"2024-01-01\",\"location\":\"Delta\",\"timestamp\":\"2024-01-01T00:00:01.000Z\",\"version\":\"1.0\",\"system\":\"AgriChain\"}''
   = ''8a7432196d3258fdea324c7c61fc5deedcf8041209ed7c6573d3aab5c4743a40''"
  by code_simp

lemma missingFields_example: "missingFields example_record = []"
  by (simp add: missingFields_def example_record_def requiredFields_def obj_get_def)

lemma createAgriDataHash_example:
  "createAgriDataHash now example_record =
     Inr \<lparr> hr_hash = ''0x'' @ sha256 (stringify (dataWithMetadata now example_record)),
           hr_data = dataWithMetadata now example_record,
           hr_fields = map fst (props_of (dataWithMetadata now example_record)),
           hr_size = js_length (stringify (dataWithMetadata now example_record)) \<rparr>"
  using missingFields_example
  by (simp add: createAgriDataHash_def generateHash_def dataString_of_def)
     (simp add: example_record_def dataWithMetadata_def)

text \<open>
  C2. The digest of a record depends on the clock: \<^verbatim>\<open>createAgriDataHash\<close> embeds the time
  of the call in what it hashes. The same record hashed at
  \<^verbatim>\<open>2024-01-01T00:00:00.000Z\<close> and one second later has two different digests.
\<close>

theorem createAgriDataHash_depends_on_clock:
  "map_sum id hr_hash (createAgriDataHash ''2024-01-01T00:00:00.000Z'' example_record)
     = Inr ''0xe6cad9e46f4df78a591196465b3dbe6eb5a490b816a2738fbe7b7c6313e3c427''
   \<and> map_sum id hr_hash (createAgriDataHash ''2024-01-01T00:00:01.000Z'' example_record)
     = Inr ''0x8a7432196d3258fdea324c7c61fc5deedcf8041209ed7c6573d3aab5c4743a40''"
  by (simp add: createAgriDataHash_example stringify_example_first stringify_example_second
      sha256_example_first sha256_example_second)

subsection \<open>Verification and its log\<close>

lemma same_tables_next_log_id: "same_tables db db' \<Longrightarrow> next_log_id db' = next_log_id db"
  by (metis database.select_convs(9) database.surjective database.update_convs(10) same_tables_def)

lemma verifyAgriDataIntegrity_reaches_log:
  assumes r: "db_retrieveAgriData ty i db = (Inr stored, db1)"
    and c: "createAgriDataHash t_hash R = Inr cur"
    and h: "verifyHash (hr_data cur) (ad_data_hash (av_row stored)) = Inr isValid"
  shows "verifyAgriDataIntegrity t_hash t_log R i ty details db =
     (Inr \<lparr> vr_dataId = ad_data_id (av_row stored), vr_isValid = isValid,
            vr_storedHash = ad_data_hash (av_row stored), vr_currentHash = hr_hash cur,
            vr_current = hr_data cur,
            vr_status = (if isValid then ''VERIFIED'' else ''TAMPERED''),
            vr_message = (if isValid then ''Data integrity verified successfully''
                          else ''Data has been modified - integrity check failed'') \<rparr>,
      snd (logVerification t_log (ad_data_id (av_row stored)) isValid ''hash_comparison''
             (spread details
                [(''transactionHash'', ad_transaction_hash (av_row stored)),
                 (''currentHash'', JStr (hr_hash cur)),
                 (''storedHash'', ad_data_hash (av_row stored)),
                 (''comparisonMethod'', JStr ''SHA-256'')]) db1))"
proof -
  let ?lv = "logVerification t_log (ad_data_id (av_row stored)) isValid ''hash_comparison''
             (spread details
                [(''transactionHash'', ad_transaction_hash (av_row stored)),
                 (''currentHash'', JStr (hr_hash cur)),
                 (''storedHash'', ad_data_hash (av_row stored)),
                 (''comparisonMethod'', JStr ''SHA-256'')]) db1"
  have "fst ?lv = Inr ()" by (rule logVerification_returns)
  then obtain d where "?lv = (Inr (), d)" by (cases ?lv) auto
  with r c h show ?thesis
    by (simp add: verifyAgriDataIntegrity_def)
qed

lemma verifyAgriDataIntegrity_failure_logs:
  assumes "verifyAgriDataIntegrity t_hash t_log R i ty details db = (Inl e, db')"
  shows "verification_logs db' = verification_logs db"
proof -
  obtain q db1 where r: "db_retrieveAgriData ty i db = (q, db1)"
    by (cases "db_retrieveAgriData ty i db")
  note s = same_tables_logs [OF db_retrieveAgriData_same [OF r]]
  show ?thesis
  proof (cases q)
    case (Inl x)
    with assms r s show ?thesis by (simp add: verifyAgriDataIntegrity_def)
  next
    case (Inr stored)
    show ?thesis
    proof (cases "createAgriDataHash t_hash R")
      case (Inl x)
      with assms r s Inr show ?thesis by (simp add: verifyAgriDataIntegrity_def)
    next
      case c: (Inr cur)
      obtain b where "verifyHash (hr_data cur) (ad_data_hash (av_row stored)) = Inr b"
        using verifyHash_returns by blast
      from verifyAgriDataIntegrity_reaches_log [OF _ c this] r Inr assms show ?thesis
        by simp
    qed
  qed
qed

lemma retrieve_stored_database:
  "db_retrieveAgriData ''id'' (JNum 1) (stored_database\<lparr> faults := None # None # fs \<rparr>) =
     (Inr \<lparr> av_row = hd (agricultural_data stored_database),
            av_full_name = JStr ''Farmer P1'', av_email = JNull, av_phone = JNull,
            av_blockchain_status = JNull, av_gas_used = JNull, av_transaction_fee = JNull,
            av_files = [], av_verificationHistory = [] \<rparr>,
      stored_database\<lparr> faults := fs \<rparr>)"
  by (simp add: db_retrieveAgriData_def executeQuery_def take_fault_def stored_database_def
      empty_database_def select_agri_data_def matches_def left_join_def new_farmer_row_def
      obj_get_def js_or_def getVerificationLogs_def select_verification_logs_def)

lemma verifyHash_example:
  "verifyHash (dataWithMetadata ''2024-01-01T00:00:01.000Z'' example_record)
      (JStr ''0xe6cad9e46f4df78a591196465b3dbe6eb5a490b816a2738fbe7b7c6313e3c427'') = Inr False"
  by (simp add: verifyHash_def verifyHash_try_def generateHash_def dataString_of_def
      stringify_example_second sha256_example_second)
     (simp add: dataWithMetadata_def)

text \<open>
  C7, as stated, fails: with a stored record and an engine that executes the two queries
  of the retrieval and refuses the insertion into the log, the verification returns its
  verdict and the log has no new entry.
\<close>

theorem verification_without_log_entry:
  "(case verifyAgriDataIntegrity ''2024-01-01T00:00:01.000Z'' ''2024-01-01T00:00:01.000Z''
           example_record (JNum 1) ''id'' []
           (stored_database\<lparr> faults := [None, None, Some ''Connection is closed.''] \<rparr>) of
      (Inl e, db') \<Rightarrow> False
    | (Inr v, db') \<Rightarrow> vr_status v = ''TAMPERED''
                    \<and> verification_logs db' = verification_logs stored_database)"
proof -
  have l: "verification_logs (snd (logVerification now n ok m details
              (stored_database\<lparr> faults := [Some ''Connection is closed.''] \<rparr>)))
           = verification_logs stored_database" for now n ok m details
    by (simp add: logVerification_logs take_fault_def)
  have r: "db_retrieveAgriData ''id'' (JNum 1)
             (stored_database\<lparr> faults := [None, None, Some ''Connection is closed.''] \<rparr>) =
     (Inr \<lparr> av_row = hd (agricultural_data stored_database),
            av_full_name = JStr ''Farmer P1'', av_email = JNull, av_phone = JNull,
            av_blockchain_status = JNull, av_gas_used = JNull, av_transaction_fee = JNull,
            av_files = [], av_verificationHistory = [] \<rparr>,
      stored_database\<lparr> faults := [Some ''Connection is closed.''] \<rparr>)"
    by (rule retrieve_stored_database)
  note c = createAgriDataHash_example [of "''2024-01-01T00:00:01.000Z''"]
  have h: "verifyHash
       (hr_data \<lparr> hr_hash = ''0x'' @ sha256 (stringify (dataWithMetadata ''2024-01-01T00:00:01.000Z'' example_record)),
           hr_data = dataWithMetadata ''2024-01-01T00:00:01.000Z'' example_record,
           hr_fields = map fst (props_of (dataWithMetadata ''2024-01-01T00:00:01.000Z'' example_record)),
           hr_size = js_length (stringify (dataWithMetadata ''2024-01-01T00:00:01.000Z'' example_record)) \<rparr>)
       (ad_data_hash (av_row \<lparr> av_row = hd (agricultural_data stored_database),
            av_full_name = JStr ''Farmer P1'', av_email = JNull, av_phone = JNull,
            av_blockchain_status = JNull, av_gas_used = JNull, av_transaction_fee = JNull,
            av_files = [], av_verificationHistory = [] \<rparr>)) = Inr False"
    using verifyHash_example by (simp add: stored_database_def)
  show ?thesis
    unfolding verifyAgriDataIntegrity_reaches_log [OF r c h]
    by (simp add: l)
qed

text \<open>
  C7, amended. A verification that finds the record and gets the hash of the supplied data
  returns its verdict whatever happens to the log: if the engine executes the insertion,
  exactly one entry is appended, for this record and with this outcome; if the engine
  refuses it, no entry is appended and the verdict is returned all the same. A verification
  that fails before (record not found, required field missing) appends nothing. No entry
  that is in the log is changed or removed by a verification.
\<close>

theorem verifyAgriDataIntegrity_log:
  "(db_retrieveAgriData ty i db = (Inr stored, db1) \<and> createAgriDataHash t_hash R = Inr cur \<longrightarrow>
      (\<exists>v db'. verifyAgriDataIntegrity t_hash t_log R i ty details db = (Inr v, db')
          \<and> vr_status v = (if vr_isValid v then ''VERIFIED'' else ''TAMPERED'')
          \<and> (fst (take_fault db1) = None \<longrightarrow>
               (\<exists>entry. verification_logs db' = verification_logs db @ [entry]
                   \<and> vl_data_id entry = vr_dataId v
                   \<and> vl_is_valid entry = (if vr_isValid v then 1 else 0)
                   \<and> vl_log_id entry = next_log_id db))
          \<and> (fst (take_fault db1) \<noteq> None \<longrightarrow> verification_logs db' = verification_logs db)))
   \<and> (fst (verifyAgriDataIntegrity t_hash t_log R i ty details db) = Inl e \<longrightarrow>
        verification_logs (snd (verifyAgriDataIntegrity t_hash t_log R i ty details db))
          = verification_logs db)"
proof (intro conjI impI)
  assume a: "db_retrieveAgriData ty i db = (Inr stored, db1) \<and> createAgriDataHash t_hash R = Inr cur"
  then have r: "db_retrieveAgriData ty i db = (Inr stored, db1)"
    and c: "createAgriDataHash t_hash R = Inr cur" by simp_all
  obtain b where h: "verifyHash (hr_data cur) (ad_data_hash (av_row stored)) = Inr b"
    using verifyHash_returns by blast
  note s = db_retrieveAgriData_same [OF r]
  note v = verifyAgriDataIntegrity_reaches_log [OF r c h, of t_log details]
  show "\<exists>v db'. verifyAgriDataIntegrity t_hash t_log R i ty details db = (Inr v, db')
          \<and> vr_status v = (if vr_isValid v then ''VERIFIED'' else ''TAMPERED'')
          \<and> (fst (take_fault db1) = None \<longrightarrow>
               (\<exists>entry. verification_logs db' = verification_logs db @ [entry]
                   \<and> vl_data_id entry = vr_dataId v
                   \<and> vl_is_valid entry = (if vr_isValid v then 1 else 0)
                   \<and> vl_log_id entry = next_log_id db))
          \<and> (fst (take_fault db1) \<noteq> None \<longrightarrow> verification_logs db' = verification_logs db)"
    unfolding v
    by (auto simp: logVerification_logs same_tables_logs [OF s] same_tables_next_log_id [OF s]
          new_vlog_row_def)
next
  assume "fst (verifyAgriDataIntegrity t_hash t_log R i ty details db) = Inl e"
  then show "verification_logs (snd (verifyAgriDataIntegrity t_hash t_log R i ty details db))
          = verification_logs db"
    using verifyAgriDataIntegrity_failure_logs
    by (cases "verifyAgriDataIntegrity t_hash t_log R i ty details db") auto
qed

theorem verifyAgriDataIntegrity_log_witness:
  "(\<exists>v db'. verifyAgriDataIntegrity ''2024-01-01T00:00:01.000Z'' ''2024-01-01T00:00:02.000Z''
            example_record (JNum 1) ''id'' [] (stored_database\<lparr> faults := [None, None] \<rparr>) = (Inr v, db')
       \<and> vr_status v = (if vr_isValid v then ''VERIFIED'' else ''TAMPERED'')
       \<and> (\<exists>entry. verification_logs db' = [entry] \<and> vl_data_id entry = vr_dataId v
             \<and> vl_is_valid entry = (if vr_isValid v then 1 else 0) \<and> vl_log_id entry = 1))
   \<and> (\<exists>v db'. verifyAgriDataIntegrity ''2024-01-01T00:00:01.000Z'' ''2024-01-01T00:00:02.000Z''
            example_record (JNum 1) ''id'' []
            (stored_database\<lparr> faults := [None, None, Some ''Connection is closed.''] \<rparr>) = (Inr v, db')
       \<and> verification_logs db' = [])
   \<and> fst (verifyAgriDataIntegrity ''2024-01-01T00:00:01.000Z'' ''2024-01-01T00:00:02.000Z''
            example_record (JStr ''0xdead'') ''hash'' [] stored_database)
       = Inl (Error ''No data found for hash: 0xdead'')
   \<and> verification_logs (snd (verifyAgriDataIntegrity ''2024-01-01T00:00:01.000Z''
            ''2024-01-01T00:00:02.000Z'' example_record (JStr ''0xdead'') ''hash'' [] stored_database)) = []"
proof -
  let ?t = "''2024-01-01T00:00:01.000Z''"
  let ?u = "''2024-01-01T00:00:02.000Z''"
  let ?view = "\<lparr> av_row = hd (agricultural_data stored_database),
            av_full_name = JStr ''Farmer P1'', av_email = JNull, av_phone = JNull,
            av_blockchain_status = JNull, av_gas_used = JNull, av_transaction_fee = JNull,
            av_files = [], av_verificationHistory = [] \<rparr>"
  let ?cur = "\<lparr> hr_hash = ''0x'' @ sha256 (stringify (dataWithMetadata ?t example_record)),
           hr_data = dataWithMetadata ?t example_record,
           hr_fields = map fst (props_of (dataWithMetadata ?t example_record)),
           hr_size = js_length (stringify (dataWithMetadata ?t example_record)) \<rparr>"
  have c: "createAgriDataHash ?t example_record = Inr ?cur"
    by (rule createAgriDataHash_example)
  have logs: "verification_logs stored_database = []" and nxt: "next_log_id stored_database = 1"
    by (simp_all add: stored_database_def empty_database_def)
  have r1: "db_retrieveAgriData ''id'' (JNum 1) (stored_database\<lparr> faults := [None, None] \<rparr>)
      = (Inr ?view, stored_database\<lparr> faults := [] \<rparr>)"
    by (rule retrieve_stored_database)
  have f1: "fst (take_fault (stored_database\<lparr> faults := [] \<rparr>)) = None"
    by (simp add: take_fault_def)
  note i1 = verifyAgriDataIntegrity_log
         [where ty = "''id''" and i = "JNum 1" and db = "stored_database\<lparr> faults := [None, None] \<rparr>"
            and stored = ?view and ?db1.0 = "stored_database\<lparr> faults := [] \<rparr>" and t_hash = ?t
            and R = example_record and cur = ?cur and t_log = ?u and details = "[]"
            and e = "Error []", THEN conjunct1, rule_format, OF conjI, OF r1 c]
  from i1 f1
  have a: "\<exists>v db'. verifyAgriDataIntegrity ?t ?u example_record (JNum 1) ''id'' []
            (stored_database\<lparr> faults := [None, None] \<rparr>) = (Inr v, db')
       \<and> vr_status v = (if vr_isValid v then ''VERIFIED'' else ''TAMPERED'')
       \<and> (\<exists>entry. verification_logs db' = [entry] \<and> vl_data_id entry = vr_dataId v
             \<and> vl_is_valid entry = (if vr_isValid v then 1 else 0) \<and> vl_log_id entry = 1)"
    by (simp add: logs nxt)
  have r2: "db_retrieveAgriData ''id'' (JNum 1)
        (stored_database\<lparr> faults := [None, None, Some ''Connection is closed.''] \<rparr>)
      = (Inr ?view, stored_database\<lparr> faults := [Some ''Connection is closed.''] \<rparr>)"
    by (rule retrieve_stored_database)
  have f2: "fst (take_fault (stored_database\<lparr> faults := [Some ''Connection is closed.''] \<rparr>)) \<noteq> None"
    by (simp add: take_fault_def)
  note i2 = verifyAgriDataIntegrity_log
         [where ty = "''id''" and i = "JNum 1"
            and db = "stored_database\<lparr> faults := [None, None, Some ''Connection is closed.''] \<rparr>"
            and stored = ?view and ?db1.0 = "stored_database\<lparr> faults := [Some ''Connection is closed.''] \<rparr>"
            and t_hash = ?t and R = example_record and cur = ?cur and t_log = ?u and details = "[]"
            and e = "Error []", THEN conjunct1, rule_format, OF conjI, OF r2 c]
  from i2 f2
  have b: "\<exists>v db'. verifyAgriDataIntegrity ?t ?u example_record (JNum 1) ''id'' []
            (stored_database\<lparr> faults := [None, None, Some ''Connection is closed.''] \<rparr>) = (Inr v, db')
       \<and> verification_logs db' = []"
    by (auto simp: logs)
  have e: "fst (verifyAgriDataIntegrity ?t ?u example_record (JStr ''0xdead'') ''hash'' [] stored_database)
       = Inl (Error ''No data found for hash: 0xdead'')"
    by (simp add: verifyAgriDataIntegrity_def db_retrieveAgriData_def executeQuery_def take_fault_def
        stored_database_def empty_database_def select_agri_data_def matches_def example_tx_hash_def)
  note i3 = verifyAgriDataIntegrity_log
         [where ty = "''hash''" and i = "JStr ''0xdead''" and db = stored_database
            and stored = ?view and ?db1.0 = stored_database and t_hash = ?t
            and R = example_record and cur = ?cur and t_log = ?u and details = "[]"
            and e = "Error ''No data found for hash: 0xdead''", THEN conjunct2, rule_format, OF e]
  from i3 have d: "verification_logs (snd (verifyAgriDataIntegrity ?t ?u example_record (JStr ''0xdead'')
             ''hash'' [] stored_database)) = []"
    by (simp add: logs)
  from a b e d show ?thesis by blast
qed

section \<open>Storing a record and verifying it\<close>

text \<open>
  C1. The example record is stored when the clock reads \<^verbatim>\<open>2024-01-01T00:00:00.000Z\<close>, on an
  empty ledger and an empty database, with a network that confirms the transaction and an
  engine that executes every statement. Six seconds later the unchanged record is verified
  against the id that the storing returned. The verification finds the stored hash, hashes
  the record with the time of the verification, and returns the status \<^verbatim>\<open>TAMPERED\<close>.
\<close>

theorem verifyAgriDataIntegrity_after_storeAgriData:
  "(case storeAgriData ''2024-01-01T00:00:00.000Z'' ''2024-01-01T00:00:00.500Z''
           ''2024-01-01T00:00:05.000Z'' example_config example_answer example_record []
           (empty_ledger, empty_database) of
      (Inl e, world) \<Rightarrow> False
    | (Inr stored, world) \<Rightarrow>
        (case verifyAgriDataIntegrity ''2024-01-01T00:00:06.000Z'' ''2024-01-01T00:00:06.500Z''
                example_record (JNum (as_dataId stored)) ''id'' [] (snd world) of
           (Inl e, db') \<Rightarrow> False
         | (Inr v, db') \<Rightarrow>
             vr_storedHash v = JStr (as_dataHash stored)
           \<and> vr_current v = dataWithMetadata ''2024-01-01T00:00:06.000Z'' example_record
           \<and> \<not> vr_isValid v
           \<and> vr_status v = ''TAMPERED''))"
  by code_simp

end
